theory Spec2Isabelle
  imports Main "HOL-Library.Word"
begin

section \<open>The voice client of \<open>discord/voice_client.py\<close>\<close>

text \<open>
  A shallow embedding of \<open>VoiceClient\<close>: the object is a record, every method takes the
  record and returns the updated one, every exception the methods raise or catch is a value,
  and every call into a collaborator that is not part of \<open>voice_client.py\<close> (the logger,
  the UDP socket, the control connection, PyNaCl, the Opus constants) is either a parameter
  or an entry appended to the \<open>effects\<close> list of the record.
\<close>

subsection \<open>Bytes, exceptions, collaborators\<close>

type_synonym byte = "8 word"
type_synonym bytes = "byte list"

text \<open>
  A bytes-like value is an immutable \<open>bytes\<close> object or a \<open>bytearray\<close>. \<open>bytes(x)\<close> is
  \<open>Bytes (content x)\<close>; a slice \<open>x[i:j]\<close> has the type of \<open>x\<close>; \<open>x + y\<close> has the type of its
  left operand \<open>x\<close>.
\<close>

datatype buffer = Bytes bytes | ByteArray bytes

fun content :: "buffer \<Rightarrow> bytes" where
  "content (Bytes b) = b"
| "content (ByteArray b) = b"

fun slice :: "(bytes \<Rightarrow> bytes) \<Rightarrow> buffer \<Rightarrow> buffer" where
  "slice f (Bytes b) = Bytes (f b)"
| "slice f (ByteArray b) = ByteArray (f b)"

definition buf_add :: "buffer \<Rightarrow> bytes \<Rightarrow> buffer" where
  "buf_add x ys = slice (\<lambda>xs. xs @ ys) x"

datatype exc =
    KeyError string
  | IndexError
  | StructError
  | TypeError
  | ValueError
  | AttributeError string
  | BlockingIOError
  | OSError
  | CryptoError
  | ConnectionClosed int
  | TimeoutError

text \<open>Arguments of a log call: the values substituted into the format string.\<close>

datatype logarg = AInt int | AStr string | ANone

text \<open>
  The \<open>channel\<close> attribute: a channel of a guild (its id and the id of the guild, which the
  object reaches through its \<open>guild\<close> attribute), a private channel (an object with an id
  and without a \<open>guild\<close> attribute), the raw id when \<open>channel_id and ...\<close> stops at a falsy
  id, or \<open>None\<close>.
\<close>

datatype channel = GuildChannel int int | PrivateChannel int | RawChannelId string | NoChannel

text \<open>A payload of the signaling channel: a JSON object whose values are strings or null.\<close>

type_synonym payload = "string \<rightharpoonup> string option"

text \<open>
  Calls into collaborators, recorded in the order the methods make them. \<open>PlayerStop\<close>
  is the call \<open>self.player.stop()\<close>, \<open>WsClose code\<close> is \<open>ws.close(code)\<close>,
  \<open>GuildChangeVoiceState g c\<close> is \<open>guild.change_voice_state(channel=c)\<close> on the guild with
  id \<open>g\<close>, \<open>ClientChangeVoiceState c\<close> is
  \<open>_state.client.change_voice_state(channel=c, self_video=False)\<close>, \<open>RemoveVoiceClient\<close> is
  \<open>client._connection._remove_voice_client(key_id)\<close>, \<open>SendTo p ip port\<close> is
  \<open>socket.sendto(p, (ip, port))\<close>.
\<close>

datatype effect =
    LogInfo string "logarg list"
  | LogWarning string "logarg list"
  | LogException string "logarg list"
  | PlayerStop
  | WsClose "int option"
  | GuildChangeVoiceState int channel
  | ClientChangeVoiceState channel
  | RemoveVoiceClient
  | SocketClose
  | SendTo buffer "string option" int
  | WsFromClient bool
  | WsPollEvent
  | Sleep int
  | BackoffDelay
  | SleepBackoff
  | CreateTask

text \<open>
  What lies outside \<open>voice_client.py\<close> and is therefore a parameter of the model.
  \<^item> \<open>nacl.secret.SecretBox\<close>: \<open>secret_box key\<close> is the exception that \<open>SecretBox(key)\<close>
    raises, if any; \<open>box_encrypt key data nonce\<close> is
    \<open>SecretBox(key).encrypt(data, nonce).ciphertext\<close> for \<open>bytes\<close> arguments;
    \<open>box_decrypt key data nonce\<close> is \<open>SecretBox(key).decrypt(data, nonce)\<close> for \<open>bytes\<close>
    \<open>data\<close> and the nonce as it is passed, \<open>bytes\<close> or \<open>bytearray\<close>.
  \<^item> The constant \<open>opus.Encoder.SAMPLES_PER_FRAME\<close> and \<open>utils._get_as_snowflake\<close>.
  \<^item> The builtin \<open>int\<close> on a string: \<open>to_int s\<close> is \<open>None\<close> when \<open>int(s)\<close> raises
    \<open>ValueError\<close>.
  \<^item> The channel lookups: \<open>guild_get_channel g n\<close> is \<open>guild.get_channel(n)\<close> on the guild
    with id \<open>g\<close>, \<open>get_private_channel n\<close> is \<open>_state._get_private_channel(n)\<close>.
\<close>

record extern =
  secret_box :: "bytes \<Rightarrow> exc option"
  box_encrypt :: "bytes \<Rightarrow> bytes \<Rightarrow> bytes \<Rightarrow> exc + bytes"
  box_decrypt :: "bytes \<Rightarrow> bytes \<Rightarrow> buffer \<Rightarrow> exc + bytes"
  SAMPLES_PER_FRAME :: int
  get_as_snowflake :: "payload \<Rightarrow> string \<Rightarrow> int option"
  to_int :: "string \<Rightarrow> int option"
  guild_get_channel :: "int \<Rightarrow> int \<Rightarrow> channel"
  get_private_channel :: "int \<Rightarrow> channel"

subsection \<open>The object\<close>

text \<open>
  The attributes of \<open>VoiceClient\<close>. \<open>__init__\<close> does not assign \<open>session_id\<close>, \<open>endpoint\<close>,
  \<open>endpoint_ip\<close>, \<open>voice_port\<close>, \<open>server_id\<close>, \<open>secret_key\<close> and \<open>timeout\<close>: for these,
  \<open>None\<close> says that the attribute does not exist yet, and a method that reads it then
  raises \<open>AttributeError\<close>. \<open>endpoint_ip\<close> is the one of them that is later assigned
  \<open>None\<close> (by \<open>on_voice_server_update\<close>) and read (by \<open>send_audio_packet\<close>), so it holds
  \<open>Some None\<close> then; \<open>session_id\<close> and \<open>server_id\<close> are never read in this file.
  The two \<open>asyncio.Event\<close>s and the \<open>threading.Event\<close> are booleans (set or clear);
  \<open>runner\<close> says whether \<open>_runner\<close> holds a task; \<open>ws\<close> holds the number of the control
  connection; \<open>socket\<close> holds the blocking flag of the UDP socket.
\<close>

record voice_client =
  user_id :: int
  channel :: channel
  session_id :: "string option"
  token :: "string option"
  endpoint :: "string option"
  endpoint_ip :: "string option option"
  voice_port :: "int option"
  server_id :: "int option"
  socket :: "bool option"
  connected :: bool
  handshaking :: bool
  potentially_reconnecting :: bool
  voice_state_complete :: bool
  voice_server_complete :: bool
  mode :: "string option"
  connections :: int
  sequence :: int
  timestamp :: int
  runner :: bool
  lite_nonce :: int
  ws :: "nat option"
  idrcs :: "int \<rightharpoonup> int"
  ssids :: "int \<rightharpoonup> int"
  secret_key :: "bytes option"
  timeout :: "int option"
  effects :: "effect list"

text \<open>
  \<open>VoiceClient.__init__\<close>, for the user \<open>uid\<close> and the channel \<open>ch\<close>, where PyNaCl is
  installed (without it \<open>__init__\<close> raises \<open>RuntimeError\<close> and there is no object).
\<close>

definition init :: "int \<Rightarrow> channel \<Rightarrow> voice_client" where
  "init uid ch =
     \<lparr> user_id = uid, channel = ch, session_id = None, token = None,
       endpoint = None, endpoint_ip = None, voice_port = None, server_id = None,
       socket = None, connected = False, handshaking = False,
       potentially_reconnecting = False, voice_state_complete = False,
       voice_server_complete = False, mode = None, connections = 0, sequence = 0,
       timestamp = 0, runner = False, lite_nonce = 0, ws = None,
       idrcs = Map.empty, ssids = Map.empty, secret_key = None, timeout = None,
       effects = [] \<rparr>"

subsection \<open>The SSRC registry\<close>

text \<open>The property \<open>ssrc\<close> and its setter.\<close>

definition ssrc :: "voice_client \<Rightarrow> int option" where
  "ssrc self = idrcs self (user_id self)"

definition ssrc_setter :: "voice_client \<Rightarrow> int \<Rightarrow> voice_client" where
  "ssrc_setter self v =
     (let self1 = self\<lparr>idrcs := (idrcs self)(user_id self \<mapsto> v)\<rparr>
      in self1\<lparr>ssids := (ssids self1)(v \<mapsto> user_id self1)\<rparr>)"

text \<open>\<open>_flip_ssrc\<close>: the forward map first, the reverse map when it has no entry.\<close>

definition flip_ssrc :: "voice_client \<Rightarrow> int \<Rightarrow> int option" where
  "flip_ssrc self query =
     (case idrcs self query of
        None \<Rightarrow> ssids self query
      | Some v \<Rightarrow> Some v)"

text \<open>\<open>_set_ssrc\<close>.\<close>

definition set_ssrc :: "voice_client \<Rightarrow> int \<Rightarrow> int \<Rightarrow> voice_client" where
  "set_ssrc self uid s =
     (let self1 = self\<lparr>idrcs := (idrcs self)(uid \<mapsto> s)\<rparr>
      in self1\<lparr>ssids := (ssids self1)(s \<mapsto> uid)\<rparr>)"

text \<open>The two ways the registry is written, and a run of them from \<open>__init__\<close>.\<close>

datatype registry_op = SetSsrc int int | SsrcSetter int

fun registry_step :: "voice_client \<Rightarrow> registry_op \<Rightarrow> voice_client" where
  "registry_step self (SetSsrc uid s) = set_ssrc self uid s"
| "registry_step self (SsrcSetter v) = ssrc_setter self v"

definition registry_run :: "voice_client \<Rightarrow> registry_op list \<Rightarrow> voice_client" where
  "registry_run self ops = foldl registry_step self ops"

text \<open>The pair an operation writes, for the client whose own identity is \<open>me\<close>.\<close>

fun op_pair :: "int \<Rightarrow> registry_op \<Rightarrow> int \<times> int" where
  "op_pair me (SetSsrc uid s) = (uid, s)"
| "op_pair me (SsrcSetter v) = (me, v)"

subsection \<open>Counters\<close>

text \<open>
  \<open>_checked_add(attr, value, limit)\<close> reads and writes the attribute named \<open>attr\<close>; the
  three names it is called with are the three constructors.
\<close>

datatype attr = Attr_sequence | Attr_timestamp | Attr_lite_nonce

fun getattr :: "voice_client \<Rightarrow> attr \<Rightarrow> int" where
  "getattr self Attr_sequence = sequence self"
| "getattr self Attr_timestamp = timestamp self"
| "getattr self Attr_lite_nonce = lite_nonce self"

fun setattr :: "voice_client \<Rightarrow> attr \<Rightarrow> int \<Rightarrow> voice_client" where
  "setattr self Attr_sequence v = self\<lparr>sequence := v\<rparr>"
| "setattr self Attr_timestamp v = self\<lparr>timestamp := v\<rparr>"
| "setattr self Attr_lite_nonce v = self\<lparr>lite_nonce := v\<rparr>"

definition checked_add :: "voice_client \<Rightarrow> attr \<Rightarrow> int \<Rightarrow> int \<Rightarrow> voice_client" where
  "checked_add self a val limit =
     (let cur = getattr self a in
      if cur + val > limit then setattr self a 0 else setattr self a (cur + val))"

subsection \<open>The packet codec\<close>

text \<open>
  \<open>struct.pack('>H', n)\<close> and \<open>struct.pack('>I', n)\<close>: big-endian, and \<open>struct.error\<close>
  when \<open>n\<close> does not fit.
\<close>

definition pack_H :: "int \<Rightarrow> exc + bytes" where
  "pack_H n =
     (if 0 \<le> n \<and> n \<le> 65535
      then Inr [word_of_int (n div 256), word_of_int n]
      else Inl StructError)"

definition pack_I :: "int \<Rightarrow> exc + bytes" where
  "pack_I n =
     (if 0 \<le> n \<and> n \<le> 4294967295
      then Inr [word_of_int (n div 16777216), word_of_int (n div 65536),
                word_of_int (n div 256), word_of_int n]
      else Inl StructError)"

text \<open>
  \<open>_strip_header\<close>, on the \<open>bytes\<close> that \<open>box.decrypt\<close> returns. \<open>data[0]\<close> and \<open>data[1]\<close>
  raise \<open>IndexError\<close> past the end of \<open>data\<close>; \<open>and\<close> evaluates left to right and stops at
  the first false operand, so \<open>len(data) > 4\<close> is tested last.
  \<open>struct.unpack_from('>HH', data)\<close> reads the first four bytes; the second half-word is the
  length.
\<close>

definition strip_header :: "bytes \<Rightarrow> exc + bytes" where
  "strip_header data =
     (case data of
        [] \<Rightarrow> Inl IndexError
      | d0 # r0 \<Rightarrow>
          if d0 = 0xbe then
            (case r0 of
               [] \<Rightarrow> Inl IndexError
             | d1 # r1 \<Rightarrow>
                 if d1 = 0xde \<and> length data > 4 then
                   (let len = uint (data ! 2) * 256 + uint (data ! 3);
                        offset = 4 + len * 4
                    in Inr (drop (nat offset) data))
                 else Inr data)
          else Inr data)"

text \<open>
  The three seal operations. Each returns the packet or the exception, and the object.
  \<open>header\<close> is the bytes-like value the caller passes, \<open>data\<close> stands for \<open>bytes(data)\<close>.
  \<open>nonce[:12] = header\<close> puts the content of \<open>header\<close> in the place of the first 12 bytes of
  the 24 zero bytes.
\<close>

definition encrypt_xsalsa20_poly1305 ::
  "extern \<Rightarrow> voice_client \<Rightarrow> buffer \<Rightarrow> bytes \<Rightarrow> (exc + buffer) \<times> voice_client" where
  "encrypt_xsalsa20_poly1305 ext self header data =
     (case secret_key self of
        None \<Rightarrow> (Inl (AttributeError ''secret_key''), self)
      | Some key \<Rightarrow>
          (case secret_box ext key of
             Some e \<Rightarrow> (Inl e, self)
           | None \<Rightarrow>
               (let nonce = content header @ drop 12 (replicate 24 0) in
                case box_encrypt ext key data nonce of
                  Inl e \<Rightarrow> (Inl e, self)
                | Inr ciphertext \<Rightarrow> (Inr (buf_add header ciphertext), self))))"

text \<open>\<open>rnd\<close> is what \<open>nacl.utils.random(NONCE_SIZE)\<close> returns in this call, a \<open>bytes\<close> object.\<close>

definition encrypt_xsalsa20_poly1305_suffix ::
  "extern \<Rightarrow> bytes \<Rightarrow> voice_client \<Rightarrow> buffer \<Rightarrow> bytes \<Rightarrow> (exc + buffer) \<times> voice_client" where
  "encrypt_xsalsa20_poly1305_suffix ext rnd self header data =
     (case secret_key self of
        None \<Rightarrow> (Inl (AttributeError ''secret_key''), self)
      | Some key \<Rightarrow>
          (case secret_box ext key of
             Some e \<Rightarrow> (Inl e, self)
           | None \<Rightarrow>
               (let nonce = rnd in
                case box_encrypt ext key data nonce of
                  Inl e \<Rightarrow> (Inl e, self)
                | Inr ciphertext \<Rightarrow>
                    (Inr (buf_add (buf_add header ciphertext) nonce), self))))"

definition encrypt_xsalsa20_poly1305_lite ::
  "extern \<Rightarrow> voice_client \<Rightarrow> buffer \<Rightarrow> bytes \<Rightarrow> (exc + buffer) \<times> voice_client" where
  "encrypt_xsalsa20_poly1305_lite ext self header data =
     (case secret_key self of
        None \<Rightarrow> (Inl (AttributeError ''secret_key''), self)
      | Some key \<Rightarrow>
          (case secret_box ext key of
             Some e \<Rightarrow> (Inl e, self)
           | None \<Rightarrow>
               (case pack_I (lite_nonce self) of
                  Inl e \<Rightarrow> (Inl e, self)
                | Inr counter \<Rightarrow>
                    (let nonce = counter @ drop 4 (replicate 24 0);
                         self1 = checked_add self Attr_lite_nonce 1 4294967295
                     in case box_encrypt ext key data nonce of
                          Inl e \<Rightarrow> (Inl e, self1)
                        | Inr ciphertext \<Rightarrow>
                            (Inr (buf_add (buf_add header ciphertext) (take 4 nonce)), self1)))))"

text \<open>
  The three open operations; \<open>data[-n:]\<close> and \<open>data[:-n]\<close> are Python's slices. The plain
  and the lite opener pass \<open>bytes(nonce)\<close> to \<open>box.decrypt\<close>; the suffix opener passes the
  slice \<open>data[-nonce_size:]\<close> as it is, a value of the type of \<open>data\<close>.
\<close>

definition decrypt_xsalsa20_poly1305 ::
  "extern \<Rightarrow> voice_client \<Rightarrow> buffer \<Rightarrow> buffer \<Rightarrow> exc + bytes" where
  "decrypt_xsalsa20_poly1305 ext self header data =
     (case secret_key self of
        None \<Rightarrow> Inl (AttributeError ''secret_key'')
      | Some key \<Rightarrow>
          (case secret_box ext key of
             Some e \<Rightarrow> Inl e
           | None \<Rightarrow>
               (let nonce = content header @ drop 12 (replicate 24 0) in
                case box_decrypt ext key (content data) (Bytes nonce) of
                  Inl e \<Rightarrow> Inl e
                | Inr plain \<Rightarrow> strip_header plain)))"

definition decrypt_xsalsa20_poly1305_suffix ::
  "extern \<Rightarrow> voice_client \<Rightarrow> buffer \<Rightarrow> buffer \<Rightarrow> exc + bytes" where
  "decrypt_xsalsa20_poly1305_suffix ext self header data =
     (case secret_key self of
        None \<Rightarrow> Inl (AttributeError ''secret_key'')
      | Some key \<Rightarrow>
          (case secret_box ext key of
             Some e \<Rightarrow> Inl e
           | None \<Rightarrow>
               (let nonce_size = 24;
                    nonce = slice (\<lambda>d. drop (length d - nonce_size) d) data
                in case box_decrypt ext key
                          (take (length (content data) - nonce_size) (content data)) nonce of
                     Inl e \<Rightarrow> Inl e
                   | Inr plain \<Rightarrow> strip_header plain)))"

definition decrypt_xsalsa20_poly1305_lite ::
  "extern \<Rightarrow> voice_client \<Rightarrow> buffer \<Rightarrow> buffer \<Rightarrow> exc + bytes" where
  "decrypt_xsalsa20_poly1305_lite ext self header data =
     (case secret_key self of
        None \<Rightarrow> Inl (AttributeError ''secret_key'')
      | Some key \<Rightarrow>
          (case secret_box ext key of
             Some e \<Rightarrow> Inl e
           | None \<Rightarrow>
               (let nonce = drop (length (content data) - 4) (content data)
                              @ drop 4 (replicate 24 0);
                    data1 = take (length (content data) - 4) (content data)
                in case box_decrypt ext key data1 (Bytes nonce) of
                     Inl e \<Rightarrow> Inl e
                   | Inr plain \<Rightarrow> strip_header plain)))"

text \<open>
  \<open>_get_voice_packet\<close>. The header is a \<open>bytearray\<close>, and so is the packet.
  \<open>struct.pack_into\<close> raises \<open>struct.error\<close> for a value that does not fit and for \<open>None\<close>;
  \<open>'_encrypt_' + self.mode\<close> raises \<open>TypeError\<close> when the mode is \<open>None\<close>, and \<open>getattr\<close>
  raises \<open>AttributeError\<close> for a name that is no method.
\<close>

definition get_voice_packet ::
  "extern \<Rightarrow> bytes \<Rightarrow> voice_client \<Rightarrow> bytes \<Rightarrow> (exc + buffer) \<times> voice_client" where
  "get_voice_packet ext rnd self data =
     (case pack_H (sequence self) of
        Inl e \<Rightarrow> (Inl e, self)
      | Inr sq \<Rightarrow>
     (case pack_I (timestamp self) of
        Inl e \<Rightarrow> (Inl e, self)
      | Inr ts \<Rightarrow>
     (case ssrc self of
        None \<Rightarrow> (Inl StructError, self)
      | Some v \<Rightarrow>
     (case pack_I v of
        Inl e \<Rightarrow> (Inl e, self)
      | Inr ss \<Rightarrow>
     (let header = ByteArray ([0x80, 0x78] @ sq @ ts @ ss) in
      case mode self of
        None \<Rightarrow> (Inl TypeError, self)
      | Some m \<Rightarrow>
          if m = ''xsalsa20_poly1305'' then encrypt_xsalsa20_poly1305 ext self header data
          else if m = ''xsalsa20_poly1305_suffix''
            then encrypt_xsalsa20_poly1305_suffix ext rnd self header data
          else if m = ''xsalsa20_poly1305_lite''
            then encrypt_xsalsa20_poly1305_lite ext self header data
          else (Inl (AttributeError (''_encrypt_'' @ m)), self))))))"

text \<open>
  Modelled from the spec: the caller of the \<open>_decrypt_\<close> methods is not in
  \<open>voice_client.py\<close>. The spec's \<open>parseInboundPacket\<close> splits the 12-byte header from the
  remainder and invokes the open operation of the active mode; the open operations
  themselves, and \<open>_strip_header\<close> which they end with, are the ones above. The two parts
  are slices of the packet, so they have its type.
\<close>

definition parse_inbound_packet :: "extern \<Rightarrow> voice_client \<Rightarrow> buffer \<Rightarrow> exc + bytes" where
  "parse_inbound_packet ext self packet =
     (let header = slice (take 12) packet; data = slice (drop 12) packet in
      case mode self of
        None \<Rightarrow> Inl TypeError
      | Some m \<Rightarrow>
          if m = ''xsalsa20_poly1305'' then decrypt_xsalsa20_poly1305 ext self header data
          else if m = ''xsalsa20_poly1305_suffix''
            then decrypt_xsalsa20_poly1305_suffix ext self header data
          else if m = ''xsalsa20_poly1305_lite''
            then decrypt_xsalsa20_poly1305_lite ext self header data
          else Inl (AttributeError (''_decrypt_'' @ m)))"

subsection \<open>Sending\<close>

text \<open>
  What the environment decides in one call of \<open>send_audio_packet\<close>: the random nonce of the
  suffix mode, and whether \<open>socket.sendto\<close> returns or raises.
\<close>

datatype sendto_outcome = Sent | Raises exc

record send_env =
  random_nonce :: bytes
  sendto_result :: sendto_outcome

text \<open>
  \<open>send_audio_packet\<close>. The result is the exception that leaves the call, if any, and the
  object as the call left it. \<open>self.socket.sendto\<close> raises \<open>AttributeError\<close> when there is
  no socket, and so does the evaluation of the arguments \<open>self.endpoint_ip\<close> and
  \<open>self.voice_port\<close> when the attribute has not been assigned; only \<open>BlockingIOError\<close> is
  caught.
\<close>

definition send_audio_packet ::
  "extern \<Rightarrow> send_env \<Rightarrow> voice_client \<Rightarrow> bytes \<Rightarrow> exc option \<times> voice_client" where
  "send_audio_packet ext env self data =
     (let self1 = checked_add self Attr_sequence 1 65535 in
      case get_voice_packet ext (random_nonce env) self1 data of
        (Inl e, self2) \<Rightarrow> (Some e, self2)
      | (Inr packet, self2) \<Rightarrow>
          (case socket self2 of
             None \<Rightarrow> (Some (AttributeError ''sendto''), self2)
           | Some _ \<Rightarrow>
          (case endpoint_ip self2 of
             None \<Rightarrow> (Some (AttributeError ''endpoint_ip''), self2)
           | Some ip \<Rightarrow>
          (case voice_port self2 of
             None \<Rightarrow> (Some (AttributeError ''voice_port''), self2)
           | Some port \<Rightarrow>
               (case sendto_result env of
                  Sent \<Rightarrow>
                    (let self3 = self2\<lparr>effects := effects self2 @ [SendTo packet ip port]\<rparr>
                     in (None, checked_add self3 Attr_timestamp (SAMPLES_PER_FRAME ext) 4294967295))
                | Raises e \<Rightarrow>
                    if e = BlockingIOError then
                      (let self3 = self2\<lparr>effects := effects self2 @
                             [LogWarning ''A packet has been dropped (seq: %s, timestamp: %s).''
                                [AInt (sequence self2), AInt (timestamp self2)]]\<rparr>
                       in (None, checked_add self3 Attr_timestamp (SAMPLES_PER_FRAME ext) 4294967295))
                    else (Some e, self2))))))"

text \<open>A run of calls, as the player makes them: it ends at the first call that raises.\<close>

fun send_audio_packets ::
  "extern \<Rightarrow> voice_client \<Rightarrow> (bytes \<times> send_env) list \<Rightarrow> exc option \<times> voice_client" where
  "send_audio_packets ext self [] = (None, self)"
| "send_audio_packets ext self ((data, env) # rest) =
     (case send_audio_packet ext env self data of
        (Some e, self1) \<Rightarrow> (Some e, self1)
      | (None, self1) \<Rightarrow> send_audio_packets ext self1 rest)"

subsection \<open>Conditions under which a call returns\<close>

text \<open>
  A client that can send: a supported mode, its own stream id registered and in the range
  of a 32-bit field, a key that the box accepts and under which it seals with every 24-byte
  nonce, a socket, an assigned media address, and the three counters inside their fields.
  The control connection establishes all of this before the player calls
  \<open>send_audio_packet\<close>.
\<close>

definition ready_to_send :: "extern \<Rightarrow> voice_client \<Rightarrow> bool" where
  "ready_to_send ext self \<longleftrightarrow>
     mode self \<in> {Some ''xsalsa20_poly1305'', Some ''xsalsa20_poly1305_suffix'',
                   Some ''xsalsa20_poly1305_lite''}
     \<and> (\<exists>v. ssrc self = Some v \<and> 0 \<le> v \<and> v \<le> 4294967295)
     \<and> (\<exists>key. secret_key self = Some key \<and> secret_box ext key = None
            \<and> (\<forall>data nonce. length nonce = 24 \<longrightarrow>
                   (\<exists>c. box_encrypt ext key data nonce = Inr c)))
     \<and> socket self \<noteq> None \<and> endpoint_ip self \<noteq> None \<and> voice_port self \<noteq> None
     \<and> 0 \<le> sequence self \<and> sequence self \<le> 65535
     \<and> 0 \<le> timestamp self \<and> timestamp self \<le> 4294967295
     \<and> 0 \<le> lite_nonce self \<and> lite_nonce self \<le> 4294967295
     \<and> 0 \<le> SAMPLES_PER_FRAME ext"

text \<open>
  \<open>nacl.utils.random(24)\<close> returns 24 bytes, and the socket accepts the packet or is
  momentarily unwritable.
\<close>

definition send_returns :: "send_env \<Rightarrow> bool" where
  "send_returns env \<longleftrightarrow>
     length (random_nonce env) = 24
     \<and> (sendto_result env = Sent \<or> sendto_result env = Raises BlockingIOError)"

subsection \<open>Concrete inputs\<close>

text \<open>
  A box for concrete runs, with the interface of \<open>SecretBox\<close>: the key has 32 bytes and the
  nonce is a \<open>bytes\<close> object of 24 bytes, or the call raises. Sealing puts a 16-byte tag
  before the plaintext, here the first 16 bytes of the nonce; opening checks the tag against
  the nonce and removes it. With it, 960 samples per frame (20 ms at 48 kHz), a snowflake
  reader that finds nothing, decimal numerals for \<open>int\<close>, and channel lookups that find
  nothing.
\<close>

definition digit_value :: "char \<Rightarrow> nat" where
  "digit_value c = of_char c - 48"

definition decimal :: "string \<Rightarrow> int option" where
  "decimal s =
     (if s \<noteq> [] \<and> list_all (\<lambda>c. (48::nat) \<le> of_char c \<and> of_char c \<le> (57::nat)) s
      then Some (int (foldl (\<lambda>a c. 10 * a + digit_value c) 0 s))
      else None)"

definition toy_ext :: extern where
  "toy_ext =
     \<lparr> secret_box = (\<lambda>key. if length key = 32 then None else Some ValueError),
       box_encrypt = (\<lambda>key data nonce.
          if length nonce \<noteq> 24 then Inl ValueError else Inr (take 16 nonce @ data)),
       box_decrypt = (\<lambda>key data nonce.
          case nonce of
            ByteArray n \<Rightarrow> Inl TypeError
          | Bytes n \<Rightarrow>
              if length n \<noteq> 24 then Inl ValueError
              else if length data < 16 then Inl CryptoError
              else if take 16 data = take 16 n then Inr (drop 16 data)
              else Inl CryptoError),
       SAMPLES_PER_FRAME = 960,
       get_as_snowflake = (\<lambda>data key. None),
       to_int = decimal,
       guild_get_channel = (\<lambda>g n. NoChannel),
       get_private_channel = (\<lambda>n. NoChannel) \<rparr>"

text \<open>
  A connected client: user 1 in channel 7 of guild 3, stream id 5 registered through the
  setter, a key, a non-blocking socket, a media address, and the given mode.
\<close>

definition toy_client :: "string \<Rightarrow> voice_client" where
  "toy_client m =
     (ssrc_setter (init 1 (GuildChannel 7 3)) 5)
       \<lparr> mode := Some m, secret_key := Some (replicate 32 0), socket := Some False,
         endpoint_ip := Some (Some ''203.0.113.5''), voice_port := Some 50000,
         connected := True \<rparr>"

definition env_sent :: send_env where
  "env_sent = \<lparr> random_nonce = replicate 24 0, sendto_result = Sent \<rparr>"

definition env_blocked :: send_env where
  "env_blocked = \<lparr> random_nonce = replicate 24 0, sendto_result = Raises BlockingIOError \<rparr>"

subsection \<open>A run of lite-mode seals\<close>

text \<open>
  Consecutive calls of \<open>_encrypt_xsalsa20_poly1305_lite\<close>, each with its header and its
  payload; the run ends at the first call that raises, and returns the packets in order.
\<close>

fun lite_seals ::
  "extern \<Rightarrow> voice_client \<Rightarrow> (buffer \<times> bytes) list \<Rightarrow> (exc + buffer list) \<times> voice_client" where
  "lite_seals ext self [] = (Inr [], self)"
| "lite_seals ext self ((header, data) # rest) =
     (case encrypt_xsalsa20_poly1305_lite ext self header data of
        (Inl e, self1) \<Rightarrow> (Inl e, self1)
      | (Inr packet, self1) \<Rightarrow>
          (case lite_seals ext self1 rest of
             (Inl e, self2) \<Rightarrow> (Inl e, self2)
           | (Inr packets, self2) \<Rightarrow> (Inr (packet # packets), self2)))"

subsection \<open>Teardown\<close>

definition is_connected :: "voice_client \<Rightarrow> bool" where
  "is_connected self = connected self"

text \<open>
  \<open>self.guild\<close> is \<open>getattr(self.channel, 'guild', None)\<close>: the guild of a guild channel
  (here its id), \<open>None\<close> for every other value of \<open>channel\<close>.
\<close>

definition guild :: "voice_client \<Rightarrow> int option" where
  "guild self = (case channel self of GuildChannel cid gid \<Rightarrow> Some gid | _ \<Rightarrow> None)"

text \<open>\<open>voice_connect\<close>: the guild, or the client when there is none, is asked for the change.\<close>

definition voice_connect :: "voice_client \<Rightarrow> voice_client" where
  "voice_connect self =
     (case guild self of
        Some gid \<Rightarrow> self\<lparr>effects := effects self @ [GuildChangeVoiceState gid (channel self)]\<rparr>
      | None \<Rightarrow> self\<lparr>effects := effects self @ [ClientChangeVoiceState (channel self)]\<rparr>)"

text \<open>
  \<open>voice_disconnect\<close>. The arguments of the log call are evaluated first: \<open>self.channel.id\<close>
  raises \<open>AttributeError\<close> when \<open>channel\<close> is \<open>None\<close> or a string, and then nothing is
  logged and no change is requested.
\<close>

definition voice_disconnect :: "voice_client \<Rightarrow> exc option \<times> voice_client" where
  "voice_disconnect self =
     (case channel self of
        GuildChannel cid gid \<Rightarrow>
          (None, self\<lparr>effects := effects self @
             [LogInfo ''The voice handshake is being terminated for Channel ID %s (Guild ID %s).''
                [AInt cid, AInt gid],
              GuildChangeVoiceState gid NoChannel]\<rparr>)
      | PrivateChannel cid \<Rightarrow>
          (None, self\<lparr>effects := effects self @
             [LogInfo ''The voice handshake is being terminated for Channel ID %s (Guild ID %s).''
                [AInt cid, ANone],
              ClientChangeVoiceState NoChannel]\<rparr>)
      | RawChannelId s \<Rightarrow> (Some (AttributeError ''id''), self)
      | NoChannel \<Rightarrow> (Some (AttributeError ''id''), self))"

text \<open>
  \<open>VoiceProtocol.cleanup\<close>: \<open>self.channel._get_voice_client_key()\<close> raises
  \<open>AttributeError\<close> when \<open>channel\<close> is \<open>None\<close> or a string.
\<close>

definition cleanup :: "voice_client \<Rightarrow> exc option \<times> voice_client" where
  "cleanup self =
     (case channel self of
        GuildChannel cid gid \<Rightarrow> (None, self\<lparr>effects := effects self @ [RemoveVoiceClient]\<rparr>)
      | PrivateChannel cid \<Rightarrow> (None, self\<lparr>effects := effects self @ [RemoveVoiceClient]\<rparr>)
      | RawChannelId s \<Rightarrow> (Some (AttributeError ''_get_voice_client_key''), self)
      | NoChannel \<Rightarrow> (Some (AttributeError ''_get_voice_client_key''), self))"

text \<open>
  \<open>disconnect(force)\<close>. The calls into collaborators are taken to return; \<open>ws.close()\<close> is
  recorded with no code, the collaborator's default. The \<open>finally\<close> block runs whether
  \<open>voice_disconnect\<close> raised or not; an exception raised inside it takes the place of the
  pending one and skips \<open>socket.close()\<close>; when the block completes, the pending exception
  leaves the method.
\<close>

definition disconnect :: "bool \<Rightarrow> voice_client \<Rightarrow> exc option \<times> voice_client" where
  "disconnect force self =
     (if \<not> force \<and> \<not> is_connected self then (None, self)
      else
        (let self1 = self\<lparr>effects := effects self @ [PlayerStop]\<rparr>;
             self2 = self1\<lparr>connected := False\<rparr>;
             self3 = (case ws self2 of
                        None \<Rightarrow> self2
                      | Some w \<Rightarrow> self2\<lparr>effects := effects self2 @ [WsClose None]\<rparr>)
         in case voice_disconnect self3 of
              (pending, self4) \<Rightarrow>
                (case cleanup self4 of
                   (Some e, self5) \<Rightarrow> (Some e, self5)
                 | (None, self5) \<Rightarrow>
                     (case socket self5 of
                        None \<Rightarrow> (pending, self5)
                      | Some b \<Rightarrow>
                          (pending, self5\<lparr>effects := effects self5 @ [SocketClose]\<rparr>)))))"

subsection \<open>The two signaling callbacks\<close>

text \<open>\<open>data.get(key)\<close> and \<open>data[key]\<close>.\<close>

definition payload_get :: "payload \<Rightarrow> string \<Rightarrow> string option" where
  "payload_get data key = (case data key of None \<Rightarrow> None | Some v \<Rightarrow> v)"

definition payload_item :: "payload \<Rightarrow> string \<Rightarrow> exc + string option" where
  "payload_item data key = (case data key of None \<Rightarrow> Inl (KeyError key) | Some v \<Rightarrow> Inr v)"

text \<open>
  \<open>on_voice_state_update\<close>. \<open>channel_id and lookup(int(channel_id))\<close> yields the id itself
  when it is the empty string; otherwise \<open>int(channel_id)\<close> is evaluated, and its
  \<open>ValueError\<close> leaves the method. An exception of \<open>disconnect()\<close> leaves it too.
\<close>

definition on_voice_state_update ::
  "extern \<Rightarrow> voice_client \<Rightarrow> payload \<Rightarrow> exc option \<times> voice_client" where
  "on_voice_state_update ext self data =
     (case payload_item data ''session_id'' of
        Inl e \<Rightarrow> (Some e, self)
      | Inr sid \<Rightarrow>
          (let self1 = self\<lparr>session_id := sid\<rparr> in
           case payload_item data ''channel_id'' of
             Inl e \<Rightarrow> (Some e, self1)
           | Inr channel_id \<Rightarrow>
               if \<not> handshaking self1 \<or> potentially_reconnecting self1 then
                 (case channel_id of
                    None \<Rightarrow> disconnect False self1
                  | Some cid \<Rightarrow>
                      if cid = [] then (None, self1\<lparr>channel := RawChannelId cid\<rparr>)
                      else
                        (case to_int ext cid of
                           None \<Rightarrow> (Some ValueError, self1)
                         | Some n \<Rightarrow>
                             (case guild self1 of
                                Some gid \<Rightarrow>
                                  (None, self1\<lparr>channel := guild_get_channel ext gid n\<rparr>)
                              | None \<Rightarrow>
                                  (None, self1\<lparr>channel := get_private_channel ext n\<rparr>))))
               else (None, self1\<lparr>voice_state_complete := True\<rparr>)))"

text \<open>\<open>s.rpartition(sep)[0]\<close>: what stands before the last \<open>sep\<close>, empty when there is none.\<close>

definition rpartition_head :: "char \<Rightarrow> string \<Rightarrow> string" where
  "rpartition_head sep s =
     (if sep \<in> set s then rev (tl (dropWhile (\<lambda>c. c \<noteq> sep) (rev s))) else [])"

text \<open>
  \<open>on_voice_server_update\<close>. The new socket is non-blocking; \<open>self.ws.close(4000)\<close> raises
  \<open>AttributeError\<close> when there is no control connection.
\<close>

definition on_voice_server_update ::
  "extern \<Rightarrow> voice_client \<Rightarrow> payload \<Rightarrow> exc option \<times> voice_client" where
  "on_voice_server_update ext self data =
     (if voice_server_complete self then
        (None, self\<lparr>effects := effects self @
                 [LogInfo ''Ignoring extraneous voice server update.'' []]\<rparr>)
      else
        (let self1 = self\<lparr>token := payload_get data ''token''\<rparr>;
             server_id0 = get_as_snowflake ext data ''guild_id'';
             self2 = self1\<lparr>server_id := server_id0\<rparr>;
             self3 = (if server_id0 = None
                      then self2\<lparr>server_id := get_as_snowflake ext data ''channel_id''\<rparr>
                      else self2);
             endpoint0 = payload_get data ''endpoint''
         in case (endpoint0, token self3) of
              (Some ep, Some tok) \<Rightarrow>
                (let e1 = rpartition_head CHR '':'' ep;
                     e2 = (if take 6 e1 = ''wss://'' then drop 6 e1 else e1);
                     self4 = self3\<lparr>endpoint := Some e2\<rparr>;
                     self5 = self4\<lparr>endpoint_ip := Some None\<rparr>;
                     self6 = self5\<lparr>socket := Some False\<rparr>
                 in if \<not> handshaking self6 then
                      (case ws self6 of
                         None \<Rightarrow> (Some (AttributeError ''close''), self6)
                       | Some w \<Rightarrow>
                           (None, self6\<lparr>effects := effects self6 @ [WsClose (Some 4000)]\<rparr>))
                    else (None, self6\<lparr>voice_server_complete := True\<rparr>))
            | _ \<Rightarrow>
                (None, self3\<lparr>effects := effects self3 @
                   [LogWarning (''Awaiting endpoint... This requires waiting. '' @
                      ''If timeout occurred considering raising the timeout and reconnecting.'')
                      []]\<rparr>)))"

subsection \<open>The handshake\<close>

definition prepare_handshake :: "voice_client \<Rightarrow> voice_client" where
  "prepare_handshake self =
     (let self1 = self\<lparr>voice_state_complete := False\<rparr>;
          self2 = self1\<lparr>voice_server_complete := False\<rparr>;
          self3 = self2\<lparr>handshaking := True\<rparr>;
          self4 = self3\<lparr>effects := effects self3 @
                    [LogInfo ''Starting voice handshake (connection attempt %d)...''
                       [AInt (connections self3 + 1)]]\<rparr>
      in self4\<lparr>connections := connections self4 + 1\<rparr>)"

text \<open>
  \<open>finish_handshake\<close>: the log call reads \<open>self.endpoint\<close> first, which raises
  \<open>AttributeError\<close> when no endpoint has been assigned.
\<close>

definition finish_handshake :: "voice_client \<Rightarrow> exc option \<times> voice_client" where
  "finish_handshake self =
     (case endpoint self of
        None \<Rightarrow> (Some (AttributeError ''endpoint''), self)
      | Some ep \<Rightarrow>
          (let self1 = self\<lparr>effects := effects self @
                         [LogInfo ''Voice handshake complete. Endpoint found: %s.'' [AStr ep]]\<rparr>;
               self2 = self1\<lparr>handshaking := False\<rparr>;
               self3 = self2\<lparr>voice_server_complete := False\<rparr>
           in (None, self3\<lparr>voice_state_complete := False\<rparr>)))"

text \<open>
  Modelled from the spec: \<open>DiscordVoiceWebSocket\<close> is not in \<open>voice_client.py\<close>. The
  spec's open operation of the control connection yields the encryption mode, the secret
  key, the media address and the stream id; \<open>control_writes\<close> stores them in the client
  when the handshake of the control connection succeeds.
\<close>

record negotiated =
  new_ws :: nat
  new_mode :: string
  new_secret_key :: bytes
  new_ssrc :: int
  new_endpoint_ip :: string
  new_voice_port :: int

definition control_writes :: "negotiated \<Rightarrow> voice_client \<Rightarrow> voice_client" where
  "control_writes neg self =
     ssrc_setter
       (self\<lparr>mode := Some (new_mode neg), secret_key := Some (new_secret_key neg),
             endpoint_ip := Some (Some (new_endpoint_ip neg)),
             voice_port := Some (new_voice_port neg)\<rparr>)
       (new_ssrc neg)"

text \<open>
  How one \<open>connect_websocket\<close> goes: \<open>from_client\<close> raises; or \<open>n\<close> calls of \<open>poll_event\<close>
  return and the next one raises; or \<open>n\<close> calls return and the secret key is there.
\<close>

datatype ws_outcome =
    FromClientRaises exc
  | PollRaises nat exc
  | Ready nat negotiated

definition connect_websocket ::
  "ws_outcome \<Rightarrow> bool \<Rightarrow> voice_client \<Rightarrow> (exc + nat) \<times> voice_client" where
  "connect_websocket outcome resume self =
     (let self1 = self\<lparr>effects := effects self @ [WsFromClient resume]\<rparr> in
      case outcome of
        FromClientRaises e \<Rightarrow> (Inl e, self1)
      | PollRaises n e \<Rightarrow>
          (let self2 = self1\<lparr>connected := False\<rparr>
           in (Inl e, self2\<lparr>effects := effects self2 @ replicate (Suc n) WsPollEvent\<rparr>))
      | Ready n neg \<Rightarrow>
          (let self2 = self1\<lparr>connected := False\<rparr>;
               self3 = self2\<lparr>effects := effects self2 @ replicate n WsPollEvent\<rparr>;
               self4 = control_writes neg self3
           in (Inr (new_ws neg), self4\<lparr>connected := True\<rparr>)))"

text \<open>\<open>except (ConnectionClosed, asyncio.TimeoutError)\<close>.\<close>

fun closed_or_timeout :: "exc \<Rightarrow> bool" where
  "closed_or_timeout (ConnectionClosed code) = True"
| "closed_or_timeout TimeoutError = True"
| "closed_or_timeout e = False"

text \<open>
  Waiting for a condition with a timeout: the callbacks the signaling channel delivers
  before the timeout run in order until the condition holds; the wait times out (\<open>False\<close>)
  when they run out first. An exception inside a callback stays in the task that
  delivered it.
\<close>

datatype callback = VoiceStateUpdate payload | VoiceServerUpdate payload

fun deliver :: "extern \<Rightarrow> voice_client \<Rightarrow> callback \<Rightarrow> voice_client" where
  "deliver ext self (VoiceStateUpdate data) = snd (on_voice_state_update ext self data)"
| "deliver ext self (VoiceServerUpdate data) = snd (on_voice_server_update ext self data)"

fun wait_for ::
  "extern \<Rightarrow> (voice_client \<Rightarrow> bool) \<Rightarrow> voice_client \<Rightarrow> callback list \<Rightarrow> bool \<times> voice_client" where
  "wait_for ext cond self [] = (cond self, self)"
| "wait_for ext cond self (cb # cbs) =
     (if cond self then (True, self) else wait_for ext cond (deliver ext self cb) cbs)"

text \<open>
  \<open>potential_reconnect\<close>. Reading \<open>self.timeout\<close> for the wait raises \<open>AttributeError\<close>
  when \<open>connect\<close> has never assigned it; that exception, and one raised by
  \<open>disconnect(force=True)\<close> or \<open>finish_handshake\<close>, leaves the method.
\<close>

definition potential_reconnect ::
  "extern \<Rightarrow> callback list \<Rightarrow> ws_outcome \<Rightarrow> voice_client \<Rightarrow> (exc + bool) \<times> voice_client" where
  "potential_reconnect ext cbs outcome self =
     (let self1 = self\<lparr>connected := False\<rparr>;
          self2 = prepare_handshake self1;
          self3 = self2\<lparr>potentially_reconnecting := True\<rparr>
      in case timeout self3 of
           None \<Rightarrow> (Inl (AttributeError ''timeout''), self3)
         | Some tmo \<Rightarrow>
             (case wait_for ext voice_server_complete self3 cbs of
                (ok, self4) \<Rightarrow>
                  if \<not> ok then
                    (case disconnect True (self4\<lparr>potentially_reconnecting := False\<rparr>) of
                       (Some e, self5) \<Rightarrow> (Inl e, self5)
                     | (None, self5) \<Rightarrow> (Inr False, self5))
                  else
                    (case finish_handshake self4 of
                       (Some e, self5) \<Rightarrow> (Inl e, self5)
                     | (None, self5) \<Rightarrow>
                         (let self6 = self5\<lparr>potentially_reconnecting := False\<rparr>
                          in case connect_websocket outcome False self6 of
                               (Inr w, self7) \<Rightarrow> (Inr True, self7\<lparr>ws := Some w\<rparr>)
                             | (Inl e, self7) \<Rightarrow>
                                 if closed_or_timeout e then (Inr False, self7)
                                 else (Inl e, self7)))))"

definition potential_resume ::
  "ws_outcome \<Rightarrow> voice_client \<Rightarrow> (exc + bool) \<times> voice_client" where
  "potential_resume outcome self =
     (let self1 = self\<lparr>connected := False\<rparr>;
          self2 = self1\<lparr>potentially_reconnecting := True\<rparr>
      in case connect_websocket outcome True self2 of
           (Inr w, self3) \<Rightarrow>
             (Inr True, (self3\<lparr>ws := Some w\<rparr>)\<lparr>potentially_reconnecting := False\<rparr>)
         | (Inl e, self3) \<Rightarrow>
             if closed_or_timeout e
             then (Inr False, self3\<lparr>potentially_reconnecting := False\<rparr>)
             else (Inl e, self3\<lparr>potentially_reconnecting := False\<rparr>))"

text \<open>
  \<open>connect\<close>. Attempt \<open>i\<close> of \<open>for i in range(5)\<close> meets the callbacks and the control
  connection that \<open>env i\<close> describes; \<open>connect_attempts ext reconnect env i k\<close> is the loop
  with \<open>k\<close> attempts left. In the two handlers that end with \<open>raise\<close>, an exception of
  \<open>disconnect(force=True)\<close> takes the place of the one being handled.
\<close>

record attempt_env =
  delivered :: "callback list"
  ws_result :: ws_outcome

fun connect_attempts ::
  "extern \<Rightarrow> bool \<Rightarrow> (nat \<Rightarrow> attempt_env) \<Rightarrow> nat \<Rightarrow> nat \<Rightarrow> voice_client
     \<Rightarrow> exc option \<times> voice_client" where
  "connect_attempts ext reconnect env i 0 self = (None, self)"
| "connect_attempts ext reconnect env i (Suc k) self =
     (let self1 = prepare_handshake self;
          self2 = voice_connect self1
      in case wait_for ext (\<lambda>s. voice_state_complete s \<and> voice_server_complete s) self2
                (delivered (env i)) of
           (ok, self3) \<Rightarrow>
             if \<not> ok then
               (case disconnect True self3 of
                  (Some e, self4) \<Rightarrow> (Some e, self4)
                | (None, self4) \<Rightarrow> (Some TimeoutError, self4))
             else
               (case finish_handshake self3 of
                  (Some e, self4) \<Rightarrow> (Some e, self4)
                | (None, self4) \<Rightarrow>
                    (case connect_websocket (ws_result (env i)) False self4 of
                       (Inr w, self5) \<Rightarrow> (None, self5\<lparr>ws := Some w\<rparr>)
                     | (Inl e, self5) \<Rightarrow>
                         if closed_or_timeout e then
                           (if reconnect then
                              (let self6 = self5\<lparr>effects := effects self5 @
                                      [LogException ''Failed to connect to voice. Retrying...'' [],
                                       Sleep (1 + int i * 2)]\<rparr>
                               in case voice_disconnect self6 of
                                    (Some e', self7) \<Rightarrow> (Some e', self7)
                                  | (None, self7) \<Rightarrow>
                                      connect_attempts ext reconnect env (Suc i) k self7)
                            else
                              (case disconnect True self5 of
                                 (Some e', self6) \<Rightarrow> (Some e', self6)
                               | (None, self6) \<Rightarrow> (Some e, self6)))
                         else (Some e, self5))))"

definition connect ::
  "extern \<Rightarrow> (nat \<Rightarrow> attempt_env) \<Rightarrow> bool \<Rightarrow> int \<Rightarrow> voice_client
     \<Rightarrow> exc option \<times> voice_client" where
  "connect ext env reconnect tmo self =
     (let self1 = self\<lparr>effects := effects self @ [LogInfo ''Connecting to voice...'' []]\<rparr>;
          self2 = self1\<lparr>timeout := Some tmo\<rparr>
      in case connect_attempts ext reconnect env 0 5 self2 of
           (Some e, self3) \<Rightarrow> (Some e, self3)
         | (None, self3) \<Rightarrow>
             if \<not> runner self3
             then (None, (self3\<lparr>effects := effects self3 @ [CreateTask]\<rparr>)\<lparr>runner := True\<rparr>)
             else (None, self3))"

subsection \<open>The supervisory poll loop\<close>

text \<open>
  What the environment decides in one turn of \<open>while True\<close>: how \<open>ws.poll_event()\<close> ends,
  and, for the branches that react to a closure, the callbacks and the control connection
  they meet.
\<close>

datatype poll_outcome = PollReturns | PollFails exc

record poll_env =
  poll_result :: poll_outcome
  callbacks :: "callback list"
  ws_next :: ws_outcome
  attempts :: "nat \<Rightarrow> attempt_env"

datatype loop_ctl = Continue | Break | Raise exc

text \<open>
  \<open>await self.disconnect()\<close> followed by \<open>break\<close>: the loop ends, by the exception of
  \<open>disconnect()\<close> when it raises.
\<close>

definition disconnect_and_break :: "voice_client \<Rightarrow> loop_ctl \<times> voice_client" where
  "disconnect_and_break self =
     (case disconnect False self of
        (Some e, self1) \<Rightarrow> (Raise e, self1)
      | (None, self1) \<Rightarrow> (Break, self1))"

text \<open>
  The part of the handler after the three close codes: give up, or back off and connect.
  \<open>raise\<close> lets the handled exception leave unless \<open>disconnect()\<close> raised another;
  \<open>self.timeout\<close> is read for the call of \<open>connect\<close>.
\<close>

definition poll_retry ::
  "extern \<Rightarrow> bool \<Rightarrow> poll_env \<Rightarrow> exc \<Rightarrow> voice_client \<Rightarrow> loop_ctl \<times> voice_client" where
  "poll_retry ext reconnect env e self =
     (if \<not> reconnect then
        (case disconnect False self of
           (Some e', self1) \<Rightarrow> (Raise e', self1)
         | (None, self1) \<Rightarrow> (Raise e, self1))
      else
        (let self1 = self\<lparr>effects := effects self @
                 [BackoffDelay,
                  LogException ''Disconnected from voice... Reconnecting in %.2fs.'' []]\<rparr>;
             self2 = self1\<lparr>connected := False\<rparr>;
             self3 = self2\<lparr>effects := effects self2 @ [SleepBackoff]\<rparr>
         in case timeout self3 of
              None \<Rightarrow> (Raise (AttributeError ''timeout''), self3)
            | Some tmo \<Rightarrow>
                (case connect ext (attempts env) True tmo self3 of
                   (None, self4) \<Rightarrow> (Continue, self4)
                 | (Some e', self4) \<Rightarrow>
                     if e' = TimeoutError then
                       (Continue, self4\<lparr>effects := effects self4 @
                          [LogWarning ''Could not connect to voice... Retrying...'' []]\<rparr>)
                     else (Raise e', self4))))"

definition poll_voice_ws_iteration ::
  "extern \<Rightarrow> bool \<Rightarrow> poll_env \<Rightarrow> voice_client \<Rightarrow> loop_ctl \<times> voice_client" where
  "poll_voice_ws_iteration ext reconnect env self =
     (case ws self of
        None \<Rightarrow> (Raise (AttributeError ''poll_event''), self)
      | Some w \<Rightarrow>
          (let self0 = self\<lparr>effects := effects self @ [WsPollEvent]\<rparr> in
           case poll_result env of
             PollReturns \<Rightarrow> (Continue, self0)
           | PollFails e \<Rightarrow>
               if \<not> closed_or_timeout e then (Raise e, self0)
               else
                 (case e of
                    ConnectionClosed code \<Rightarrow>
                      if code = 1000 then
                        disconnect_and_break
                          (self0\<lparr>effects := effects self0 @
                             [LogInfo ''Disconnecting from voice normally, close code %d.''
                                [AInt code]]\<rparr>)
                      else if code = 4015 then
                        (let self1 = self0\<lparr>effects := effects self0 @
                               [LogInfo (''Disconnected from voice (close code %d)... '' @
                                         ''potentially RESUMEing.'') [AInt code]]\<rparr>
                         in case potential_resume (ws_next env) self1 of
                              (Inl e', self2) \<Rightarrow> (Raise e', self2)
                            | (Inr successful, self2) \<Rightarrow>
                                if \<not> successful then
                                  disconnect_and_break
                                    (self2\<lparr>effects := effects self2 @
                                       [LogInfo (''RESUME was unsuccessful, '' @
                                          ''disconnecting from voice normally...'') []]\<rparr>)
                                else (Continue, self2))
                      else if code = 4014 then
                        (let self1 = self0\<lparr>effects := effects self0 @
                               [LogInfo (''Disconnected from voice by force (close code %d)... '' @
                                         ''potentially reconnecting.'') [AInt code]]\<rparr>
                         in case potential_reconnect ext (callbacks env) (ws_next env) self1 of
                              (Inl e', self2) \<Rightarrow> (Raise e', self2)
                            | (Inr successful, self2) \<Rightarrow>
                                if \<not> successful then
                                  disconnect_and_break
                                    (self2\<lparr>effects := effects self2 @
                                       [LogInfo (''Reconnect was unsuccessful, '' @
                                          ''disconnecting from voice normally...'') []]\<rparr>)
                                else (Continue, self2))
                      else poll_retry ext reconnect env e self0
                  | _ \<Rightarrow> poll_retry ext reconnect env e self0)))"

text \<open>
  The loop, over the turns the environment supplies. When they run out the loop is
  suspended in \<open>ws.poll_event()\<close>: \<open>Polling\<close>.
\<close>

datatype poll_status = Polling | Exited | Raised exc

fun poll_voice_ws ::
  "extern \<Rightarrow> bool \<Rightarrow> voice_client \<Rightarrow> poll_env list \<Rightarrow> poll_status \<times> voice_client" where
  "poll_voice_ws ext reconnect self [] = (Polling, self)"
| "poll_voice_ws ext reconnect self (env # envs) =
     (case poll_voice_ws_iteration ext reconnect env self of
        (Continue, self1) \<Rightarrow> poll_voice_ws ext reconnect self1 envs
      | (Break, self1) \<Rightarrow> (Exited, self1)
      | (Raise e, self1) \<Rightarrow> (Raised e, self1))"

subsection \<open>Concrete payloads\<close>

text \<open>
  A voice-state payload that removes the client from voice, one that places it in channel
  9, a voice-server payload without an endpoint, and a complete one.
\<close>

definition state_left :: payload where
  "state_left = [''session_id'' \<mapsto> Some ''abc'', ''channel_id'' \<mapsto> None]"

definition state_joined :: payload where
  "state_joined = [''session_id'' \<mapsto> Some ''abc'', ''channel_id'' \<mapsto> Some ''9'']"

definition server_without_endpoint :: payload where
  "server_without_endpoint =
     [''token'' \<mapsto> Some ''new-token'', ''guild_id'' \<mapsto> Some ''1'', ''endpoint'' \<mapsto> None]"

definition server_complete :: payload where
  "server_complete =
     [''token'' \<mapsto> Some ''new-token'', ''guild_id'' \<mapsto> Some ''1'',
      ''endpoint'' \<mapsto> Some ''wss://new.example:443'']"

text \<open>A client that holds the token and the endpoint of an earlier negotiation.\<close>

definition negotiated_client :: voice_client where
  "negotiated_client =
     (toy_client ''xsalsa20_poly1305'')
       \<lparr> token := Some ''old-token'', endpoint := Some ''old.example'', ws := Some 0 \<rparr>"

text \<open>
  The same client after a voice-state payload has moved it to channel 9, which the lookup
  of its guild does not find: \<open>channel\<close> is \<open>None\<close> from then on.
\<close>

definition moved_client :: voice_client where
  "moved_client = snd (on_voice_state_update toy_ext negotiated_client state_joined)"

text \<open>
  A turn of the poll loop in which the control connection closes with the given code, and
  nothing answers afterwards.
\<close>

definition closure_env :: "int \<Rightarrow> poll_env" where
  "closure_env code =
     \<lparr> poll_result = PollFails (ConnectionClosed code), callbacks = [],
       ws_next = FromClientRaises TimeoutError,
       attempts = (\<lambda>i. \<lparr> delivered = [], ws_result = FromClientRaises TimeoutError \<rparr>) \<rparr>"

section \<open>Counters\<close>

lemma getattr_setattr_same: "getattr (setattr self a v) a = v"
  by (cases a) simp_all

lemma le_div_iff_int:
  assumes "0 < d"
  shows "(k \<le> L div d) = (k * d \<le> (L::int))"
proof
  assume "k \<le> L div d"
  then have "k * d \<le> (L div d) * d"
    using assms by (simp add: mult_right_mono)
  also have "\<dots> \<le> L"
  proof -
    have "L = (L div d) * d + L mod d" by simp
    moreover have "0 \<le> L mod d" using assms by simp
    ultimately show ?thesis by linarith
  qed
  finally show "k * d \<le> L" .
next
  assume "k * d \<le> L"
  then have "(k * d) div d \<le> L div d"
    using assms by (rule zdiv_mono1)
  then show "k \<le> L div d"
    using assms by simp
qed

text \<open>
  Adding \<open>d\<close> under the limit \<open>L\<close> and starting again from 0 above it has period
  \<open>L div d + 1\<close>: after \<open>m\<close> steps from 0 the value is \<open>(m mod (L div d + 1)) * d\<close>.
\<close>

lemma wrap_step_closed:
  assumes d: "0 \<le> d" and L: "0 \<le> L"
  shows "(if int (m mod Suc (nat (L div d))) * d + d > L then 0
          else int (m mod Suc (nat (L div d))) * d + d)
         = int (Suc m mod Suc (nat (L div d))) * d"
proof (cases "d = 0")
  case True
  then show ?thesis using L by simp
next
  case False
  then have dpos: "0 < d" using d by simp
  define P where "P = Suc (nat (L div d))"
  define k where "k = m mod P"
  have q: "0 \<le> L div d"
    using dpos L by (simp add: pos_imp_zdiv_nonneg_iff)
  have kP: "k < P" by (simp add: k_def P_def)
  have "(int k * d + d > L) = (\<not> (int k + 1) * d \<le> L)"
    by (auto simp: algebra_simps)
  also have "\<dots> = (\<not> int k + 1 \<le> L div d)"
    using le_div_iff_int [OF dpos, of "int k + 1" L] by simp
  also have "\<dots> = (Suc k = P)"
  proof -
    have "int (nat (L div d)) = L div d" using q by simp
    then show ?thesis using kP unfolding P_def by linarith
  qed
  finally have iff: "(int k * d + d > L) = (Suc k = P)" .
  have "int (Suc m mod P) * d = (if Suc k = P then 0 else int (Suc k) * d)"
    by (simp add: mod_Suc k_def)
  also have "\<dots> = (if int k * d + d > L then 0 else int k * d + d)"
    using iff by (auto simp: algebra_simps)
  finally show ?thesis by (simp add: P_def k_def)
qed

lemma wrap_step_sequence:
  "(if int (m mod 65536) + 1 > 65535 then 0 else int (m mod 65536) + 1) = int (Suc m mod 65536)"
proof -
  have "Suc (nat (65535 div (1::int))) = 65536" by simp
  then show ?thesis
    using wrap_step_closed [of 1 65535 m] by (simp only: mult_1_right)
qed

subsection \<open>What one call does to the object\<close>

lemma encrypt_plain_state:
  "snd (encrypt_xsalsa20_poly1305 ext self header data) = self"
  by (simp add: encrypt_xsalsa20_poly1305_def Let_def split: option.splits sum.splits)

lemma encrypt_suffix_state:
  "snd (encrypt_xsalsa20_poly1305_suffix ext rnd self header data) = self"
  by (simp add: encrypt_xsalsa20_poly1305_suffix_def Let_def split: option.splits sum.splits)

lemma encrypt_lite_state:
  "snd (encrypt_xsalsa20_poly1305_lite ext self header data) = self
   \<or> snd (encrypt_xsalsa20_poly1305_lite ext self header data)
       = checked_add self Attr_lite_nonce 1 4294967295"
  by (simp add: encrypt_xsalsa20_poly1305_lite_def Let_def split: option.splits sum.splits)

lemma get_voice_packet_state:
  "snd (get_voice_packet ext rnd self data) = self
   \<or> snd (get_voice_packet ext rnd self data) = checked_add self Attr_lite_nonce 1 4294967295"
  using encrypt_lite_state [of ext self]
  by (simp add: get_voice_packet_def Let_def encrypt_plain_state encrypt_suffix_state
      split: option.splits sum.splits)

lemma checked_add_lite_fields:
  "sequence (checked_add self Attr_lite_nonce v l) = sequence self"
  "timestamp (checked_add self Attr_lite_nonce v l) = timestamp self"
  by (simp_all add: checked_add_def Let_def)

lemma get_voice_packet_counters:
  "sequence (snd (get_voice_packet ext rnd self data)) = sequence self"
  "timestamp (snd (get_voice_packet ext rnd self data)) = timestamp self"
  using get_voice_packet_state [of ext rnd self data]
  by (auto simp: checked_add_lite_fields)

lemma send_audio_packet_counters:
  assumes "send_audio_packet ext env self data = (None, self')"
  shows "sequence self' = (if sequence self + 1 > 65535 then 0 else sequence self + 1)"
    and "timestamp self' = (if timestamp self + SAMPLES_PER_FRAME ext > 4294967295 then 0
                            else timestamp self + SAMPLES_PER_FRAME ext)"
proof -
  define self1 where "self1 = checked_add self Attr_sequence 1 65535"
  define self2 where "self2 = snd (get_voice_packet ext (random_nonce env) self1 data)"
  have s1: "sequence self1 = (if sequence self + 1 > 65535 then 0 else sequence self + 1)"
    and t1: "timestamp self1 = timestamp self"
    by (simp_all add: self1_def checked_add_def Let_def)
  have s2: "sequence self2 = sequence self1" and t2: "timestamp self2 = timestamp self1"
    by (simp_all add: self2_def get_voice_packet_counters)
  obtain r where r: "get_voice_packet ext (random_nonce env) self1 data = (r, self2)"
    by (simp add: self2_def prod_eq_iff)
  have "\<exists>fx. self' = checked_add (self2\<lparr>effects := fx\<rparr>) Attr_timestamp
          (SAMPLES_PER_FRAME ext) 4294967295"
    using assms r
    by (auto simp: send_audio_packet_def Let_def self1_def [symmetric]
        split: sum.splits option.splits sendto_outcome.splits if_splits)
  then obtain fx where "self' = checked_add (self2\<lparr>effects := fx\<rparr>) Attr_timestamp
          (SAMPLES_PER_FRAME ext) 4294967295" ..
  then show "sequence self' = (if sequence self + 1 > 65535 then 0 else sequence self + 1)"
    and "timestamp self' = (if timestamp self + SAMPLES_PER_FRAME ext > 4294967295 then 0
                            else timestamp self + SAMPLES_PER_FRAME ext)"
    using s1 t1 s2 t2 by (simp_all add: checked_add_def Let_def)
qed

subsection \<open>A run of calls\<close>

lemma run_counters:
  assumes F: "0 \<le> SAMPLES_PER_FRAME ext"
  shows "send_audio_packets ext self calls = (None, self') \<Longrightarrow>
    sequence self = int (m mod 65536) \<Longrightarrow>
    timestamp self = int (m mod Suc (nat (4294967295 div SAMPLES_PER_FRAME ext)))
                       * SAMPLES_PER_FRAME ext \<Longrightarrow>
    sequence self' = int ((m + length calls) mod 65536)
    \<and> timestamp self' = int ((m + length calls) mod Suc (nat (4294967295 div SAMPLES_PER_FRAME ext)))
                       * SAMPLES_PER_FRAME ext"
proof (induction calls arbitrary: self m)
  case Nil
  then show ?case by simp
next
  case (Cons c calls)
  obtain data env where c: "c = (data, env)" by (cases c)
  obtain r self1 where one: "send_audio_packet ext env self data = (r, self1)"
    by (cases "send_audio_packet ext env self data")
  with Cons.prems(1) c have r: "r = None"
    and rest: "send_audio_packets ext self1 calls = (None, self')"
    by (auto split: option.splits)
  have sq: "sequence self1 = int (Suc m mod 65536)"
    using send_audio_packet_counters(1) [OF one [unfolded r]]
    by (simp only: Cons.prems(2) wrap_step_sequence)
  have ts: "timestamp self1 = int (Suc m mod Suc (nat (4294967295 div SAMPLES_PER_FRAME ext)))
              * SAMPLES_PER_FRAME ext"
    using send_audio_packet_counters(2) [OF one [unfolded r]]
    by (simp only: Cons.prems(3) wrap_step_closed [OF F, of 4294967295 m])
  show ?case
    using Cons.IH [OF rest sq ts] by simp
qed

subsection \<open>A ready client's calls return\<close>

lemma pack_H_ok: "0 \<le> n \<Longrightarrow> n \<le> 65535 \<Longrightarrow> \<exists>b. pack_H n = Inr b"
  by (simp add: pack_H_def)

lemma pack_I_ok: "0 \<le> n \<Longrightarrow> n \<le> 4294967295 \<Longrightarrow> \<exists>b. pack_I n = Inr b"
  by (simp add: pack_I_def)

lemma pack_H_length: "pack_H n = Inr b \<Longrightarrow> length b = 2"
  by (auto simp: pack_H_def split: if_splits)

lemma pack_I_length: "pack_I n = Inr b \<Longrightarrow> length b = 4"
  by (auto simp: pack_I_def split: if_splits)

lemma get_voice_packet_ok:
  assumes "ready_to_send ext self" and rnd: "length rnd = 24"
  shows "\<exists>packet. fst (get_voice_packet ext rnd self data) = Inr packet"
proof -
  from assms(1) obtain v key where v: "ssrc self = Some v" "0 \<le> v" "v \<le> 4294967295"
    and key: "secret_key self = Some key" and box: "secret_box ext key = None"
    and enc: "\<And>d n. length n = 24 \<Longrightarrow> \<exists>c. box_encrypt ext key d n = Inr c"
    and m: "mode self = Some ''xsalsa20_poly1305'' \<or> mode self = Some ''xsalsa20_poly1305_suffix''
          \<or> mode self = Some ''xsalsa20_poly1305_lite''"
    and sq: "0 \<le> sequence self" "sequence self \<le> 65535"
    and ts: "0 \<le> timestamp self" "timestamp self \<le> 4294967295"
    and ln: "0 \<le> lite_nonce self" "lite_nonce self \<le> 4294967295"
    unfolding ready_to_send_def by auto
  obtain b1 where b1: "pack_H (sequence self) = Inr b1" using pack_H_ok sq by blast
  obtain b2 where b2: "pack_I (timestamp self) = Inr b2" using pack_I_ok ts by blast
  obtain b3 where b3: "pack_I v = Inr b3" using pack_I_ok v by blast
  obtain b4 where b4: "pack_I (lite_nonce self) = Inr b4" using pack_I_ok ln by blast
  define h where "h = ByteArray ([0x80, 0x78] @ b1 @ b2 @ b3)"
  have hlen: "length (content h) = 12"
    using pack_H_length [OF b1] pack_I_length [OF b2] pack_I_length [OF b3]
    by (simp add: h_def)
  have plain: "\<exists>p. fst (encrypt_xsalsa20_poly1305 ext self h data) = Inr p"
    using enc [of "content h @ drop 12 (replicate 24 0)" data] hlen
    by (auto simp: encrypt_xsalsa20_poly1305_def key box Let_def)
  have suffix: "\<exists>p. fst (encrypt_xsalsa20_poly1305_suffix ext rnd self h data) = Inr p"
    using enc [OF rnd, of data]
    by (auto simp: encrypt_xsalsa20_poly1305_suffix_def key box Let_def)
  have lite: "\<exists>p. fst (encrypt_xsalsa20_poly1305_lite ext self h data) = Inr p"
    using enc [of "b4 @ drop 4 (replicate 24 0)" data] pack_I_length [OF b4]
    by (auto simp: encrypt_xsalsa20_poly1305_lite_def key box b4 Let_def)
  from m show ?thesis
    using plain suffix lite
    by (auto simp: get_voice_packet_def b1 b2 b3 v Let_def h_def)
qed

lemma ready_checked_add:
  assumes "ready_to_send ext self"
  shows "ready_to_send ext (checked_add self Attr_sequence 1 65535)"
    and "ready_to_send ext (checked_add self Attr_lite_nonce 1 4294967295)"
    and "ready_to_send ext (checked_add self Attr_timestamp (SAMPLES_PER_FRAME ext) 4294967295)"
  using assms by (auto simp: ready_to_send_def checked_add_def Let_def ssrc_def)

lemma ready_effects:
  "ready_to_send ext (self\<lparr>effects := fx\<rparr>) = ready_to_send ext self"
  by (simp add: ready_to_send_def ssrc_def)

lemma send_audio_packet_ok:
  assumes rdy: "ready_to_send ext self" and env: "send_returns env"
  shows "\<exists>self'. send_audio_packet ext env self data = (None, self') \<and> ready_to_send ext self'"
proof -
  define self1 where "self1 = checked_add self Attr_sequence 1 65535"
  have r1: "ready_to_send ext self1"
    using rdy by (simp add: self1_def ready_checked_add)
  obtain res self2 where g: "get_voice_packet ext (random_nonce env) self1 data = (res, self2)"
    by (cases "get_voice_packet ext (random_nonce env) self1 data")
  have rnd: "length (random_nonce env) = 24"
    using env by (simp add: send_returns_def)
  obtain packet where res: "res = Inr packet"
    using get_voice_packet_ok [OF r1 rnd, of data] g by auto
  have "self2 = self1 \<or> self2 = checked_add self1 Attr_lite_nonce 1 4294967295"
    using get_voice_packet_state [of ext "random_nonce env" self1 data] g by simp
  then have r2: "ready_to_send ext self2"
    using r1 ready_checked_add(2) by auto
  then obtain b ip port where sock: "socket self2 = Some b"
    and addr: "endpoint_ip self2 = Some ip" "voice_port self2 = Some port"
    by (auto simp: ready_to_send_def)
  show ?thesis
    using env r2
    by (auto simp: send_audio_packet_def Let_def self1_def [symmetric] g res sock addr
        send_returns_def ready_checked_add ready_effects)
qed

lemma send_audio_packets_ok:
  "ready_to_send ext self \<Longrightarrow> \<forall>c \<in> set calls. send_returns (snd c) \<Longrightarrow>
   \<exists>self'. send_audio_packets ext self calls = (None, self') \<and> ready_to_send ext self'"
proof (induction calls arbitrary: self)
  case Nil
  then show ?case by simp
next
  case (Cons c calls)
  obtain data env where c: "c = (data, env)" by (cases c)
  from Cons.prems c have "send_returns env" by simp
  from send_audio_packet_ok [OF Cons.prems(1) this, of data]
  obtain self1 where one: "send_audio_packet ext env self data = (None, self1)"
    and r1: "ready_to_send ext self1" by blast
  from Cons.IH [OF r1] Cons.prems(2)
  obtain self' where "send_audio_packets ext self1 calls = (None, self')"
    and "ready_to_send ext self'" by auto
  then show ?case by (simp add: c one)
qed

lemma toy_client_ready:
  "m \<in> {''xsalsa20_poly1305'', ''xsalsa20_poly1305_suffix'', ''xsalsa20_poly1305_lite''}
   \<Longrightarrow> ready_to_send toy_ext (toy_client m)"
  by (auto simp: ready_to_send_def toy_client_def toy_ext_def ssrc_setter_def init_def
      ssrc_def Let_def)

lemma toy_client_counters:
  "sequence (toy_client m) = 0" "timestamp (toy_client m) = 0" "lite_nonce (toy_client m) = 0"
  by (simp_all add: toy_client_def ssrc_setter_def init_def Let_def)

lemma env_returns: "send_returns env_sent" "send_returns env_blocked"
  by (simp_all add: send_returns_def env_sent_def env_blocked_def)

subsection \<open>Claim C2\<close>

text \<open>
  C2, as amended. Start from counters at zero and let \<open>N\<close> calls of \<open>send_audio_packet\<close>
  return. Then \<open>sequence\<close> is \<open>N mod 65536\<close>, and \<open>timestamp\<close> is
  \<open>(N mod (4294967295 div SAMPLES_PER_FRAME + 1)) * SAMPLES_PER_FRAME\<close>: it grows by the
  frame size and goes to 0 at the first step that would pass \<open>2^32 - 1\<close>. Both are never
  negative, and \<open>timestamp\<close> is \<open>(N * SAMPLES_PER_FRAME) mod 2^32\<close> as long as
  \<open>N * SAMPLES_PER_FRAME\<close> is below \<open>2^32\<close>.
\<close>

theorem counters_after_calls:
  assumes "sequence self = 0" and "timestamp self = 0"
    and F: "0 \<le> SAMPLES_PER_FRAME ext"
    and run: "send_audio_packets ext self calls = (None, self')"
  shows "sequence self' = int (length calls mod 65536)
    \<and> timestamp self' = int (length calls mod Suc (nat (4294967295 div SAMPLES_PER_FRAME ext)))
                          * SAMPLES_PER_FRAME ext
    \<and> 0 \<le> sequence self' \<and> 0 \<le> timestamp self'
    \<and> (int (length calls) * SAMPLES_PER_FRAME ext < 4294967296 \<longrightarrow>
         timestamp self' = (int (length calls) * SAMPLES_PER_FRAME ext) mod 4294967296)"
proof -
  define N where "N = length calls"
  define d where "d = SAMPLES_PER_FRAME ext"
  have both: "sequence self' = int (N mod 65536)
    \<and> timestamp self' = int (N mod Suc (nat (4294967295 div d))) * d"
    using run_counters [OF F run, of 0] assms(1,2) by (simp add: N_def d_def)
  have d0: "0 \<le> d" using F by (simp add: d_def)
  have nonneg: "0 \<le> timestamp self'"
    using both d0 by simp
  have small: "timestamp self' = (int N * d) mod 4294967296" if lt: "int N * d < 4294967296"
  proof (cases "d = 0")
    case True
    then show ?thesis using both by simp
  next
    case False
    then have dpos: "0 < d" using d0 by simp
    have "int N * d \<le> 4294967295" using lt by simp
    then have "int N \<le> 4294967295 div d"
      using le_div_iff_int [OF dpos, of "int N" 4294967295] by simp
    then have "N < Suc (nat (4294967295 div d))" by linarith
    then have "N mod Suc (nat (4294967295 div d)) = N" by simp
    moreover have "0 \<le> int N * d" using d0 by simp
    ultimately show ?thesis using both lt by simp
  qed
  show ?thesis
    using both nonneg small by (simp add: N_def d_def)
qed

theorem counters_after_calls_witness:
  "\<exists>self'. send_audio_packets toy_ext (toy_client ''xsalsa20_poly1305_lite'')
              [([1, 2], env_sent), ([], env_blocked), ([3], env_sent)] = (None, self')
     \<and> sequence self' = 3 \<and> timestamp self' = 2880"
proof -
  let ?calls = "[([1, 2], env_sent), ([], env_blocked), ([3::byte], env_sent)]"
  obtain self' where run:
    "send_audio_packets toy_ext (toy_client ''xsalsa20_poly1305_lite'') ?calls = (None, self')"
    using send_audio_packets_ok [OF toy_client_ready, of "''xsalsa20_poly1305_lite''" ?calls]
      env_returns by auto
  have F: "0 \<le> SAMPLES_PER_FRAME toy_ext" by (simp add: toy_ext_def)
  have "SAMPLES_PER_FRAME toy_ext = 960" by (simp add: toy_ext_def)
  then show ?thesis
    using counters_after_calls [OF toy_client_counters(1) toy_client_counters(2) F run] run
    by simp
qed

text \<open>
  The claim as stated fails for the frame size 960: \<open>2^32\<close> is not a multiple of 960, so
  the call number 4473925 finds \<open>4294967040 + 960 > 4294967295\<close> and stores 0, where
  \<open>(4473925 * 960) mod 2^32\<close> is 704.
\<close>

theorem timestamp_mod_counterexample:
  "sequence (toy_client ''xsalsa20_poly1305'') = 0
   \<and> timestamp (toy_client ''xsalsa20_poly1305'') = 0
   \<and> fst (send_audio_packets toy_ext (toy_client ''xsalsa20_poly1305'')
            (replicate 4473925 ([], env_sent))) = None
   \<and> timestamp (snd (send_audio_packets toy_ext (toy_client ''xsalsa20_poly1305'')
            (replicate 4473925 ([], env_sent)))) = 0
   \<and> (4473925 * SAMPLES_PER_FRAME toy_ext) mod 2 ^ 32 = 704"
proof -
  let ?calls = "replicate 4473925 ([] :: bytes, env_sent)"
  have "\<forall>c \<in> set ?calls. send_returns (snd c)"
    by (auto simp: env_returns)
  then obtain self' where run:
    "send_audio_packets toy_ext (toy_client ''xsalsa20_poly1305'') ?calls = (None, self')"
    using send_audio_packets_ok [OF toy_client_ready, of "''xsalsa20_poly1305''" ?calls]
    by auto
  have F: "SAMPLES_PER_FRAME toy_ext = 960" by (simp add: toy_ext_def)
  have "timestamp self' = 0"
    using run_counters [of toy_ext "toy_client ''xsalsa20_poly1305''" ?calls self' 0] run
    by (simp add: F toy_client_counters)
  then show ?thesis
    using run by (simp add: F toy_client_counters)
qed
section \<open>The SSRC registry\<close>

lemma set_ssrc_maps:
  "idrcs (set_ssrc self u s) = (idrcs self)(u \<mapsto> s)"
  "ssids (set_ssrc self u s) = (ssids self)(s \<mapsto> u)"
  "user_id (set_ssrc self u s) = user_id self"
  by (simp_all add: set_ssrc_def Let_def)

lemma ssrc_setter_is_set_ssrc: "ssrc_setter self v = set_ssrc self (user_id self) v"
  by (simp add: ssrc_setter_def set_ssrc_def Let_def)

lemma registry_step_maps:
  "idrcs (registry_step self x) =
     (idrcs self)(fst (op_pair (user_id self) x) \<mapsto> snd (op_pair (user_id self) x))"
  "ssids (registry_step self x) =
     (ssids self)(snd (op_pair (user_id self) x) \<mapsto> fst (op_pair (user_id self) x))"
  "user_id (registry_step self x) = user_id self"
  by (cases x; simp add: set_ssrc_maps ssrc_setter_is_set_ssrc)+

lemma registry_run_snoc:
  "registry_run self (ops @ [x]) = registry_step (registry_run self ops) x"
  by (simp add: registry_run_def)

lemma registry_run_user_id: "user_id (registry_run self ops) = user_id self"
  by (induction ops rule: rev_induct) (simp_all add: registry_run_def registry_step_maps)

text \<open>
  Every forward pair was written by an operation of the run, and its stream id has a
  reverse entry.
\<close>

lemma registry_forward_written:
  "idrcs (registry_run (init me ch) ops) u = Some s \<Longrightarrow>
   (u, s) \<in> op_pair me ` set ops \<and> (\<exists>u'. ssids (registry_run (init me ch) ops) s = Some u')"
proof (induction ops arbitrary: u s rule: rev_induct)
  case Nil
  then show ?case by (simp add: registry_run_def init_def)
next
  case (snoc x ops)
  let ?st = "registry_run (init me ch) ops"
  have me: "user_id ?st = me"
    by (simp add: registry_run_user_id init_def)
  obtain u0 s0 where x: "op_pair me x = (u0, s0)" by (cases "op_pair me x")
  show ?case
  proof (cases "u = u0")
    case True
    with snoc.prems x me have "s = s0"
      by (simp add: registry_run_snoc registry_step_maps)
    with True x me show ?thesis
      by (force simp: registry_run_snoc registry_step_maps)
  next
    case False
    with snoc.prems x me have "idrcs ?st u = Some s"
      by (simp add: registry_run_snoc registry_step_maps)
    from snoc.IH [OF this] x me show ?thesis
      by (auto simp: registry_run_snoc registry_step_maps)
  qed
qed

text \<open>
  When no stream id is written for two different identities, the reverse map holds the
  mirror image of every forward pair.
\<close>

lemma registry_mirror:
  "\<forall>p \<in> set ops. \<forall>q \<in> set ops.
      snd (op_pair me p) = snd (op_pair me q) \<longrightarrow> fst (op_pair me p) = fst (op_pair me q) \<Longrightarrow>
   idrcs (registry_run (init me ch) ops) u = Some s \<Longrightarrow>
   ssids (registry_run (init me ch) ops) s = Some u"
proof (induction ops arbitrary: u s rule: rev_induct)
  case Nil
  then show ?case by (simp add: registry_run_def init_def)
next
  case (snoc x ops)
  note uniq = snoc.prems(1) and fw = snoc.prems(2)
  let ?st = "registry_run (init me ch) ops"
  have me: "user_id ?st = me"
    by (simp add: registry_run_user_id init_def)
  obtain u0 s0 where x: "op_pair me x = (u0, s0)" by (cases "op_pair me x")
  have sub: "\<forall>p \<in> set ops. \<forall>q \<in> set ops.
             snd (op_pair me p) = snd (op_pair me q) \<longrightarrow> fst (op_pair me p) = fst (op_pair me q)"
  proof (intro ballI impI)
    fix p q
    assume "p \<in> set ops" and "q \<in> set ops"
      and eq: "snd (op_pair me p) = snd (op_pair me q)"
    then have "p \<in> set (ops @ [x])" and "q \<in> set (ops @ [x])" by simp_all
    with uniq eq show "fst (op_pair me p) = fst (op_pair me q)" by blast
  qed
  have step: "idrcs (registry_run (init me ch) (ops @ [x])) = (idrcs ?st)(u0 \<mapsto> s0)"
    "ssids (registry_run (init me ch) (ops @ [x])) = (ssids ?st)(s0 \<mapsto> u0)"
    by (simp_all add: registry_run_snoc registry_step_maps me x)
  show ?case
  proof (cases "u = u0")
    case True
    with fw have "s = s0" by (simp add: step)
    with True show ?thesis by (simp add: step)
  next
    case False
    with fw have fwd: "idrcs ?st u = Some s" by (simp add: step)
    have old: "ssids ?st s = Some u"
      by (rule snoc.IH [OF sub fwd])
    from registry_forward_written [OF fwd] obtain p where p: "p \<in> set ops" "op_pair me p = (u, s)"
      by auto
    have "s \<noteq> s0"
    proof
      assume eq: "s = s0"
      have "p \<in> set (ops @ [x])" and "x \<in> set (ops @ [x])"
        using p(1) by simp_all
      with uniq
      have "snd (op_pair me p) = snd (op_pair me x) \<longrightarrow> fst (op_pair me p) = fst (op_pair me x)"
        by blast
      with eq p(2) x have "u = u0" by simp
      with False show False by simp
    qed
    with old show ?thesis by (simp add: step)
  qed
qed

subsection \<open>Claim C3\<close>

text \<open>
  C3, as amended. Immediately after \<open>_set_ssrc(u, s)\<close>, \<open>_flip_ssrc(u)\<close> returns \<open>s\<close>, and
  \<open>_flip_ssrc(s)\<close> returns \<open>u\<close> when \<open>s\<close> is not itself a key of the forward map. After a
  subsequent \<open>_set_ssrc(u, s2)\<close>, \<open>_flip_ssrc(u)\<close> returns \<open>s2\<close>, and \<open>_flip_ssrc(s)\<close> still
  returns \<open>u\<close> (for \<open>s\<close> other than \<open>u\<close>): the reverse entry of the old stream id stays.
\<close>

theorem assign_then_lookup:
  "flip_ssrc (set_ssrc self u s) u = Some s
   \<and> (idrcs self s = None \<longrightarrow> flip_ssrc (set_ssrc self u s) s = Some u)
   \<and> flip_ssrc (set_ssrc (set_ssrc self u s) u s2) u = Some s2
   \<and> (idrcs self s = None \<and> s \<noteq> u \<longrightarrow>
        flip_ssrc (set_ssrc (set_ssrc self u s) u s2) s = Some u)"
  by (simp add: flip_ssrc_def set_ssrc_maps)

theorem assign_then_lookup_witness:
  "idrcs (init 1 (GuildChannel 7 3)) 10 = None \<and> (10::int) \<noteq> 1
   \<and> flip_ssrc (set_ssrc (init 1 (GuildChannel 7 3)) 1 10) 1 = Some 10
   \<and> flip_ssrc (set_ssrc (init 1 (GuildChannel 7 3)) 1 10) 10 = Some 1
   \<and> flip_ssrc (set_ssrc (set_ssrc (init 1 (GuildChannel 7 3)) 1 10) 1 20) 1 = Some 20
   \<and> flip_ssrc (set_ssrc (set_ssrc (init 1 (GuildChannel 7 3)) 1 10) 1 20) 10 = Some 1"
proof -
  have h: "idrcs (init 1 (GuildChannel 7 3)) 10 = None" by (simp add: init_def)
  show ?thesis
    using h assign_then_lookup [of "init 1 (GuildChannel 7 3)" 1 10 20] by simp
qed

text \<open>
  The claim as stated fails twice. After \<open>_set_ssrc(1, 10)\<close> and \<open>_set_ssrc(1, 20)\<close> on a new
  client, \<open>_flip_ssrc(10)\<close> is still 1. And after \<open>_set_ssrc(2, 7)\<close>, \<open>_set_ssrc(1, 2)\<close> makes
  \<open>_flip_ssrc(2)\<close> return 7, the forward entry of the key 2, not 1.
\<close>

theorem lookup_after_reassign_counterexample:
  "(10::int) \<noteq> 20
   \<and> flip_ssrc (set_ssrc (set_ssrc (init 1 (GuildChannel 7 3)) 1 10) 1 20) 10 = Some 1
   \<and> flip_ssrc (set_ssrc (set_ssrc (init 1 (GuildChannel 7 3)) 2 7) 1 2) 2 = Some 7"
  by (simp add: flip_ssrc_def set_ssrc_maps init_def)

subsection \<open>Claim C7\<close>

text \<open>
  C7, as amended. In every state that a run of \<open>_set_ssrc\<close> and \<open>ssrc\<close>-setter operations
  reaches from a new client, each identity has at most one stream id, and for every forward
  pair \<open>(u, s)\<close> the reverse map has an entry for \<open>s\<close>. That entry is \<open>(s, u)\<close> whenever the
  run writes no stream id for two different identities.
\<close>

theorem registry_invariant:
  "(idrcs (registry_run (init me ch) ops) u = Some s \<longrightarrow>
      (\<exists>u'. ssids (registry_run (init me ch) ops) s = Some u'))
   \<and> (idrcs (registry_run (init me ch) ops) u = Some s \<and>
      idrcs (registry_run (init me ch) ops) u = Some s' \<longrightarrow> s = s')
   \<and> ((\<forall>p \<in> set ops. \<forall>q \<in> set ops.
          snd (op_pair me p) = snd (op_pair me q) \<longrightarrow> fst (op_pair me p) = fst (op_pair me q)) \<longrightarrow>
      idrcs (registry_run (init me ch) ops) u = Some s \<longrightarrow>
      ssids (registry_run (init me ch) ops) s = Some u)"
proof (intro conjI impI)
  assume "idrcs (registry_run (init me ch) ops) u = Some s"
  then show "\<exists>u'. ssids (registry_run (init me ch) ops) s = Some u'"
    using registry_forward_written [of me ch ops u s] by blast
next
  assume "idrcs (registry_run (init me ch) ops) u = Some s \<and>
          idrcs (registry_run (init me ch) ops) u = Some s'"
  then have "Some s = Some s'" by (elim conjE) (erule subst)
  then show "s = s'" by (rule option.inject [THEN iffD1])
next
  assume "\<forall>p \<in> set ops. \<forall>q \<in> set ops.
          snd (op_pair me p) = snd (op_pair me q) \<longrightarrow> fst (op_pair me p) = fst (op_pair me q)"
    and "idrcs (registry_run (init me ch) ops) u = Some s"
  then show "ssids (registry_run (init me ch) ops) s = Some u"
    by (rule registry_mirror)
qed

theorem registry_invariant_witness:
  "idrcs (registry_run (init 1 (GuildChannel 7 3)) [SetSsrc 2 10, SsrcSetter 5, SetSsrc 2 11]) 2
       = Some 11
   \<and> ssids (registry_run (init 1 (GuildChannel 7 3)) [SetSsrc 2 10, SsrcSetter 5, SetSsrc 2 11]) 11
       = Some 2"
proof -
  let ?ops = "[SetSsrc 2 10, SsrcSetter 5, SetSsrc 2 11]"
  have uniq: "\<forall>p \<in> set ?ops. \<forall>q \<in> set ?ops.
      snd (op_pair 1 p) = snd (op_pair 1 q) \<longrightarrow> fst (op_pair 1 p) = fst (op_pair 1 q)"
    by simp
  have fwd: "idrcs (registry_run (init 1 (GuildChannel 7 3)) ?ops) 2 = Some 11"
    by (simp add: registry_run_def set_ssrc_maps ssrc_setter_is_set_ssrc)
  show ?thesis
    using uniq fwd registry_invariant [of 1 "GuildChannel 7 3" ?ops 2 11 11] by blast
qed

text \<open>
  The claim as stated fails when two identities are given the same stream id: after
  \<open>_set_ssrc(1, 10)\<close> and \<open>_set_ssrc(2, 10)\<close> the forward map holds \<open>(1, 10)\<close> and the
  reverse map holds \<open>(10, 2)\<close>.
\<close>

theorem registry_mirror_counterexample:
  "idrcs (registry_run (init 1 (GuildChannel 7 3)) [SetSsrc 1 10, SetSsrc 2 10]) 1 = Some 10
   \<and> ssids (registry_run (init 1 (GuildChannel 7 3)) [SetSsrc 1 10, SetSsrc 2 10]) 10 = Some 2
   \<and> (2::int) \<noteq> 1"
  by (simp add: registry_run_def set_ssrc_maps)
section \<open>Sending a packet\<close>

lemma checked_add_frame:
  "mode (checked_add self a v l) = mode self"
  "ssrc (checked_add self a v l) = ssrc self"
  "secret_key (checked_add self a v l) = secret_key self"
  "socket (checked_add self a v l) = socket self"
  "effects (checked_add self a v l) = effects self"
  "endpoint_ip (checked_add self a v l) = endpoint_ip self"
  "voice_port (checked_add self a v l) = voice_port self"
  by (cases a; simp add: checked_add_def Let_def ssrc_def)+

lemma get_voice_packet_frame:
  "mode (snd (get_voice_packet ext rnd self data)) = mode self"
  "secret_key (snd (get_voice_packet ext rnd self data)) = secret_key self"
  "socket (snd (get_voice_packet ext rnd self data)) = socket self"
  "effects (snd (get_voice_packet ext rnd self data)) = effects self"
  "endpoint_ip (snd (get_voice_packet ext rnd self data)) = endpoint_ip self"
  "voice_port (snd (get_voice_packet ext rnd self data)) = voice_port self"
  using get_voice_packet_state [of ext rnd self data]
  by (auto simp: checked_add_frame)

text \<open>
  Every packet that is built is a \<open>bytearray\<close> that starts with the 12-byte header of the
  current counters.
\<close>

lemma encrypt_prefix:
  "fst (encrypt_xsalsa20_poly1305 ext self (ByteArray h) data) = Inr packet \<Longrightarrow>
     \<exists>rest. packet = ByteArray (h @ rest)"
  "fst (encrypt_xsalsa20_poly1305_suffix ext rnd self (ByteArray h) data) = Inr packet \<Longrightarrow>
     \<exists>rest. packet = ByteArray (h @ rest)"
  "fst (encrypt_xsalsa20_poly1305_lite ext self (ByteArray h) data) = Inr packet \<Longrightarrow>
     \<exists>rest. packet = ByteArray (h @ rest)"
  by (auto simp: encrypt_xsalsa20_poly1305_def encrypt_xsalsa20_poly1305_suffix_def
      encrypt_xsalsa20_poly1305_lite_def Let_def buf_add_def split: option.splits sum.splits)

lemma get_voice_packet_header:
  assumes "fst (get_voice_packet ext rnd self data) = Inr packet"
  shows "\<exists>sq ts v ss pk. pack_H (sequence self) = Inr sq \<and> pack_I (timestamp self) = Inr ts
           \<and> ssrc self = Some v \<and> pack_I v = Inr ss
           \<and> packet = ByteArray pk \<and> take 12 pk = [0x80, 0x78] @ sq @ ts @ ss"
proof -
  from assms obtain sq ts v ss m where p: "pack_H (sequence self) = Inr sq"
    "pack_I (timestamp self) = Inr ts" "ssrc self = Some v" "pack_I v = Inr ss"
    "mode self = Some m"
    by (auto simp: get_voice_packet_def Let_def split: sum.splits option.splits)
  define h where "h = [0x80, 0x78] @ sq @ ts @ ss"
  have len: "length h = 12"
    using pack_H_length [OF p(1)] pack_I_length [OF p(2)] pack_I_length [OF p(4)]
    by (simp add: h_def)
  have "fst (encrypt_xsalsa20_poly1305 ext self (ByteArray h) data) = Inr packet
      \<or> fst (encrypt_xsalsa20_poly1305_suffix ext rnd self (ByteArray h) data) = Inr packet
      \<or> fst (encrypt_xsalsa20_poly1305_lite ext self (ByteArray h) data) = Inr packet"
    using assms
    by (auto simp: get_voice_packet_def Let_def p h_def split: if_splits)
  then obtain rest where pk: "packet = ByteArray (h @ rest)"
    using encrypt_prefix by blast
  have "take 12 (h @ rest) = h"
    using len by simp
  then have "take 12 (h @ rest) = [0x80, 0x78] @ sq @ ts @ ss"
    by (simp only: h_def)
  with p pk show ?thesis by blast
qed

lemma header_fields:
  assumes "take 12 p = [a, b] @ sq @ ts @ ss" and "length sq = 2" and "length ts = 4"
  shows "take 2 p = [a, b] \<and> take 2 (drop 2 p) = sq \<and> take 4 (drop 4 p) = ts"
proof -
  have "p = take 12 p @ drop 12 p" by simp
  then have p: "p = [a, b] @ sq @ ts @ (ss @ drop 12 p)"
    using assms(1) by simp
  have "take 2 ([a, b] @ sq @ ts @ (ss @ drop 12 p)) = [a, b]" by simp
  moreover have "take 2 (drop 2 ([a, b] @ sq @ ts @ (ss @ drop 12 p))) = sq"
    using assms(2) by simp
  moreover have "take 4 (drop 4 ([a, b] @ sq @ ts @ (ss @ drop 12 p))) = ts"
    using assms(2,3) by simp
  ultimately show ?thesis using p by metis
qed

subsection \<open>Claim C9\<close>

text \<open>
  C9. When the send is reached (the packet can be built, there is a socket, and the media
  address \<open>endpoint_ip\<close>, \<open>voice_port\<close> has been assigned), a \<open>BlockingIOError\<close> from
  \<open>sendto\<close> does not leave \<open>send_audio_packet\<close>: the call returns, the only effect is the
  logged warning (nothing is sent, nothing is retried), and \<open>sequence\<close> and \<open>timestamp\<close>
  end exactly where they end when \<open>sendto\<close> succeeds.
\<close>

theorem blocked_send_is_dropped:
  assumes built: "fst (get_voice_packet ext (random_nonce env)
                        (checked_add self Attr_sequence 1 65535) data) = Inr packet"
    and sock: "socket self \<noteq> None"
    and addr: "endpoint_ip self = Some ip" "voice_port self = Some port"
    and blocked: "sendto_result env = Raises BlockingIOError"
  shows "fst (send_audio_packet ext env self data) = None
    \<and> fst (send_audio_packet ext (env\<lparr>sendto_result := Sent\<rparr>) self data) = None
    \<and> sequence (snd (send_audio_packet ext env self data))
        = sequence (snd (send_audio_packet ext (env\<lparr>sendto_result := Sent\<rparr>) self data))
    \<and> timestamp (snd (send_audio_packet ext env self data))
        = timestamp (snd (send_audio_packet ext (env\<lparr>sendto_result := Sent\<rparr>) self data))
    \<and> sequence (snd (send_audio_packet ext env self data))
        = (if sequence self + 1 > 65535 then 0 else sequence self + 1)
    \<and> timestamp (snd (send_audio_packet ext env self data))
        = (if timestamp self + SAMPLES_PER_FRAME ext > 4294967295 then 0
           else timestamp self + SAMPLES_PER_FRAME ext)
    \<and> effects (snd (send_audio_packet ext env self data))
        = effects self @
          [LogWarning ''A packet has been dropped (seq: %s, timestamp: %s).''
             [AInt (if sequence self + 1 > 65535 then 0 else sequence self + 1),
              AInt (timestamp self)]]
    \<and> effects (snd (send_audio_packet ext (env\<lparr>sendto_result := Sent\<rparr>) self data))
        = effects self @ [SendTo packet ip port]"
proof -
  define self1 where "self1 = checked_add self Attr_sequence 1 65535"
  define self2 where "self2 = snd (get_voice_packet ext (random_nonce env) self1 data)"
  have g: "get_voice_packet ext (random_nonce env) self1 data = (Inr packet, self2)"
    using built by (simp add: self1_def self2_def prod_eq_iff)
  have s1: "sequence self1 = (if sequence self + 1 > 65535 then 0 else sequence self + 1)"
    and t1: "timestamp self1 = timestamp self"
    by (simp_all add: self1_def checked_add_def Let_def)
  have s2: "sequence self2 = sequence self1" and t2: "timestamp self2 = timestamp self1"
    by (simp_all add: self2_def get_voice_packet_counters)
  have fr: "effects self2 = effects self" "endpoint_ip self2 = endpoint_ip self"
    "voice_port self2 = voice_port self" "socket self2 = socket self"
    by (simp_all add: self2_def self1_def get_voice_packet_frame checked_add_frame)
  obtain b where b: "socket self2 = Some b"
    using sock fr(4) by auto
  have blk: "send_audio_packet ext env self data =
      (None, checked_add (self2\<lparr>effects := effects self2 @
          [LogWarning ''A packet has been dropped (seq: %s, timestamp: %s).''
             [AInt (sequence self2), AInt (timestamp self2)]]\<rparr>)
        Attr_timestamp (SAMPLES_PER_FRAME ext) 4294967295)"
    by (simp add: send_audio_packet_def Let_def self1_def [symmetric] g b blocked fr addr)
  have snt: "send_audio_packet ext (env\<lparr>sendto_result := Sent\<rparr>) self data =
      (None, checked_add (self2\<lparr>effects := effects self2 @ [SendTo packet ip port]\<rparr>)
        Attr_timestamp (SAMPLES_PER_FRAME ext) 4294967295)"
    using g by (simp add: send_audio_packet_def Let_def self1_def [symmetric] b fr addr)
  show ?thesis
    unfolding blk snt
    by (simp add: checked_add_def Let_def s1 t1 s2 t2 fr)
qed

lemma toy_client_fields:
  "socket (toy_client m) = Some False" "effects (toy_client m) = []"
  "endpoint_ip (toy_client m) = Some (Some ''203.0.113.5'')"
  "voice_port (toy_client m) = Some 50000"
  by (simp_all add: toy_client_def ssrc_setter_def init_def Let_def)

theorem blocked_send_is_dropped_witness:
  "fst (send_audio_packet toy_ext env_blocked (toy_client ''xsalsa20_poly1305_lite'') [1, 2, 3])
     = None
   \<and> sequence (snd (send_audio_packet toy_ext env_blocked
          (toy_client ''xsalsa20_poly1305_lite'') [1, 2, 3])) = 1
   \<and> timestamp (snd (send_audio_packet toy_ext env_blocked
          (toy_client ''xsalsa20_poly1305_lite'') [1, 2, 3])) = 960
   \<and> effects (snd (send_audio_packet toy_ext env_blocked
          (toy_client ''xsalsa20_poly1305_lite'') [1, 2, 3]))
       = [LogWarning ''A packet has been dropped (seq: %s, timestamp: %s).'' [AInt 1, AInt 0]]"
proof -
  let ?c = "toy_client ''xsalsa20_poly1305_lite''"
  have "ready_to_send toy_ext (checked_add ?c Attr_sequence 1 65535)"
    by (simp add: ready_checked_add toy_client_ready)
  then obtain packet where built:
    "fst (get_voice_packet toy_ext (random_nonce env_blocked)
           (checked_add ?c Attr_sequence 1 65535) [1, 2, 3]) = Inr packet"
    using get_voice_packet_ok [of toy_ext _ "random_nonce env_blocked"]
    by (auto simp: env_blocked_def)
  have sock: "socket ?c \<noteq> None" by (simp add: toy_client_fields)
  have blocked: "sendto_result env_blocked = Raises BlockingIOError"
    by (simp add: env_blocked_def)
  have F: "SAMPLES_PER_FRAME toy_ext = 960" by (simp add: toy_ext_def)
  show ?thesis
    using blocked_send_is_dropped [OF built sock toy_client_fields(3,4) blocked]
    by (simp add: toy_client_counters toy_client_fields F)
qed

text \<open>A run of calls leaves the media address as it was.\<close>

lemma send_audio_packet_address:
  "endpoint_ip (snd (send_audio_packet ext env self data)) = endpoint_ip self"
  "voice_port (snd (send_audio_packet ext env self data)) = voice_port self"
proof -
  define self1 where "self1 = checked_add self Attr_sequence 1 65535"
  define self2 where "self2 = snd (get_voice_packet ext (random_nonce env) self1 data)"
  obtain r where g: "get_voice_packet ext (random_nonce env) self1 data = (r, self2)"
    by (simp add: self2_def prod_eq_iff)
  have fr: "endpoint_ip self2 = endpoint_ip self" "voice_port self2 = voice_port self"
    by (simp_all add: self2_def self1_def get_voice_packet_frame checked_add_frame)
  show "endpoint_ip (snd (send_audio_packet ext env self data)) = endpoint_ip self"
    using fr
    by (auto simp: send_audio_packet_def Let_def self1_def [symmetric] g checked_add_frame
        split: sum.splits option.splits sendto_outcome.splits)
  show "voice_port (snd (send_audio_packet ext env self data)) = voice_port self"
    using fr
    by (auto simp: send_audio_packet_def Let_def self1_def [symmetric] g checked_add_frame
        split: sum.splits option.splits sendto_outcome.splits)
qed

lemma run_address:
  "send_audio_packets ext self calls = (r, self') \<Longrightarrow>
   endpoint_ip self' = endpoint_ip self \<and> voice_port self' = voice_port self"
proof (induction calls arbitrary: self)
  case Nil
  then show ?case by simp
next
  case (Cons c calls)
  obtain data env where c: "c = (data, env)" by (cases c)
  obtain r1 self1 where one: "send_audio_packet ext env self data = (r1, self1)"
    by (cases "send_audio_packet ext env self data")
  have a: "endpoint_ip self1 = endpoint_ip self" "voice_port self1 = voice_port self"
    using send_audio_packet_address [of ext env self data] one by simp_all
  show ?case
  proof (cases r1)
    case None
    with Cons.prems c one have "send_audio_packets ext self1 calls = (r, self')" by simp
    from Cons.IH [OF this] a show ?thesis by simp
  next
    case (Some e)
    with Cons.prems c one have "self' = self1" by simp
    with a show ?thesis by simp
  qed
qed

subsection \<open>Claim C10\<close>

text \<open>
  C10. Start from counters at zero and let \<open>N - 1\<close> calls return. The packet that call
  number \<open>N\<close> hands to \<open>sendto\<close>, a \<open>bytearray\<close> addressed to the assigned
  \<open>(endpoint_ip, voice_port)\<close>, begins with \<open>0x80 0x78\<close>, carries in its sequence field the
  value after the increment, \<open>N mod 65536\<close> (1 in the first packet), and in its timestamp
  field the value before the increment, the one that \<open>N - 1\<close> calls left (0 in the first
  packet): \<open>sequence\<close> is advanced before the header is built, \<open>timestamp\<close> after the send.
\<close>

theorem nth_packet_header:
  assumes zero: "sequence self = 0" "timestamp self = 0"
    and F: "0 \<le> SAMPLES_PER_FRAME ext"
    and run: "send_audio_packets ext self calls = (None, selfN)"
    and sent: "sendto_result env = Sent"
    and call: "send_audio_packet ext env selfN data = (None, self')"
  shows "\<exists>packet ip port. endpoint_ip selfN = Some ip \<and> voice_port selfN = Some port
     \<and> effects self' = effects selfN @ [SendTo (ByteArray packet) ip port]
     \<and> take 2 packet = [0x80, 0x78]
     \<and> Inr (take 2 (drop 2 packet)) = pack_H (int (Suc (length calls) mod 65536))
     \<and> Inr (take 4 (drop 4 packet)) =
           pack_I (int (length calls mod Suc (nat (4294967295 div SAMPLES_PER_FRAME ext)))
                   * SAMPLES_PER_FRAME ext)
     \<and> sequence self' = int (Suc (length calls) mod 65536)
     \<and> timestamp self' = int (Suc (length calls) mod Suc (nat (4294967295 div SAMPLES_PER_FRAME ext)))
                   * SAMPLES_PER_FRAME ext"
proof -
  define self1 where "self1 = checked_add selfN Attr_sequence 1 65535"
  define self2 where "self2 = snd (get_voice_packet ext (random_nonce env) self1 data)"
  have before: "sequence selfN = int (length calls mod 65536)"
    "timestamp selfN = int (length calls mod Suc (nat (4294967295 div SAMPLES_PER_FRAME ext)))
                         * SAMPLES_PER_FRAME ext"
    using run_counters [OF F run, of 0] zero by simp_all
  have s1: "sequence self1 = int (Suc (length calls) mod 65536)"
  proof -
    have "sequence self1 = (if sequence selfN + 1 > 65535 then 0 else sequence selfN + 1)"
      by (simp add: self1_def checked_add_def Let_def)
    then show ?thesis by (simp only: before(1) wrap_step_sequence)
  qed
  have t1: "timestamp self1 = timestamp selfN"
    by (simp add: self1_def checked_add_def Let_def)
  obtain r where g: "get_voice_packet ext (random_nonce env) self1 data = (r, self2)"
    by (simp add: self2_def prod_eq_iff)
  obtain packet where r: "r = Inr packet"
    using call g by (cases r) (auto simp: send_audio_packet_def Let_def self1_def [symmetric])
  have fr: "effects self2 = effects selfN" "endpoint_ip self2 = endpoint_ip selfN"
    "voice_port self2 = voice_port selfN"
    by (simp_all add: self2_def self1_def get_voice_packet_frame checked_add_frame)
  have "\<exists>ip port. endpoint_ip selfN = Some ip \<and> voice_port selfN = Some port
      \<and> effects self' = effects selfN @ [SendTo packet ip port]"
    using call g r sent fr
    by (auto simp: send_audio_packet_def Let_def self1_def [symmetric] checked_add_frame
        split: option.splits)
  then obtain ip port where addr: "endpoint_ip selfN = Some ip" "voice_port selfN = Some port"
    and eff0: "effects self' = effects selfN @ [SendTo packet ip port]"
    by blast
  from get_voice_packet_header [of ext "random_nonce env" self1 data packet] g r
  obtain sq ts v ss pk where h: "pack_H (sequence self1) = Inr sq" "pack_I (timestamp self1) = Inr ts"
    "take 12 pk = [0x80, 0x78] @ sq @ ts @ ss" and pk: "packet = ByteArray pk"
    by auto
  have eff: "effects self' = effects selfN @ [SendTo (ByteArray pk) ip port]"
    using eff0 pk by simp
  from header_fields [OF h(3) pack_H_length [OF h(1)] pack_I_length [OF h(2)]]
  have fields: "take 2 pk = [0x80, 0x78]" "take 2 (drop 2 pk) = sq"
    "take 4 (drop 4 pk) = ts"
    by simp_all
  have after: "sequence self' = int (Suc (length calls) mod 65536)"
    "timestamp self' = int (Suc (length calls) mod Suc (nat (4294967295 div SAMPLES_PER_FRAME ext)))
                   * SAMPLES_PER_FRAME ext"
  proof -
    have "send_audio_packets ext self (calls @ [(data, env)]) = (None, self')"
      using run call
    proof (induction calls arbitrary: self)
      case Nil
      then show ?case by simp
    next
      case (Cons c calls)
      then show ?case by (cases c) (auto split: prod.splits option.splits)
    qed
    from run_counters [OF F this, of 0] zero
    show "sequence self' = int (Suc (length calls) mod 65536)"
      and "timestamp self' = int (Suc (length calls) mod Suc (nat (4294967295 div SAMPLES_PER_FRAME ext)))
                   * SAMPLES_PER_FRAME ext"
      by simp_all
  qed
  show ?thesis
    using addr eff fields h(1,2) s1 t1 before(2) after
    by (intro exI [of _ pk] exI [of _ ip] exI [of _ port]) simp
qed

theorem nth_packet_header_witness:
  "\<exists>selfN self' packet.
     send_audio_packets toy_ext (toy_client ''xsalsa20_poly1305_suffix'') [([], env_blocked)]
       = (None, selfN)
     \<and> send_audio_packet toy_ext env_sent selfN [1] = (None, self')
     \<and> effects self' = effects selfN @ [SendTo (ByteArray packet) (Some ''203.0.113.5'') 50000]
     \<and> take 2 packet = [0x80, 0x78]
     \<and> take 2 (drop 2 packet) = [0, 2]
     \<and> take 4 (drop 4 packet) = [0, 0, 3, 192]
     \<and> sequence self' = 2 \<and> timestamp self' = 1920"
proof -
  let ?c = "toy_client ''xsalsa20_poly1305_suffix''"
  have rdy: "ready_to_send toy_ext ?c" by (simp add: toy_client_ready)
  obtain selfN where run: "send_audio_packets toy_ext ?c [([], env_blocked)] = (None, selfN)"
    and rN: "ready_to_send toy_ext selfN"
    using send_audio_packets_ok [OF rdy, of "[([], env_blocked)]"] env_returns by auto
  obtain self' where call: "send_audio_packet toy_ext env_sent selfN [1] = (None, self')"
    using send_audio_packet_ok [OF rN env_returns(1)] by blast
  have F: "SAMPLES_PER_FRAME toy_ext = 960" by (simp add: toy_ext_def)
  have F0: "0 \<le> SAMPLES_PER_FRAME toy_ext" by (simp add: F)
  have sent: "sendto_result env_sent = Sent" by (simp add: env_sent_def)
  have H: "pack_H 2 = Inr [0, 2]" by (simp add: pack_H_def)
  have I: "pack_I 960 = Inr [0, 0, 3, 192]" by (simp add: pack_I_def)
  have addrN: "endpoint_ip selfN = Some (Some ''203.0.113.5'')" "voice_port selfN = Some 50000"
    using run_address [OF run] by (simp_all add: toy_client_fields)
  from nth_packet_header [OF toy_client_counters(1) toy_client_counters(2) F0 run sent call]
  obtain packet where
    "effects self' = effects selfN @ [SendTo (ByteArray packet) (Some ''203.0.113.5'') 50000]"
    "take 2 packet = [0x80, 0x78]"
    "take 2 (drop 2 packet) = [0, 2]"
    "take 4 (drop 4 packet) = [0, 0, 3, 192]"
    "sequence self' = 2" "timestamp self' = 1920"
    by (auto simp: F H I addrN)
  with run call show ?thesis by blast
qed
section \<open>The lite-mode nonce counter\<close>

lemma be32_reconstruct:
  assumes "0 \<le> n" and "n \<le> 4294967295"
  shows "(n::int) = (n div 16777216) mod 256 * 16777216 + (n div 65536) mod 256 * 65536
           + (n div 256) mod 256 * 256 + n mod 256"
proof -
  define q1 where "q1 = n div 256"
  define q2 where "q2 = q1 div 256"
  define q3 where "q3 = q2 div 256"
  have d2: "n div 65536 = q2"
    using zdiv_zmult2_eq [of 256 n 256] by (simp add: q1_def q2_def)
  have d3: "n div 16777216 = q3"
    using zdiv_zmult2_eq [of 256 n 65536] d2 by (simp add: q3_def)
  have e1: "n = q1 * 256 + n mod 256" by (simp add: q1_def)
  have e2: "q1 = q2 * 256 + q1 mod 256" by (simp add: q2_def)
  have e3: "q2 = q3 * 256 + q2 mod 256" by (simp add: q3_def)
  have "0 \<le> q3" "q3 < 256"
    using assms by (simp_all add: d3 [symmetric])
  then have e4: "q3 mod 256 = q3" by simp
  have "n = q3 mod 256 * 16777216 + q2 mod 256 * 65536 + q1 mod 256 * 256 + n mod 256"
    using e1 e2 e3 e4 by linarith
  then show ?thesis by (simp only: d2 d3 q1_def [symmetric])
qed

lemma byte_of_int_eq: "(word_of_int a :: byte) = word_of_int b \<Longrightarrow> a mod 256 = b mod 256"
  by (simp add: word_of_int_eq_iff take_bit_eq_mod)

lemma pack_I_inj:
  assumes "pack_I a = pack_I b" and "0 \<le> a" "a \<le> 4294967295" and "0 \<le> b" "b \<le> 4294967295"
  shows "a = b"
proof -
  from assms have "(a div 16777216) mod 256 = (b div 16777216) mod 256"
    "(a div 65536) mod 256 = (b div 65536) mod 256"
    "(a div 256) mod 256 = (b div 256) mod 256" "a mod 256 = b mod 256"
    by (auto simp: pack_I_def dest: byte_of_int_eq)
  then show ?thesis
    using be32_reconstruct [OF assms(2,3)] be32_reconstruct [OF assms(4,5)] by linarith
qed

lemma mod_shift_inj:
  assumes "k1 < n" "k2 < n" "n \<le> 4294967296"
    and eq: "(c + int k1) mod 4294967296 = (c + int k2) mod 4294967296"
  shows "k1 = k2"
proof (rule ccontr)
  assume ne: "k1 \<noteq> k2"
  from eq have d: "(4294967296::int) dvd (c + int k1) - (c + int k2)"
    by (simp only: mod_eq_dvd_iff)
  show False
  proof (cases "k1 < k2")
    case True
    from d have "(4294967296::int) dvd int k2 - int k1"
      by (metis add_diff_cancel_left dvd_minus_iff minus_diff_eq)
    moreover have "0 < int k2 - int k1" "int k2 - int k1 < 4294967296"
      using True assms(2,3) by simp_all
    ultimately show False using zdvd_not_zless by blast
  next
    case False
    with ne have "k2 < k1" by simp
    from d have "(4294967296::int) dvd int k1 - int k2" by simp
    moreover have "0 < int k1 - int k2" "int k1 - int k2 < 4294967296"
      using \<open>k2 < k1\<close> assms(1,3) by simp_all
    ultimately show False using zdvd_not_zless by blast
  qed
qed

text \<open>One seal in lite mode: the nonce is the counter, and the counter moves on by one.\<close>

lemma encrypt_lite_step:
  assumes key: "secret_key self = Some key" and box: "secret_box ext key = None"
    and seals: "\<forall>d n. length n = 24 \<longrightarrow> (\<exists>c. box_encrypt ext key d n = Inr c)"
    and range: "0 \<le> lite_nonce self" "lite_nonce self \<le> 4294967295"
  shows "\<exists>cnt ct. pack_I (lite_nonce self) = Inr cnt
      \<and> box_encrypt ext key data (cnt @ replicate 20 0) = Inr ct
      \<and> encrypt_xsalsa20_poly1305_lite ext self header data =
          (Inr (buf_add (buf_add header ct) cnt),
           self\<lparr>lite_nonce := (lite_nonce self + 1) mod 4294967296\<rparr>)"
proof -
  obtain cnt where cnt: "pack_I (lite_nonce self) = Inr cnt"
    using pack_I_ok range by blast
  have len: "length cnt = 4" using cnt by (rule pack_I_length)
  then have "length (cnt @ replicate 20 (0::byte)) = 24" by simp
  then obtain ct where ct: "box_encrypt ext key data (cnt @ replicate 20 0) = Inr ct"
    using seals by blast
  have next_c: "(if lite_nonce self + 1 > 4294967295 then 0 else lite_nonce self + 1)
          = (lite_nonce self + 1) mod 4294967296"
    using range by (auto simp: mod_pos_pos_trivial)
  have "checked_add self Attr_lite_nonce 1 4294967295
          = self\<lparr>lite_nonce := (if lite_nonce self + 1 > 4294967295 then 0
                                   else lite_nonce self + 1)\<rparr>"
    by (simp add: checked_add_def Let_def)
  then have "checked_add self Attr_lite_nonce 1 4294967295
          = self\<lparr>lite_nonce := (lite_nonce self + 1) mod 4294967296\<rparr>"
    by (simp only: next_c)
  then show ?thesis
    using cnt ct len
    by (simp add: encrypt_xsalsa20_poly1305_lite_def key box Let_def)
qed

text \<open>
  A run of seals: call number \<open>k\<close> seals its payload under the nonce made of the bytes of
  \<open>(c + k) mod 2^32\<close> and 20 zero bytes, and appends those four bytes.
\<close>

lemma lite_seals_run:
  assumes seals: "\<forall>d n. length n = 24 \<longrightarrow> (\<exists>c. box_encrypt ext key d n = Inr c)"
    and box: "secret_box ext key = None"
  shows "secret_key self = Some key \<Longrightarrow> 0 \<le> lite_nonce self \<Longrightarrow>
    lite_nonce self \<le> 4294967295 \<Longrightarrow>
    \<exists>packets self'. lite_seals ext self calls = (Inr packets, self')
      \<and> length packets = length calls
      \<and> (\<forall>k < length calls. \<exists>cnt ct.
             pack_I ((lite_nonce self + int k) mod 4294967296) = Inr cnt
           \<and> box_encrypt ext key (snd (calls ! k)) (cnt @ replicate 20 0) = Inr ct
           \<and> packets ! k = buf_add (buf_add (fst (calls ! k)) ct) cnt)
      \<and> lite_nonce self' = (lite_nonce self + int (length calls)) mod 4294967296"
proof (induction calls arbitrary: self)
  case Nil
  then show ?case by (simp add: mod_pos_pos_trivial)
next
  case (Cons c calls)
  obtain header data where c: "c = (header, data)" by (cases c)
  let ?c0 = "lite_nonce self"
  define self1 where "self1 = self\<lparr>lite_nonce := (?c0 + 1) mod 4294967296\<rparr>"
  from encrypt_lite_step [OF Cons.prems(1) box seals Cons.prems(2,3), of data header]
  obtain cnt ct where cnt: "pack_I ?c0 = Inr cnt"
    and ct: "box_encrypt ext key data (cnt @ replicate 20 0) = Inr ct"
    and one: "encrypt_xsalsa20_poly1305_lite ext self header data
                = (Inr (buf_add (buf_add header ct) cnt), self1)"
    by (auto simp: self1_def)
  have k1: "secret_key self1 = Some key" using Cons.prems(1) by (simp add: self1_def)
  have c1: "lite_nonce self1 = (?c0 + 1) mod 4294967296" by (simp add: self1_def)
  have r1: "0 \<le> lite_nonce self1" "lite_nonce self1 \<le> 4294967295"
    by (simp_all add: c1)
  from Cons.IH [OF k1 r1]
  obtain packets self' where rest: "lite_seals ext self1 calls = (Inr packets, self')"
    and n: "length packets = length calls"
    and each: "\<forall>k < length calls. \<exists>cnt ct.
             pack_I ((lite_nonce self1 + int k) mod 4294967296) = Inr cnt
           \<and> box_encrypt ext key (snd (calls ! k)) (cnt @ replicate 20 0) = Inr ct
           \<and> packets ! k = buf_add (buf_add (fst (calls ! k)) ct) cnt"
    and fin: "lite_nonce self' = (lite_nonce self1 + int (length calls)) mod 4294967296"
    by blast
  have shift: "(lite_nonce self1 + int k) mod 4294967296 = (?c0 + int (Suc k)) mod 4294967296" for k
    by (simp add: c1 mod_add_left_eq add.assoc)
  have first: "pack_I ((?c0 + int 0) mod 4294967296) = Inr cnt"
    using cnt Cons.prems(2,3) by (simp add: mod_pos_pos_trivial)
  let ?p = "buf_add (buf_add header ct) cnt"
  have all: "\<exists>cnt ct.
             pack_I ((?c0 + int k) mod 4294967296) = Inr cnt
           \<and> box_encrypt ext key (snd ((c # calls) ! k)) (cnt @ replicate 20 0) = Inr ct
           \<and> (?p # packets) ! k = buf_add (buf_add (fst ((c # calls) ! k)) ct) cnt"
    if k: "k < length (c # calls)" for k
  proof (cases k)
    case 0
    then show ?thesis using first ct c by auto
  next
    case (Suc j)
    with k have j: "j < length calls" by simp
    from each j obtain cnt' ct' where
      "pack_I ((lite_nonce self1 + int j) mod 4294967296) = Inr cnt'"
      "box_encrypt ext key (snd (calls ! j)) (cnt' @ replicate 20 0) = Inr ct'"
      "packets ! j = buf_add (buf_add (fst (calls ! j)) ct') cnt'"
      by blast
    then show ?thesis
      unfolding Suc shift by auto
  qed
  have fin': "lite_nonce self' = (?c0 + int (length (c # calls))) mod 4294967296"
    using fin shift [of "length calls"] by simp
  have run: "lite_seals ext self (c # calls) = (Inr (?p # packets), self')"
    by (simp add: c one rest)
  have len: "length (?p # packets) = length (c # calls)" using n by simp
  show ?case
    using run len all fin' by blast
qed

lemma pair_list: "length xs = 2 \<Longrightarrow> xs = [xs ! 0, xs ! 1]"
  by (cases xs; cases "tl xs") auto

subsection \<open>Claim C5\<close>

text \<open>
  C5. In lite mode, let the counter be inside its 4-byte field (as \<open>__init__\<close> and every
  call leave it), and let the box accept the key and seal under every 24-byte nonce. In a
  run of at most \<open>2^32\<close> consecutive calls, call number \<open>k\<close> (from 0) passes to
  \<open>box.encrypt\<close> the nonce whose first four bytes are the big-endian bytes of
  \<open>(c + k) mod 2^32\<close>, \<open>c\<close> being the counter at the start, and whose other 20 bytes are
  zero; the packet holds the ciphertext sealed under that nonce, followed by the four
  counter bytes. The counter is one more per call, back to 0 after \<open>2^32 - 1\<close>, never
  negative, and the nonces of the run, as well as their counter bytes, are pairwise
  distinct.
\<close>

theorem lite_nonces_distinct:
  assumes key: "secret_key self = Some key" and box: "secret_box ext key = None"
    and seals: "\<forall>d n. length n = 24 \<longrightarrow> (\<exists>c. box_encrypt ext key d n = Inr c)"
    and range: "0 \<le> lite_nonce self" "lite_nonce self \<le> 4294967295"
    and n: "length calls \<le> 4294967296"
  shows "\<exists>packets nonces self'. lite_seals ext self calls = (Inr packets, self')
      \<and> length packets = length calls \<and> length nonces = length calls
      \<and> (\<forall>k < length calls.
             length (nonces ! k) = 24
           \<and> Inr (take 4 (nonces ! k)) = pack_I ((lite_nonce self + int k) mod 4294967296)
           \<and> drop 4 (nonces ! k) = replicate 20 0
           \<and> (\<exists>ct. box_encrypt ext key (snd (calls ! k)) (nonces ! k) = Inr ct
                  \<and> packets ! k
                      = buf_add (buf_add (fst (calls ! k)) ct) (take 4 (nonces ! k))))
      \<and> distinct nonces
      \<and> distinct (map (take 4) nonces)
      \<and> lite_nonce self' = (lite_nonce self + int (length calls)) mod 4294967296
      \<and> 0 \<le> lite_nonce self' \<and> lite_nonce self' \<le> 4294967295"
proof -
  let ?v = "\<lambda>k. (lite_nonce self + int k) mod 4294967296"
  define cnt where "cnt k = (case pack_I (?v k) of Inr b \<Rightarrow> b | Inl e \<Rightarrow> [])" for k
  have cnt: "pack_I (?v k) = Inr (cnt k)" for k
    by (simp add: cnt_def pack_I_def)
  have clen: "length (cnt k) = 4" for k
    using cnt [of k] by (rule pack_I_length)
  define nonces where "nonces = map (\<lambda>k. cnt k @ replicate 20 0) [0..<length calls]"
  from lite_seals_run [OF seals box key range, of calls]
  obtain packets self' where run: "lite_seals ext self calls = (Inr packets, self')"
    and len: "length packets = length calls"
    and each: "\<forall>k < length calls. \<exists>c ct. pack_I (?v k) = Inr c
           \<and> box_encrypt ext key (snd (calls ! k)) (c @ replicate 20 0) = Inr ct
           \<and> packets ! k = buf_add (buf_add (fst (calls ! k)) ct) c"
    and fin: "lite_nonce self' = (lite_nonce self + int (length calls)) mod 4294967296"
    by blast
  have nlen: "length nonces = length calls" by (simp add: nonces_def)
  have nth: "nonces ! k = cnt k @ replicate 20 0" if "k < length calls" for k
    using that by (simp add: nonces_def)
  have inj: "inj_on cnt (set [0..<length calls])"
  proof (rule inj_onI)
    fix k1 k2
    assume k: "k1 \<in> set [0..<length calls]" "k2 \<in> set [0..<length calls]"
      and eq: "cnt k1 = cnt k2"
    have "pack_I (?v k1) = pack_I (?v k2)"
      using eq by (simp only: cnt)
    then have "?v k1 = ?v k2"
      by (rule pack_I_inj) simp_all
    then show "k1 = k2"
      using k n mod_shift_inj [of k1 "length calls" k2 "lite_nonce self"] by simp
  qed
  have inj': "inj_on (\<lambda>k. cnt k @ replicate 20 (0::byte)) (set [0..<length calls])"
  proof (rule inj_onI)
    fix k1 k2
    assume k: "k1 \<in> set [0..<length calls]" "k2 \<in> set [0..<length calls]"
      and eq: "cnt k1 @ replicate 20 (0::byte) = cnt k2 @ replicate 20 0"
    then have "cnt k1 = cnt k2" by simp
    then show "k1 = k2" using inj k by (auto dest: inj_onD)
  qed
  have d1: "distinct nonces"
    unfolding nonces_def using inj' by (simp add: distinct_map)
  have "map (take 4) nonces = map cnt [0..<length calls]"
    by (simp add: nonces_def clen)
  then have d2: "distinct (map (take 4) nonces)"
    using inj by (simp add: distinct_map)
  have all: "length (nonces ! k) = 24
           \<and> Inr (take 4 (nonces ! k)) = pack_I (?v k)
           \<and> drop 4 (nonces ! k) = replicate 20 0
           \<and> (\<exists>ct. box_encrypt ext key (snd (calls ! k)) (nonces ! k) = Inr ct
                  \<and> packets ! k
                      = buf_add (buf_add (fst (calls ! k)) ct) (take 4 (nonces ! k)))"
    if k: "k < length calls" for k
  proof -
    from each k obtain c ct where c: "pack_I (?v k) = Inr c"
      and ct: "box_encrypt ext key (snd (calls ! k)) (c @ replicate 20 0) = Inr ct"
      and p: "packets ! k = buf_add (buf_add (fst (calls ! k)) ct) c"
      by blast
    from c cnt [of k] have "c = cnt k" by simp
    with ct p show ?thesis
      by (auto simp: nth [OF k] clen cnt)
  qed
  have "0 \<le> lite_nonce self'" "lite_nonce self' \<le> 4294967295"
    by (simp_all add: fin)
  with run len nlen all d1 d2 fin show ?thesis by blast
qed

theorem lite_nonces_distinct_witness:
  "\<exists>packets nonces self'.
     lite_seals toy_ext ((toy_client ''xsalsa20_poly1305_lite'')\<lparr>lite_nonce := 4294967295\<rparr>)
       [(ByteArray [9], [1]), (ByteArray [9], [1])] = (Inr packets, self')
     \<and> nonces = [[255, 255, 255, 255] @ replicate 20 (0::byte), [0, 0, 0, 0] @ replicate 20 0]
     \<and> distinct nonces
     \<and> packets = [ByteArray ([9] @ ([255, 255, 255, 255] @ replicate 12 0) @ [1]
                                @ [255, 255, 255, 255]),
                   ByteArray ([9] @ ([0, 0, 0, 0] @ replicate 12 0) @ [1] @ [0, 0, 0, 0])]
     \<and> lite_nonce self' = 1"
proof -
  let ?c = "(toy_client ''xsalsa20_poly1305_lite'')\<lparr>lite_nonce := 4294967295\<rparr>"
  let ?calls = "[(ByteArray [9], [1]), (ByteArray [9], [1 :: byte])] :: (buffer \<times> bytes) list"
  let ?key = "replicate 32 (0::byte)"
  have key: "secret_key ?c = Some ?key"
    by (simp add: toy_client_def)
  have box: "secret_box toy_ext ?key = None"
    by (simp add: toy_ext_def)
  have seals: "\<forall>d n. length n = 24 \<longrightarrow> (\<exists>c. box_encrypt toy_ext ?key d n = Inr c)"
    by (simp add: toy_ext_def)
  have range: "0 \<le> lite_nonce ?c" "lite_nonce ?c \<le> 4294967295" by simp_all
  have n: "length ?calls \<le> 4294967296" by simp
  have a: "pack_I 4294967295 = Inr [255, 255, 255, 255]" by (simp add: pack_I_def)
  have b: "pack_I 0 = Inr [0, 0, 0, 0]" by (simp add: pack_I_def)
  from lite_nonces_distinct [OF key box seals range n]
  obtain packets nonces self' where run: "lite_seals toy_ext ?c ?calls = (Inr packets, self')"
    and len0: "length packets = length ?calls" "length nonces = length ?calls"
    and each: "\<forall>k < length ?calls.
             length (nonces ! k) = 24
           \<and> Inr (take 4 (nonces ! k)) = pack_I ((lite_nonce ?c + int k) mod 4294967296)
           \<and> drop 4 (nonces ! k) = replicate 20 0
           \<and> (\<exists>ct. box_encrypt toy_ext ?key (snd (?calls ! k)) (nonces ! k) = Inr ct
                  \<and> packets ! k
                      = buf_add (buf_add (fst (?calls ! k)) ct) (take 4 (nonces ! k)))"
    and dist: "distinct nonces"
    and fin: "lite_nonce self' = (lite_nonce ?c + int (length ?calls)) mod 4294967296"
    by blast
  have len: "length packets = 2" "length nonces = 2"
    using len0 by simp_all
  have split: "xs = take 4 xs @ drop 4 xs" for xs :: bytes by simp
  from each [rule_format, of 0] a
  have t0: "take 4 (nonces ! 0) = [255, 255, 255, 255]" and z0: "drop 4 (nonces ! 0) = replicate 20 0"
    and p0: "\<exists>ct. box_encrypt toy_ext ?key [1] (nonces ! 0) = Inr ct
                  \<and> packets ! 0 = buf_add (buf_add (ByteArray [9]) ct) (take 4 (nonces ! 0))"
    by auto
  from each [rule_format, of 1] b
  have t1: "take 4 (nonces ! 1) = [0, 0, 0, 0]" and z1: "drop 4 (nonces ! 1) = replicate 20 0"
    and p1: "\<exists>ct. box_encrypt toy_ext ?key [1] (nonces ! 1) = Inr ct
                  \<and> packets ! 1 = buf_add (buf_add (ByteArray [9]) ct) (take 4 (nonces ! 1))"
    by auto
  have n0: "nonces ! 0 = [255, 255, 255, 255] @ replicate 20 0"
    using split [of "nonces ! 0"] by (simp only: t0 z0)
  have n1: "nonces ! 1 = [0, 0, 0, 0] @ replicate 20 0"
    using split [of "nonces ! 1"] by (simp only: t1 z1)
  have "nonces = [nonces ! 0, nonces ! 1]"
    by (rule pair_list [OF len(2)])
  also have "\<dots> = [[255, 255, 255, 255] @ replicate 20 0, [0, 0, 0, 0] @ replicate 20 0]"
    by (simp only: n0 n1)
  finally have ns:
    "nonces = [[255, 255, 255, 255] @ replicate 20 0, [0, 0, 0, 0] @ replicate 20 0]" .
  have q0: "packets ! 0 = ByteArray ([9] @ ([255, 255, 255, 255] @ replicate 12 0) @ [1]
                                @ [255, 255, 255, 255])"
    using p0 unfolding n0 by (auto simp: toy_ext_def buf_add_def)
  have q1: "packets ! 1 = ByteArray ([9] @ ([0, 0, 0, 0] @ replicate 12 0) @ [1] @ [0, 0, 0, 0])"
    using p1 unfolding n1 by (auto simp: toy_ext_def buf_add_def)
  have "packets = [packets ! 0, packets ! 1]"
    by (rule pair_list [OF len(1)])
  also have "\<dots> = [ByteArray ([9] @ ([255, 255, 255, 255] @ replicate 12 0) @ [1]
                                @ [255, 255, 255, 255]),
                   ByteArray ([9] @ ([0, 0, 0, 0] @ replicate 12 0) @ [1] @ [0, 0, 0, 0])]"
    by (simp only: q0 q1)
  finally have ps: "packets = [ByteArray ([9] @ ([255, 255, 255, 255] @ replicate 12 0) @ [1]
                                @ [255, 255, 255, 255]),
                   ByteArray ([9] @ ([0, 0, 0, 0] @ replicate 12 0) @ [1] @ [0, 0, 0, 0])]" .
  from fin have f: "lite_nonce self' = 1" by simp
  show ?thesis
    by (rule exI [of _ packets], rule exI [of _ nonces], rule exI [of _ self'])
      (intro conjI run ns dist ps f)
qed

section \<open>Building and parsing a packet\<close>

subsection \<open>What \<open>_strip_header\<close> returns\<close>

lemma strip_header_empty: "strip_header [] = Inl IndexError"
  by (simp add: strip_header_def)

lemma strip_header_lone_marker: "strip_header [0xbe] = Inl IndexError"
  by (simp add: strip_header_def)

lemma strip_header_plain:
  assumes "p \<noteq> []" and "p \<noteq> [0xbe]"
    and "\<not> (length p > 4 \<and> p ! 0 = 0xbe \<and> p ! 1 = 0xde)"
  shows "strip_header p = Inr p"
proof (cases p)
  case Nil
  with assms(1) show ?thesis by simp
next
  case (Cons d0 r0)
  show ?thesis
  proof (cases r0)
    case Nil
    with Cons assms(2) show ?thesis by (simp add: strip_header_def)
  next
    case (Cons d1 r1)
    with \<open>p = d0 # r0\<close> assms(3) show ?thesis
      by (auto simp: strip_header_def Let_def)
  qed
qed

lemma strip_header_extension:
  assumes "length p > 4" and "p ! 0 = 0xbe" and "p ! 1 = 0xde"
  shows "strip_header p = Inr (drop (nat (4 + (uint (p ! 2) * 256 + uint (p ! 3)) * 4)) p)"
proof -
  from assms(1) obtain d0 d1 r where p: "p = d0 # d1 # r"
    by (cases p; cases "tl p") auto
  with assms show ?thesis
    by (simp add: strip_header_def Let_def)
qed

subsection \<open>Opening what was sealed\<close>

text \<open>
  The plain and the lite opener read only the content of their arguments, so they treat a
  \<open>bytearray\<close> like the \<open>bytes\<close> of the same content.
\<close>

lemma parse_reads_content:
  assumes "mode self \<noteq> Some ''xsalsa20_poly1305_suffix''"
  shows "parse_inbound_packet ext self (ByteArray pk) = parse_inbound_packet ext self (Bytes pk)"
  using assms
  by (simp add: parse_inbound_packet_def decrypt_xsalsa20_poly1305_def
      decrypt_xsalsa20_poly1305_lite_def Let_def split: option.splits)

lemma plain_roundtrip:
  assumes law: "\<forall>d n c. length n = 24 \<longrightarrow> box_encrypt ext key d n = Inr c \<longrightarrow>
                  box_decrypt ext key c (Bytes n) = Inr d"
    and key: "secret_key self = Some key"
    and h: "length h = 12"
    and built: "fst (encrypt_xsalsa20_poly1305 ext self (ByteArray h) p) = Inr packet"
  shows "decrypt_xsalsa20_poly1305 ext self (Bytes (take 12 (content packet)))
           (Bytes (drop 12 (content packet))) = strip_header p"
proof -
  let ?nonce = "h @ replicate 12 0"
  from built obtain c where box: "secret_box ext key = None"
    and c: "box_encrypt ext key p ?nonce = Inr c" and pk: "packet = ByteArray (h @ c)"
    by (auto simp: encrypt_xsalsa20_poly1305_def key Let_def buf_add_def
        split: option.splits sum.splits)
  have "length ?nonce = 24" using h by simp
  with law c have d: "box_decrypt ext key c (Bytes ?nonce) = Inr p" by blast
  show ?thesis
    using h d by (simp add: decrypt_xsalsa20_poly1305_def key box Let_def pk)
qed

lemma suffix_roundtrip:
  assumes law: "\<forall>d n c. length n = 24 \<longrightarrow> box_encrypt ext key d n = Inr c \<longrightarrow>
                  box_decrypt ext key c (Bytes n) = Inr d"
    and key: "secret_key self = Some key"
    and h: "length h = 12" and rnd: "length rnd = 24"
    and built: "fst (encrypt_xsalsa20_poly1305_suffix ext rnd self (ByteArray h) p) = Inr packet"
  shows "decrypt_xsalsa20_poly1305_suffix ext self (Bytes (take 12 (content packet)))
           (Bytes (drop 12 (content packet))) = strip_header p"
proof -
  from built obtain c where box: "secret_box ext key = None"
    and c: "box_encrypt ext key p rnd = Inr c" and pk: "packet = ByteArray (h @ c @ rnd)"
    by (auto simp: encrypt_xsalsa20_poly1305_suffix_def key Let_def buf_add_def
        split: option.splits sum.splits)
  from law rnd c have d: "box_decrypt ext key c (Bytes rnd) = Inr p" by blast
  show ?thesis
    using h rnd d by (simp add: decrypt_xsalsa20_poly1305_suffix_def key box Let_def pk)
qed

lemma lite_roundtrip:
  assumes law: "\<forall>d n c. length n = 24 \<longrightarrow> box_encrypt ext key d n = Inr c \<longrightarrow>
                  box_decrypt ext key c (Bytes n) = Inr d"
    and key: "secret_key self = Some key"
    and h: "length h = 12"
    and built: "encrypt_xsalsa20_poly1305_lite ext self (ByteArray h) p = (Inr packet, self')"
  shows "decrypt_xsalsa20_poly1305_lite ext self' (Bytes (take 12 (content packet)))
           (Bytes (drop 12 (content packet))) = strip_header p"
proof -
  from built obtain cnt where box: "secret_box ext key = None"
    and cnt: "pack_I (lite_nonce self) = Inr cnt"
    by (auto simp: encrypt_xsalsa20_poly1305_lite_def key Let_def split: option.splits sum.splits)
  have len: "length cnt = 4" using cnt by (rule pack_I_length)
  let ?nonce = "cnt @ replicate 20 0"
  from built obtain c where c: "box_encrypt ext key p ?nonce = Inr c"
    and pk: "packet = ByteArray (h @ c @ cnt)"
    and st: "self' = checked_add self Attr_lite_nonce 1 4294967295"
    using len
    by (auto simp: encrypt_xsalsa20_poly1305_lite_def key box cnt Let_def buf_add_def
        split: sum.splits)
  have "length ?nonce = 24" using len by simp
  with law c have d: "box_decrypt ext key c (Bytes ?nonce) = Inr p" by blast
  have key': "secret_key self' = Some key"
    using key by (simp add: st checked_add_frame)
  show ?thesis
    using h len d by (simp add: decrypt_xsalsa20_poly1305_lite_def key' box Let_def pk)
qed

text \<open>
  Parsing the bytes of a built packet opens them and hands the payload to
  \<open>_strip_header\<close>.
\<close>

lemma roundtrip_is_strip_header:
  assumes law: "\<forall>d n c. length n = 24 \<longrightarrow> box_encrypt ext key d n = Inr c \<longrightarrow>
                  box_decrypt ext key c (Bytes n) = Inr d"
    and key: "secret_key self = Some key"
    and rnd: "length rnd = 24"
    and built: "get_voice_packet ext rnd self p = (Inr packet, self')"
  shows "parse_inbound_packet ext self' (Bytes (content packet)) = strip_header p"
proof -
  from built obtain sq ts v ss m where f: "pack_H (sequence self) = Inr sq"
    "pack_I (timestamp self) = Inr ts" "ssrc self = Some v" "pack_I v = Inr ss"
    "mode self = Some m"
    by (auto simp: get_voice_packet_def Let_def split: sum.splits option.splits)
  define h where "h = [0x80, 0x78] @ sq @ ts @ ss"
  have len: "length h = 12"
    using pack_H_length [OF f(1)] pack_I_length [OF f(2)] pack_I_length [OF f(4)]
    by (simp add: h_def)
  have st: "self' = snd (get_voice_packet ext rnd self p)" using built by simp
  have m': "mode self' = Some m" and key': "secret_key self' = Some key"
    by (simp_all add: st get_voice_packet_frame f key)
  have disj: "(m = ''xsalsa20_poly1305''
        \<and> encrypt_xsalsa20_poly1305 ext self (ByteArray h) p = (Inr packet, self'))
      \<or> (m = ''xsalsa20_poly1305_suffix''
        \<and> encrypt_xsalsa20_poly1305_suffix ext rnd self (ByteArray h) p = (Inr packet, self'))
      \<or> (m = ''xsalsa20_poly1305_lite''
        \<and> encrypt_xsalsa20_poly1305_lite ext self (ByteArray h) p = (Inr packet, self'))"
    using built
    by (auto simp: get_voice_packet_def Let_def f h_def split: if_splits)
  then show ?thesis
  proof (elim disjE conjE)
    assume m: "m = ''xsalsa20_poly1305''"
      and e: "encrypt_xsalsa20_poly1305 ext self (ByteArray h) p = (Inr packet, self')"
    then have "self' = self" using encrypt_plain_state [of ext self "ByteArray h" p] by simp
    with plain_roundtrip [OF law key len, of p packet] e m m'
    show ?thesis by (simp add: parse_inbound_packet_def Let_def)
  next
    assume m: "m = ''xsalsa20_poly1305_suffix''"
      and e: "encrypt_xsalsa20_poly1305_suffix ext rnd self (ByteArray h) p = (Inr packet, self')"
    then have "self' = self"
      using encrypt_suffix_state [of ext rnd self "ByteArray h" p] by simp
    with suffix_roundtrip [OF law key len rnd, of p packet] e m m'
    show ?thesis by (simp add: parse_inbound_packet_def Let_def)
  next
    assume m: "m = ''xsalsa20_poly1305_lite''"
      and e: "encrypt_xsalsa20_poly1305_lite ext self (ByteArray h) p = (Inr packet, self')"
    with lite_roundtrip [OF law key len e] m'
    show ?thesis by (simp add: parse_inbound_packet_def Let_def)
  qed
qed

lemma toy_box_law:
  "\<forall>d n c. length n = 24 \<longrightarrow> box_encrypt toy_ext key d n = Inr c \<longrightarrow>
     box_decrypt toy_ext key c (Bytes n) = Inr d"
  by (auto simp: toy_ext_def)

lemma toy_client_key: "secret_key (toy_client m) = Some (replicate 32 0)"
  by (simp add: toy_client_def)

lemma toy_client_eval:
  "mode (toy_client m) = Some m" "ssrc (toy_client m) = Some 5"
  by (simp_all add: toy_client_def ssrc_setter_def init_def ssrc_def Let_def)

lemma toy_build_plain:
  "get_voice_packet toy_ext rnd (toy_client ''xsalsa20_poly1305'') p =
     (Inr (ByteArray ([0x80, 0x78, 0, 0, 0, 0, 0, 0, 0, 0, 0, 5]
                      @ ([0x80, 0x78, 0, 0, 0, 0, 0, 0, 0, 0, 0, 5] @ replicate 4 0) @ p)),
      toy_client ''xsalsa20_poly1305'')"
  by (simp add: get_voice_packet_def toy_client_eval toy_client_counters toy_client_key
      pack_H_def pack_I_def encrypt_xsalsa20_poly1305_def toy_ext_def Let_def buf_add_def)

lemma toy_build_suffix:
  "get_voice_packet toy_ext (replicate 24 0) (toy_client ''xsalsa20_poly1305_suffix'') p =
     (Inr (ByteArray ([0x80, 0x78, 0, 0, 0, 0, 0, 0, 0, 0, 0, 5]
                      @ replicate 16 0 @ p @ replicate 24 0)),
      toy_client ''xsalsa20_poly1305_suffix'')"
  by (simp add: get_voice_packet_def toy_client_eval toy_client_counters toy_client_key
      pack_H_def pack_I_def encrypt_xsalsa20_poly1305_suffix_def toy_ext_def Let_def
      buf_add_def)

lemma toy_build_lite:
  "get_voice_packet toy_ext rnd (toy_client ''xsalsa20_poly1305_lite'') p =
     (Inr (ByteArray ([0x80, 0x78, 0, 0, 0, 0, 0, 0, 0, 0, 0, 5]
                      @ ([0, 0, 0, 0] @ replicate 12 0) @ p @ [0, 0, 0, 0])),
      (toy_client ''xsalsa20_poly1305_lite'')\<lparr>lite_nonce := 1\<rparr>)"
  by (simp add: get_voice_packet_def toy_client_eval toy_client_counters toy_client_key
      pack_H_def pack_I_def encrypt_xsalsa20_poly1305_lite_def toy_ext_def Let_def
      checked_add_def buf_add_def)

subsection \<open>Claim C1\<close>

text \<open>
  C1, as amended. For each of the three modes, a client that can send, a box whose open
  inverts its seal under the same key and 24-byte nonce, and a 24-byte random nonce: the
  packet built from a payload \<open>p\<close> is a \<open>bytearray\<close>, and its bytes, as a socket delivers
  them, parse back to exactly \<open>p\<close> when \<open>p\<close> is not empty, is not the single byte \<open>0xBE\<close>,
  and is not longer than four bytes with \<open>0xBE 0xDE\<close> in front. A payload longer than four
  bytes that begins with \<open>0xBE 0xDE\<close> is taken for an extension header and comes back
  without its first \<open>4 + 4 * len\<close> bytes, \<open>len\<close> being its third and fourth byte read
  big-endian. In the plain and the lite mode the \<open>bytearray\<close> itself parses like its bytes.
\<close>

theorem parse_of_built_packet:
  assumes rdy: "ready_to_send ext self"
    and key: "secret_key self = Some key"
    and law: "\<forall>d n c. length n = 24 \<longrightarrow> box_encrypt ext key d n = Inr c \<longrightarrow>
                box_decrypt ext key c (Bytes n) = Inr d"
    and rnd: "length rnd = 24"
  shows "\<exists>packet self'. get_voice_packet ext rnd self p = (Inr (ByteArray packet), self')
     \<and> (p \<noteq> [] \<and> p \<noteq> [0xbe] \<and> \<not> (length p > 4 \<and> p ! 0 = 0xbe \<and> p ! 1 = 0xde) \<longrightarrow>
          parse_inbound_packet ext self' (Bytes packet) = Inr p)
     \<and> (length p > 4 \<and> p ! 0 = 0xbe \<and> p ! 1 = 0xde \<longrightarrow>
          parse_inbound_packet ext self' (Bytes packet)
            = Inr (drop (nat (4 + (uint (p ! 2) * 256 + uint (p ! 3)) * 4)) p))
     \<and> (mode self \<noteq> Some ''xsalsa20_poly1305_suffix'' \<longrightarrow>
          parse_inbound_packet ext self' (ByteArray packet)
            = parse_inbound_packet ext self' (Bytes packet))"
proof -
  obtain r self' where g: "get_voice_packet ext rnd self p = (r, self')"
    by (cases "get_voice_packet ext rnd self p")
  obtain buf where r: "r = Inr buf"
    using get_voice_packet_ok [OF rdy rnd, of p] g by auto
  obtain packet where buf: "buf = ByteArray packet"
    using get_voice_packet_header [of ext rnd self p buf] g r by auto
  have parse: "parse_inbound_packet ext self' (Bytes packet) = strip_header p"
    using roundtrip_is_strip_header [OF law key rnd, of p buf self'] g r buf by simp
  have "mode self' = mode self"
    using get_voice_packet_frame(1) [of ext rnd self p] g by simp
  then have same: "mode self \<noteq> Some ''xsalsa20_poly1305_suffix'' \<longrightarrow>
      parse_inbound_packet ext self' (ByteArray packet)
        = parse_inbound_packet ext self' (Bytes packet)"
    using parse_reads_content [of self' ext packet] by simp
  show ?thesis
    using g r buf parse same strip_header_plain [of p] strip_header_extension [of p]
    by (intro exI [of _ packet] exI [of _ self']) simp
qed

theorem parse_of_built_packet_witness:
  "(\<exists>packet self'.
      get_voice_packet toy_ext (replicate 24 0) (toy_client ''xsalsa20_poly1305_lite'') [7]
        = (Inr (ByteArray packet), self')
      \<and> parse_inbound_packet toy_ext self' (Bytes packet) = Inr [7]
      \<and> parse_inbound_packet toy_ext self' (ByteArray packet) = Inr [7])
   \<and> (\<exists>packet self'.
      get_voice_packet toy_ext (replicate 24 0) (toy_client ''xsalsa20_poly1305_suffix'')
        (replicate 2000 5) = (Inr (ByteArray packet), self')
      \<and> parse_inbound_packet toy_ext self' (Bytes packet) = Inr (replicate 2000 5))
   \<and> (\<exists>packet self'.
      get_voice_packet toy_ext (replicate 24 0) (toy_client ''xsalsa20_poly1305'')
        [0xbe, 0xde, 0, 1, 9, 9, 9, 9, 42] = (Inr (ByteArray packet), self')
      \<and> parse_inbound_packet toy_ext self' (Bytes packet) = Inr [42])"
proof -
  have rnd: "length (replicate 24 (0::byte)) = 24" by simp
  have big: "replicate 2000 (5::byte) \<noteq> []" "replicate 2000 (5::byte) \<noteq> [0xbe]"
    "replicate 2000 (5::byte) ! 0 \<noteq> 0xbe"
  proof -
    show "replicate 2000 (5::byte) \<noteq> []" by simp
    have "length (replicate 2000 (5::byte)) \<noteq> length [0xbe :: byte]" by simp
    then show "replicate 2000 (5::byte) \<noteq> [0xbe]" by metis
    show "replicate 2000 (5::byte) ! 0 \<noteq> 0xbe" by simp
  qed
  have lite: "mode (toy_client ''xsalsa20_poly1305_lite'') \<noteq> Some ''xsalsa20_poly1305_suffix''"
    by (simp add: toy_client_eval)
  have A: "\<exists>packet self'.
      get_voice_packet toy_ext (replicate 24 0) (toy_client ''xsalsa20_poly1305_lite'') [7]
        = (Inr (ByteArray packet), self')
      \<and> parse_inbound_packet toy_ext self' (Bytes packet) = Inr [7]
      \<and> parse_inbound_packet toy_ext self' (ByteArray packet) = Inr [7]"
    using parse_of_built_packet [OF toy_client_ready toy_client_key toy_box_law rnd,
        of "''xsalsa20_poly1305_lite''" "[7]"] lite
    by auto
  have B: "\<exists>packet self'.
      get_voice_packet toy_ext (replicate 24 0) (toy_client ''xsalsa20_poly1305_suffix'')
        (replicate 2000 5) = (Inr (ByteArray packet), self')
      \<and> parse_inbound_packet toy_ext self' (Bytes packet) = Inr (replicate 2000 5)"
    using parse_of_built_packet [OF toy_client_ready toy_client_key toy_box_law rnd,
        of "''xsalsa20_poly1305_suffix''" "replicate 2000 5"] big
    by auto
  have C: "\<exists>packet self'.
      get_voice_packet toy_ext (replicate 24 0) (toy_client ''xsalsa20_poly1305'')
        [0xbe, 0xde, 0, 1, 9, 9, 9, 9, 42] = (Inr (ByteArray packet), self')
      \<and> parse_inbound_packet toy_ext self' (Bytes packet) = Inr [42]"
    using parse_of_built_packet [OF toy_client_ready toy_client_key toy_box_law rnd,
        of "''xsalsa20_poly1305''" "[0xbe, 0xde, 0, 1, 9, 9, 9, 9, 42]"]
    by auto
  from A B C show ?thesis by (intro conjI)
qed

text \<open>
  The claim as stated fails at each of the lengths it names. The empty payload, in every
  mode, opens to the empty bytes and \<open>data[0]\<close> raises \<open>IndexError\<close>; so does \<open>data[1]\<close>
  for the one-byte payload \<open>0xBE\<close>. A payload of 2000 bytes that begins
  \<open>BE DE 00 01\<close> comes back without its first 8 bytes. And in the suffix mode the
  \<open>bytearray\<close> that \<open>_get_voice_packet\<close> returns, parsed as it is, reaches \<open>box.decrypt\<close>
  with a \<open>bytearray\<close> nonce, which a box that takes only \<open>bytes\<close> refuses with
  \<open>TypeError\<close>.
\<close>

theorem parse_of_built_packet_counterexample:
  "get_voice_packet toy_ext (replicate 24 0) (toy_client ''xsalsa20_poly1305'') [] =
     (Inr (ByteArray ([0x80, 0x78, 0, 0, 0, 0, 0, 0, 0, 0, 0, 5]
                      @ ([0x80, 0x78, 0, 0, 0, 0, 0, 0, 0, 0, 0, 5] @ replicate 4 0))),
      toy_client ''xsalsa20_poly1305'')
   \<and> parse_inbound_packet toy_ext (toy_client ''xsalsa20_poly1305'')
         (Bytes ([0x80, 0x78, 0, 0, 0, 0, 0, 0, 0, 0, 0, 5]
                 @ ([0x80, 0x78, 0, 0, 0, 0, 0, 0, 0, 0, 0, 5] @ replicate 4 0)))
       = Inl IndexError
   \<and> get_voice_packet toy_ext (replicate 24 0) (toy_client ''xsalsa20_poly1305_suffix'') [] =
     (Inr (ByteArray ([0x80, 0x78, 0, 0, 0, 0, 0, 0, 0, 0, 0, 5]
                      @ replicate 16 0 @ replicate 24 0)),
      toy_client ''xsalsa20_poly1305_suffix'')
   \<and> parse_inbound_packet toy_ext (toy_client ''xsalsa20_poly1305_suffix'')
         (Bytes ([0x80, 0x78, 0, 0, 0, 0, 0, 0, 0, 0, 0, 5] @ replicate 16 0 @ replicate 24 0))
       = Inl IndexError
   \<and> get_voice_packet toy_ext (replicate 24 0) (toy_client ''xsalsa20_poly1305_lite'') [] =
     (Inr (ByteArray ([0x80, 0x78, 0, 0, 0, 0, 0, 0, 0, 0, 0, 5]
                      @ ([0, 0, 0, 0] @ replicate 12 0) @ [0, 0, 0, 0])),
      (toy_client ''xsalsa20_poly1305_lite'')\<lparr>lite_nonce := 1\<rparr>)
   \<and> parse_inbound_packet toy_ext ((toy_client ''xsalsa20_poly1305_lite'')\<lparr>lite_nonce := 1\<rparr>)
         (Bytes ([0x80, 0x78, 0, 0, 0, 0, 0, 0, 0, 0, 0, 5]
                 @ ([0, 0, 0, 0] @ replicate 12 0) @ [0, 0, 0, 0]))
       = Inl IndexError
   \<and> get_voice_packet toy_ext (replicate 24 0) (toy_client ''xsalsa20_poly1305'') [0xbe] =
     (Inr (ByteArray ([0x80, 0x78, 0, 0, 0, 0, 0, 0, 0, 0, 0, 5]
                      @ ([0x80, 0x78, 0, 0, 0, 0, 0, 0, 0, 0, 0, 5] @ replicate 4 0) @ [0xbe])),
      toy_client ''xsalsa20_poly1305'')
   \<and> parse_inbound_packet toy_ext (toy_client ''xsalsa20_poly1305'')
         (Bytes ([0x80, 0x78, 0, 0, 0, 0, 0, 0, 0, 0, 0, 5]
                 @ ([0x80, 0x78, 0, 0, 0, 0, 0, 0, 0, 0, 0, 5] @ replicate 4 0) @ [0xbe]))
       = Inl IndexError
   \<and> get_voice_packet toy_ext (replicate 24 0) (toy_client ''xsalsa20_poly1305'')
         ([0xbe, 0xde, 0, 1] @ replicate 1996 5) =
     (Inr (ByteArray ([0x80, 0x78, 0, 0, 0, 0, 0, 0, 0, 0, 0, 5]
                      @ ([0x80, 0x78, 0, 0, 0, 0, 0, 0, 0, 0, 0, 5] @ replicate 4 0)
                      @ ([0xbe, 0xde, 0, 1] @ replicate 1996 5))),
      toy_client ''xsalsa20_poly1305'')
   \<and> parse_inbound_packet toy_ext (toy_client ''xsalsa20_poly1305'')
         (Bytes ([0x80, 0x78, 0, 0, 0, 0, 0, 0, 0, 0, 0, 5]
                 @ ([0x80, 0x78, 0, 0, 0, 0, 0, 0, 0, 0, 0, 5] @ replicate 4 0)
                 @ ([0xbe, 0xde, 0, 1] @ replicate 1996 5)))
       = Inr (replicate 1992 5)
   \<and> get_voice_packet toy_ext (replicate 24 0) (toy_client ''xsalsa20_poly1305_suffix'') [7] =
     (Inr (ByteArray ([0x80, 0x78, 0, 0, 0, 0, 0, 0, 0, 0, 0, 5]
                      @ replicate 16 0 @ [7] @ replicate 24 0)),
      toy_client ''xsalsa20_poly1305_suffix'')
   \<and> parse_inbound_packet toy_ext (toy_client ''xsalsa20_poly1305_suffix'')
         (ByteArray ([0x80, 0x78, 0, 0, 0, 0, 0, 0, 0, 0, 0, 5]
                     @ replicate 16 0 @ [7] @ replicate 24 0))
       = Inl TypeError"
proof -
  have rnd: "length (replicate 24 (0::byte)) = 24" by simp
  note rt = roundtrip_is_strip_header [OF toy_box_law toy_client_key rnd]
  note bp = toy_build_plain [of "replicate 24 0"]
  note bl = toy_build_lite [of "replicate 24 0"]
  have s0: "strip_header [] = Inl IndexError" by (simp add: strip_header_def)
  have s1: "strip_header [0xbe] = Inl IndexError" by (simp add: strip_header_def)
  have s2: "strip_header ([0xbe, 0xde, 0, 1] @ replicate 1996 5) = Inr (replicate 1992 5)"
    by (simp add: strip_header_def Let_def)
  have a1: "get_voice_packet toy_ext (replicate 24 0) (toy_client ''xsalsa20_poly1305'') [] =
     (Inr (ByteArray ([0x80, 0x78, 0, 0, 0, 0, 0, 0, 0, 0, 0, 5]
                      @ ([0x80, 0x78, 0, 0, 0, 0, 0, 0, 0, 0, 0, 5] @ replicate 4 0))),
      toy_client ''xsalsa20_poly1305'')"
    using bp [of "[]"] by simp
  have a2: "parse_inbound_packet toy_ext (toy_client ''xsalsa20_poly1305'')
         (Bytes ([0x80, 0x78, 0, 0, 0, 0, 0, 0, 0, 0, 0, 5]
                 @ ([0x80, 0x78, 0, 0, 0, 0, 0, 0, 0, 0, 0, 5] @ replicate 4 0)))
       = Inl IndexError"
    using rt [OF a1] by (simp only: content.simps s0)
  have b1: "get_voice_packet toy_ext (replicate 24 0) (toy_client ''xsalsa20_poly1305_suffix'') [] =
     (Inr (ByteArray ([0x80, 0x78, 0, 0, 0, 0, 0, 0, 0, 0, 0, 5]
                      @ replicate 16 0 @ replicate 24 0)),
      toy_client ''xsalsa20_poly1305_suffix'')"
    using toy_build_suffix [of "[]"] by simp
  have b2: "parse_inbound_packet toy_ext (toy_client ''xsalsa20_poly1305_suffix'')
         (Bytes ([0x80, 0x78, 0, 0, 0, 0, 0, 0, 0, 0, 0, 5] @ replicate 16 0 @ replicate 24 0))
       = Inl IndexError"
    using rt [OF b1] by (simp only: content.simps s0)
  have c1: "get_voice_packet toy_ext (replicate 24 0) (toy_client ''xsalsa20_poly1305_lite'') [] =
     (Inr (ByteArray ([0x80, 0x78, 0, 0, 0, 0, 0, 0, 0, 0, 0, 5]
                      @ ([0, 0, 0, 0] @ replicate 12 0) @ [0, 0, 0, 0])),
      (toy_client ''xsalsa20_poly1305_lite'')\<lparr>lite_nonce := 1\<rparr>)"
    using bl [of "[]"] by simp
  have c2: "parse_inbound_packet toy_ext ((toy_client ''xsalsa20_poly1305_lite'')\<lparr>lite_nonce := 1\<rparr>)
         (Bytes ([0x80, 0x78, 0, 0, 0, 0, 0, 0, 0, 0, 0, 5]
                 @ ([0, 0, 0, 0] @ replicate 12 0) @ [0, 0, 0, 0]))
       = Inl IndexError"
    using rt [OF c1] by (simp only: content.simps s0)
  note d1 = bp [of "[0xbe]"]
  have d2: "parse_inbound_packet toy_ext (toy_client ''xsalsa20_poly1305'')
         (Bytes ([0x80, 0x78, 0, 0, 0, 0, 0, 0, 0, 0, 0, 5]
                 @ ([0x80, 0x78, 0, 0, 0, 0, 0, 0, 0, 0, 0, 5] @ replicate 4 0) @ [0xbe]))
       = Inl IndexError"
    using rt [OF d1] by (simp only: content.simps s1)
  note e1 = bp [of "[0xbe, 0xde, 0, 1] @ replicate 1996 5"]
  have e2: "parse_inbound_packet toy_ext (toy_client ''xsalsa20_poly1305'')
         (Bytes ([0x80, 0x78, 0, 0, 0, 0, 0, 0, 0, 0, 0, 5]
                 @ ([0x80, 0x78, 0, 0, 0, 0, 0, 0, 0, 0, 0, 5] @ replicate 4 0)
                 @ ([0xbe, 0xde, 0, 1] @ replicate 1996 5)))
       = Inr (replicate 1992 5)"
    using rt [OF e1] by (simp only: content.simps s2)
  note f1 = toy_build_suffix [of "[7]"]
  have f2: "parse_inbound_packet toy_ext (toy_client ''xsalsa20_poly1305_suffix'')
         (ByteArray ([0x80, 0x78, 0, 0, 0, 0, 0, 0, 0, 0, 0, 5]
                     @ replicate 16 0 @ [7] @ replicate 24 0))
       = Inl TypeError"
    by (simp add: parse_inbound_packet_def decrypt_xsalsa20_poly1305_suffix_def Let_def
        toy_client_eval toy_client_key toy_ext_def)
  show ?thesis
    by (intro conjI a1 a2 b1 b2 c1 c2 d1 d2 e1 e2 f1 f2)
qed

section \<open>Signaling callbacks and the poll loop\<close>

subsection \<open>What \<open>disconnect\<close> does\<close>

text \<open>
  With a channel object in \<open>channel\<close> the teardown runs to its end; with \<open>None\<close> or a
  string there, \<open>voice_disconnect\<close> and then \<open>cleanup\<close> raise, and the exception of
  \<open>cleanup\<close> leaves \<open>disconnect\<close> after \<open>player.stop()\<close> and \<open>ws.close()\<close> only.
\<close>

lemma disconnect_idle:
  "\<not> force \<Longrightarrow> \<not> connected self \<Longrightarrow> disconnect force self = (None, self)"
  by (simp add: disconnect_def is_connected_def)

lemma disconnect_guild_channel:
  assumes "force \<or> connected self" and "channel self = GuildChannel c g"
  shows "disconnect force self =
    (None, self\<lparr>connected := False,
       effects := effects self @ [PlayerStop]
         @ (case ws self of None \<Rightarrow> [] | Some w \<Rightarrow> [WsClose None])
         @ [LogInfo ''The voice handshake is being terminated for Channel ID %s (Guild ID %s).''
              [AInt c, AInt g],
            GuildChangeVoiceState g NoChannel, RemoveVoiceClient]
         @ (case socket self of None \<Rightarrow> [] | Some b \<Rightarrow> [SocketClose])\<rparr>)"
  using assms
  by (auto simp: disconnect_def is_connected_def voice_disconnect_def cleanup_def Let_def
      split: option.splits)

lemma disconnect_private_channel:
  assumes "force \<or> connected self" and "channel self = PrivateChannel c"
  shows "disconnect force self =
    (None, self\<lparr>connected := False,
       effects := effects self @ [PlayerStop]
         @ (case ws self of None \<Rightarrow> [] | Some w \<Rightarrow> [WsClose None])
         @ [LogInfo ''The voice handshake is being terminated for Channel ID %s (Guild ID %s).''
              [AInt c, ANone],
            ClientChangeVoiceState NoChannel, RemoveVoiceClient]
         @ (case socket self of None \<Rightarrow> [] | Some b \<Rightarrow> [SocketClose])\<rparr>)"
  using assms
  by (auto simp: disconnect_def is_connected_def voice_disconnect_def cleanup_def Let_def
      split: option.splits)

lemma disconnect_without_channel:
  assumes "force \<or> connected self"
    and "channel self = NoChannel \<or> channel self = RawChannelId s"
  shows "disconnect force self =
    (Some (AttributeError ''_get_voice_client_key''),
     self\<lparr>connected := False,
       effects := effects self @ [PlayerStop]
         @ (case ws self of None \<Rightarrow> [] | Some w \<Rightarrow> [WsClose None])\<rparr>)"
  using assms
  by (auto simp: disconnect_def is_connected_def voice_disconnect_def cleanup_def Let_def
      split: option.splits)

lemma negotiated_client_fields:
  "connected negotiated_client" "\<not> handshaking negotiated_client"
  "\<not> potentially_reconnecting negotiated_client" "effects negotiated_client = []"
  "socket negotiated_client = Some False" "channel negotiated_client = GuildChannel 7 3"
  "ws negotiated_client = Some 0" "connections negotiated_client = 0"
  "token negotiated_client = Some ''old-token''" "endpoint negotiated_client = Some ''old.example''"
  "\<not> voice_server_complete negotiated_client" "\<not> voice_state_complete negotiated_client"
  by (simp_all add: negotiated_client_def toy_client_def ssrc_setter_def init_def Let_def)

lemma state_payloads:
  "state_left ''session_id'' = Some (Some ''abc'')" "state_left ''channel_id'' = Some None"
  "state_joined ''session_id'' = Some (Some ''abc'')"
  "state_joined ''channel_id'' = Some (Some ''9'')"
  by (simp_all add: state_left_def state_joined_def)

lemma decimal_9: "decimal ''9'' = Some 9"
  by (simp add: decimal_def digit_value_def)

lemma moved_client_eq:
  "moved_client = negotiated_client\<lparr>session_id := Some ''abc'', channel := NoChannel\<rparr>"
  by (simp add: moved_client_def on_voice_state_update_def payload_item_def state_payloads
      negotiated_client_fields guild_def decimal_9 toy_ext_def Let_def)

lemma moved_client_fields:
  "connected moved_client" "\<not> handshaking moved_client"
  "\<not> potentially_reconnecting moved_client" "effects moved_client = []"
  "socket moved_client = Some False" "channel moved_client = NoChannel"
  "ws moved_client = Some 0" "connections moved_client = 0"
  by (simp_all add: moved_client_eq negotiated_client_fields)

subsection \<open>Claim C6\<close>

text \<open>
  C6. For a payload that carries \<open>session_id\<close> and \<open>channel_id\<close>: when \<open>channel_id\<close> is null
  and the client is not handshaking or is potentially reconnecting, \<open>on_voice_state_update\<close>
  stores the session id and calls \<open>disconnect()\<close>, and what the call does is what
  \<open>disconnect()\<close> does: nothing when the connected flag is clear; the whole teardown when
  it is set and \<open>channel\<close> holds a channel; and when it is set and \<open>channel\<close> holds \<open>None\<close>
  or a string, \<open>player.stop()\<close>, \<open>ws.close()\<close> and then an \<open>AttributeError\<close>. When the
  client is handshaking and not potentially reconnecting, whatever \<open>channel_id\<close> is, it
  stores the session id, sets the session-assignment condition and leaves \<open>channel\<close> as it
  was.
\<close>

theorem voice_state_update_branches:
  assumes sid: "data ''session_id'' = Some sid"
    and cid: "data ''channel_id'' = Some cid"
  shows "(cid = None \<and> (\<not> handshaking self \<or> potentially_reconnecting self) \<longrightarrow>
           on_voice_state_update ext self data = disconnect False (self\<lparr>session_id := sid\<rparr>)
           \<and> (\<not> connected self \<longrightarrow>
                on_voice_state_update ext self data = (None, self\<lparr>session_id := sid\<rparr>))
           \<and> (connected self \<longrightarrow>
                \<not> connected (snd (on_voice_state_update ext self data))
                \<and> (channel self = GuildChannel c g \<longrightarrow>
                     fst (on_voice_state_update ext self data) = None
                     \<and> effects (snd (on_voice_state_update ext self data))
                         = effects self @ [PlayerStop]
                           @ (case ws self of None \<Rightarrow> [] | Some w \<Rightarrow> [WsClose None])
                           @ [LogInfo ''The voice handshake is being terminated for Channel ID %s (Guild ID %s).''
                                [AInt c, AInt g],
                              GuildChangeVoiceState g NoChannel, RemoveVoiceClient]
                           @ (case socket self of None \<Rightarrow> [] | Some b \<Rightarrow> [SocketClose]))
                \<and> (channel self = PrivateChannel c \<longrightarrow>
                     fst (on_voice_state_update ext self data) = None
                     \<and> effects (snd (on_voice_state_update ext self data))
                         = effects self @ [PlayerStop]
                           @ (case ws self of None \<Rightarrow> [] | Some w \<Rightarrow> [WsClose None])
                           @ [LogInfo ''The voice handshake is being terminated for Channel ID %s (Guild ID %s).''
                                [AInt c, ANone],
                              ClientChangeVoiceState NoChannel, RemoveVoiceClient]
                           @ (case socket self of None \<Rightarrow> [] | Some b \<Rightarrow> [SocketClose]))
                \<and> (channel self = NoChannel \<or> channel self = RawChannelId s \<longrightarrow>
                     fst (on_voice_state_update ext self data)
                       = Some (AttributeError ''_get_voice_client_key'')
                     \<and> effects (snd (on_voice_state_update ext self data))
                         = effects self @ [PlayerStop]
                           @ (case ws self of None \<Rightarrow> [] | Some w \<Rightarrow> [WsClose None]))))
       \<and> (handshaking self \<and> \<not> potentially_reconnecting self \<longrightarrow>
           on_voice_state_update ext self data
             = (None, self\<lparr>session_id := sid, voice_state_complete := True\<rparr>)
           \<and> voice_state_complete (snd (on_voice_state_update ext self data))
           \<and> channel (snd (on_voice_state_update ext self data)) = channel self
           \<and> effects (snd (on_voice_state_update ext self data)) = effects self)"
proof (intro conjI impI)
  assume a: "cid = None \<and> (\<not> handshaking self \<or> potentially_reconnecting self)"
  then show call: "on_voice_state_update ext self data
      = disconnect False (self\<lparr>session_id := sid\<rparr>)"
    using sid cid by (auto simp: on_voice_state_update_def payload_item_def Let_def)
  {
    assume "\<not> connected self"
    then show "on_voice_state_update ext self data = (None, self\<lparr>session_id := sid\<rparr>)"
      unfolding call by (simp add: disconnect_idle)
  }
  {
    assume c: "connected self"
    then have on: "False \<or> connected (self\<lparr>session_id := sid\<rparr>)" by simp
    show "\<not> connected (snd (on_voice_state_update ext self data))"
      unfolding call using c
      by (auto simp: disconnect_def is_connected_def voice_disconnect_def cleanup_def Let_def
          split: option.splits channel.splits)
    {
      assume ch: "channel self = GuildChannel c g"
      then have ch': "channel (self\<lparr>session_id := sid\<rparr>) = GuildChannel c g" by simp
      show "fst (on_voice_state_update ext self data) = None"
        unfolding call disconnect_guild_channel [OF on ch'] by simp
      show "effects (snd (on_voice_state_update ext self data))
          = effects self @ [PlayerStop]
            @ (case ws self of None \<Rightarrow> [] | Some w \<Rightarrow> [WsClose None])
            @ [LogInfo ''The voice handshake is being terminated for Channel ID %s (Guild ID %s).''
                 [AInt c, AInt g],
               GuildChangeVoiceState g NoChannel, RemoveVoiceClient]
            @ (case socket self of None \<Rightarrow> [] | Some b \<Rightarrow> [SocketClose])"
        unfolding call disconnect_guild_channel [OF on ch'] by simp
    }
    {
      assume ch: "channel self = PrivateChannel c"
      then have ch': "channel (self\<lparr>session_id := sid\<rparr>) = PrivateChannel c" by simp
      show "fst (on_voice_state_update ext self data) = None"
        unfolding call disconnect_private_channel [OF on ch'] by simp
      show "effects (snd (on_voice_state_update ext self data))
          = effects self @ [PlayerStop]
            @ (case ws self of None \<Rightarrow> [] | Some w \<Rightarrow> [WsClose None])
            @ [LogInfo ''The voice handshake is being terminated for Channel ID %s (Guild ID %s).''
                 [AInt c, ANone],
               ClientChangeVoiceState NoChannel, RemoveVoiceClient]
            @ (case socket self of None \<Rightarrow> [] | Some b \<Rightarrow> [SocketClose])"
        unfolding call disconnect_private_channel [OF on ch'] by simp
    }
    {
      assume ch: "channel self = NoChannel \<or> channel self = RawChannelId s"
      then have ch': "channel (self\<lparr>session_id := sid\<rparr>) = NoChannel
          \<or> channel (self\<lparr>session_id := sid\<rparr>) = RawChannelId s" by simp
      show "fst (on_voice_state_update ext self data)
          = Some (AttributeError ''_get_voice_client_key'')"
        unfolding call disconnect_without_channel [OF on ch'] by simp
      show "effects (snd (on_voice_state_update ext self data))
          = effects self @ [PlayerStop]
            @ (case ws self of None \<Rightarrow> [] | Some w \<Rightarrow> [WsClose None])"
        unfolding call disconnect_without_channel [OF on ch'] by simp
    }
  }
next
  assume b: "handshaking self \<and> \<not> potentially_reconnecting self"
  then show eq: "on_voice_state_update ext self data
      = (None, self\<lparr>session_id := sid, voice_state_complete := True\<rparr>)"
    using sid cid by (auto simp: on_voice_state_update_def payload_item_def Let_def)
  show "voice_state_complete (snd (on_voice_state_update ext self data))"
    unfolding eq by simp
  show "channel (snd (on_voice_state_update ext self data)) = channel self"
    unfolding eq by simp
  show "effects (snd (on_voice_state_update ext self data)) = effects self"
    unfolding eq by simp
qed

theorem voice_state_update_branches_witness:
  "on_voice_state_update toy_ext negotiated_client state_left
     = disconnect False (negotiated_client\<lparr>session_id := Some ''abc''\<rparr>)
   \<and> fst (on_voice_state_update toy_ext negotiated_client state_left) = None
   \<and> \<not> connected (snd (on_voice_state_update toy_ext negotiated_client state_left))
   \<and> effects (snd (on_voice_state_update toy_ext negotiated_client state_left))
       = [PlayerStop, WsClose None,
          LogInfo ''The voice handshake is being terminated for Channel ID %s (Guild ID %s).''
            [AInt 7, AInt 3],
          GuildChangeVoiceState 3 NoChannel, RemoveVoiceClient, SocketClose]
   \<and> fst (on_voice_state_update toy_ext moved_client state_left)
       = Some (AttributeError ''_get_voice_client_key'')
   \<and> effects (snd (on_voice_state_update toy_ext moved_client state_left))
       = [PlayerStop, WsClose None]
   \<and> on_voice_state_update toy_ext (negotiated_client\<lparr>connected := False\<rparr>) state_left
       = (None, negotiated_client\<lparr>connected := False, session_id := Some ''abc''\<rparr>)
   \<and> on_voice_state_update toy_ext (negotiated_client\<lparr>handshaking := True\<rparr>) state_joined
     = (None, negotiated_client
          \<lparr>handshaking := True, session_id := Some ''abc'', voice_state_complete := True\<rparr>)
   \<and> channel (snd (on_voice_state_update toy_ext
          (negotiated_client\<lparr>handshaking := True\<rparr>) state_joined)) = GuildChannel 7 3"
proof -
  let ?c = "negotiated_client"
  note f = negotiated_client_fields
  note m = moved_client_fields
  have h1: "None = (None :: string option) \<and> (\<not> handshaking ?c \<or> potentially_reconnecting ?c)"
    by (simp add: f)
  note left = voice_state_update_branches
    [OF state_payloads(1,2), of ?c toy_ext 7 3, THEN conjunct1, THEN mp, OF h1]
  note a = left [THEN conjunct1]
  note con = left [THEN conjunct2, THEN conjunct2, THEN mp, OF f(1)]
  note b = con [THEN conjunct1]
  note gc = con [THEN conjunct2, THEN conjunct1, THEN mp, OF f(6)]
  note a' = gc [THEN conjunct1]
  have c: "effects (snd (on_voice_state_update toy_ext ?c state_left))
       = [PlayerStop, WsClose None,
          LogInfo ''The voice handshake is being terminated for Channel ID %s (Guild ID %s).''
            [AInt 7, AInt 3],
          GuildChangeVoiceState 3 NoChannel, RemoveVoiceClient, SocketClose]"
    using gc [THEN conjunct2] by (simp add: f)
  have h1m: "None = (None :: string option)
      \<and> (\<not> handshaking moved_client \<or> potentially_reconnecting moved_client)"
    by (simp add: m)
  have nc: "channel moved_client = NoChannel \<or> channel moved_client = RawChannelId []"
    by (simp add: m)
  note lost = voice_state_update_branches
    [OF state_payloads(1,2), of moved_client toy_ext _ _ "[]", THEN conjunct1, THEN mp, OF h1m,
     THEN conjunct2, THEN conjunct2, THEN mp, OF m(1),
     THEN conjunct2, THEN conjunct2, THEN conjunct2, THEN mp, OF nc]
  note d = lost [THEN conjunct1]
  have e: "effects (snd (on_voice_state_update toy_ext moved_client state_left))
       = [PlayerStop, WsClose None]"
    using lost [THEN conjunct2] by (simp add: m)
  have h1i: "None = (None :: string option)
      \<and> (\<not> handshaking (?c\<lparr>connected := False\<rparr>)
          \<or> potentially_reconnecting (?c\<lparr>connected := False\<rparr>))"
    by (simp add: f)
  have idle: "\<not> connected (?c\<lparr>connected := False\<rparr>)" by simp
  note i = voice_state_update_branches
    [OF state_payloads(1,2), of "?c\<lparr>connected := False\<rparr>" toy_ext, THEN conjunct1, THEN mp,
     OF h1i, THEN conjunct2, THEN conjunct1, THEN mp, OF idle]
  have h2: "handshaking (?c\<lparr>handshaking := True\<rparr>)
      \<and> \<not> potentially_reconnecting (?c\<lparr>handshaking := True\<rparr>)"
    by (simp add: f)
  note joined = voice_state_update_branches
    [OF state_payloads(3,4), of "?c\<lparr>handshaking := True\<rparr>" toy_ext, THEN conjunct2, THEN mp,
     OF h2]
  note j = joined [THEN conjunct1]
  have k: "channel (snd (on_voice_state_update toy_ext
          (?c\<lparr>handshaking := True\<rparr>) state_joined)) = GuildChannel 7 3"
    using joined [THEN conjunct2, THEN conjunct2, THEN conjunct1] by (simp add: f)
  show ?thesis
    by (intro conjI a a' b c d e i j k)
qed

subsection \<open>Close code 1000 in the poll loop\<close>

text \<open>
  When \<open>ws.poll_event()\<close> raises \<open>ConnectionClosed\<close> with code 1000, the turn logs the
  closure and calls \<open>disconnect()\<close>; the loop ends there, by \<open>break\<close> when \<open>disconnect()\<close>
  returns and by its exception when it raises.
\<close>

lemma poll_close_1000:
  assumes "ws self = Some w" and "poll_result env = PollFails (ConnectionClosed 1000)"
  shows "poll_voice_ws ext reconnect self (env # envs)
      = (case disconnect False
                (self\<lparr>effects := effects self @
                   [WsPollEvent,
                    LogInfo ''Disconnecting from voice normally, close code %d.'' [AInt 1000]]\<rparr>) of
           (None, self1) \<Rightarrow> (Exited, self1)
         | (Some e, self1) \<Rightarrow> (Raised e, self1))"
  using assms
  by (simp add: poll_voice_ws_iteration_def disconnect_and_break_def Let_def
      split: prod.splits option.splits)

lemma disconnect_frame:
  "connections (snd (disconnect force self)) = connections self"
  "handshaking (snd (disconnect force self)) = handshaking self"
  "potentially_reconnecting (snd (disconnect force self)) = potentially_reconnecting self"
  "ws (snd (disconnect force self)) = ws self"
  "socket (snd (disconnect force self)) = socket self"
  "channel (snd (disconnect force self)) = channel self"
  by (auto simp: disconnect_def is_connected_def voice_disconnect_def cleanup_def Let_def
      split: option.splits channel.splits)

lemma disconnect_clears:
  "\<not> connected (snd (disconnect False self))"
  by (auto simp: disconnect_def is_connected_def voice_disconnect_def cleanup_def Let_def
      split: option.splits channel.splits)

text \<open>
  For every client with a control connection, a closure with code 1000 ends the loop in
  that turn, whatever \<open>reconnect\<close> is and whatever the environment would supply next.
  Neither \<open>potential_resume\<close> nor \<open>potential_reconnect\<close> runs: no handshake is prepared, the
  control connection stays the one it was, and when \<open>channel\<close> holds a channel the effects
  are exactly the poll, the log line and the teardown of a connected client, after which
  the loop has exited.
\<close>

theorem close_1000_never_reconnects:
  assumes ws: "ws self = Some w"
    and closed: "poll_result env = PollFails (ConnectionClosed 1000)"
  shows "fst (poll_voice_ws ext reconnect self (env # envs)) \<noteq> Polling
    \<and> connections (snd (poll_voice_ws ext reconnect self (env # envs))) = connections self
    \<and> handshaking (snd (poll_voice_ws ext reconnect self (env # envs))) = handshaking self
    \<and> potentially_reconnecting (snd (poll_voice_ws ext reconnect self (env # envs)))
        = potentially_reconnecting self
    \<and> ws (snd (poll_voice_ws ext reconnect self (env # envs))) = ws self
    \<and> \<not> connected (snd (poll_voice_ws ext reconnect self (env # envs)))
    \<and> (channel self = GuildChannel c g \<longrightarrow>
          fst (poll_voice_ws ext reconnect self (env # envs)) = Exited
          \<and> effects (snd (poll_voice_ws ext reconnect self (env # envs)))
              = effects self @
                [WsPollEvent,
                 LogInfo ''Disconnecting from voice normally, close code %d.'' [AInt 1000]]
                @ (if connected self
                   then [PlayerStop, WsClose None,
                         LogInfo ''The voice handshake is being terminated for Channel ID %s (Guild ID %s).''
                           [AInt c, AInt g],
                         GuildChangeVoiceState g NoChannel, RemoveVoiceClient]
                        @ (case socket self of None \<Rightarrow> [] | Some b \<Rightarrow> [SocketClose])
                   else []))
    \<and> (channel self = PrivateChannel c \<longrightarrow>
          fst (poll_voice_ws ext reconnect self (env # envs)) = Exited
          \<and> effects (snd (poll_voice_ws ext reconnect self (env # envs)))
              = effects self @
                [WsPollEvent,
                 LogInfo ''Disconnecting from voice normally, close code %d.'' [AInt 1000]]
                @ (if connected self
                   then [PlayerStop, WsClose None,
                         LogInfo ''The voice handshake is being terminated for Channel ID %s (Guild ID %s).''
                           [AInt c, ANone],
                         ClientChangeVoiceState NoChannel, RemoveVoiceClient]
                        @ (case socket self of None \<Rightarrow> [] | Some b \<Rightarrow> [SocketClose])
                   else []))"
proof -
  define self0 where "self0 = self\<lparr>effects := effects self @
      [WsPollEvent, LogInfo ''Disconnecting from voice normally, close code %d.'' [AInt 1000]]\<rparr>"
  obtain r self1 where d: "disconnect False self0 = (r, self1)"
    by (cases "disconnect False self0")
  have p: "poll_voice_ws ext reconnect self (env # envs)
      = (case r of None \<Rightarrow> (Exited, self1) | Some e \<Rightarrow> (Raised e, self1))"
    using poll_close_1000 [OF ws closed, of ext reconnect envs] d
    by (simp add: self0_def split: option.splits)
  have s1: "snd (poll_voice_ws ext reconnect self (env # envs)) = snd (disconnect False self0)"
    unfolding p d by (simp split: option.splits)
  have st: "fst (poll_voice_ws ext reconnect self (env # envs)) \<noteq> Polling"
    unfolding p by (simp split: option.splits)
  have fr: "connections (snd (poll_voice_ws ext reconnect self (env # envs))) = connections self"
    "handshaking (snd (poll_voice_ws ext reconnect self (env # envs))) = handshaking self"
    "potentially_reconnecting (snd (poll_voice_ws ext reconnect self (env # envs)))
        = potentially_reconnecting self"
    "ws (snd (poll_voice_ws ext reconnect self (env # envs))) = ws self"
    unfolding s1 by (simp_all add: disconnect_frame self0_def)
  have nc: "\<not> connected (snd (poll_voice_ws ext reconnect self (env # envs)))"
    unfolding s1 by (rule disconnect_clears)
  have g: "fst (poll_voice_ws ext reconnect self (env # envs)) = Exited
          \<and> effects (snd (poll_voice_ws ext reconnect self (env # envs)))
              = effects self @
                [WsPollEvent,
                 LogInfo ''Disconnecting from voice normally, close code %d.'' [AInt 1000]]
                @ (if connected self
                   then [PlayerStop, WsClose None,
                         LogInfo ''The voice handshake is being terminated for Channel ID %s (Guild ID %s).''
                           [AInt c, AInt g],
                         GuildChangeVoiceState g NoChannel, RemoveVoiceClient]
                        @ (case socket self of None \<Rightarrow> [] | Some b \<Rightarrow> [SocketClose])
                   else [])"
    if ch: "channel self = GuildChannel c g"
  proof (cases "connected self")
    case True
    then have on: "False \<or> connected self0" by (simp add: self0_def)
    have ch0: "channel self0 = GuildChannel c g" using ch by (simp add: self0_def)
    show ?thesis
      using poll_close_1000 [OF ws closed, of ext reconnect envs] True ws
      unfolding self0_def [symmetric] disconnect_guild_channel [OF on ch0]
      by (simp add: self0_def)
  next
    case False
    then have "disconnect False self0 = (None, self0)"
      by (simp add: disconnect_idle self0_def)
    then show ?thesis
      using poll_close_1000 [OF ws closed, of ext reconnect envs] False
      unfolding self0_def [symmetric] by (simp add: self0_def)
  qed
  have pc: "fst (poll_voice_ws ext reconnect self (env # envs)) = Exited
          \<and> effects (snd (poll_voice_ws ext reconnect self (env # envs)))
              = effects self @
                [WsPollEvent,
                 LogInfo ''Disconnecting from voice normally, close code %d.'' [AInt 1000]]
                @ (if connected self
                   then [PlayerStop, WsClose None,
                         LogInfo ''The voice handshake is being terminated for Channel ID %s (Guild ID %s).''
                           [AInt c, ANone],
                         ClientChangeVoiceState NoChannel, RemoveVoiceClient]
                        @ (case socket self of None \<Rightarrow> [] | Some b \<Rightarrow> [SocketClose])
                   else [])"
    if ch: "channel self = PrivateChannel c"
  proof (cases "connected self")
    case True
    then have on: "False \<or> connected self0" by (simp add: self0_def)
    have ch0: "channel self0 = PrivateChannel c" using ch by (simp add: self0_def)
    show ?thesis
      using poll_close_1000 [OF ws closed, of ext reconnect envs] True ws
      unfolding self0_def [symmetric] disconnect_private_channel [OF on ch0]
      by (simp add: self0_def)
  next
    case False
    then have "disconnect False self0 = (None, self0)"
      by (simp add: disconnect_idle self0_def)
    then show ?thesis
      using poll_close_1000 [OF ws closed, of ext reconnect envs] False
      unfolding self0_def [symmetric] by (simp add: self0_def)
  qed
  show ?thesis
    using st fr nc g pc by (intro conjI impI) blast+
qed

lemma closure_env_1000: "poll_result (closure_env 1000) = PollFails (ConnectionClosed 1000)"
  by (simp add: closure_env_def)

theorem close_1000_never_reconnects_witness:
  "fst (poll_voice_ws toy_ext True negotiated_client [closure_env 1000, closure_env 4015])
     = Exited
   \<and> connections (snd (poll_voice_ws toy_ext True negotiated_client
          [closure_env 1000, closure_env 4015])) = 0
   \<and> effects (snd (poll_voice_ws toy_ext True negotiated_client
          [closure_env 1000, closure_env 4015]))
       = [WsPollEvent,
          LogInfo ''Disconnecting from voice normally, close code %d.'' [AInt 1000],
          PlayerStop, WsClose None,
          LogInfo ''The voice handshake is being terminated for Channel ID %s (Guild ID %s).''
            [AInt 7, AInt 3],
          GuildChangeVoiceState 3 NoChannel, RemoveVoiceClient, SocketClose]"
proof -
  note t = close_1000_never_reconnects
    [OF negotiated_client_fields(7) closure_env_1000, of toy_ext True "[closure_env 4015]" 7 3]
  note gc = t [THEN conjunct2, THEN conjunct2, THEN conjunct2, THEN conjunct2, THEN conjunct2,
      THEN conjunct2, THEN conjunct1, THEN mp, OF negotiated_client_fields(6)]
  note a = gc [THEN conjunct1]
  have b: "connections (snd (poll_voice_ws toy_ext True negotiated_client
          [closure_env 1000, closure_env 4015])) = 0"
    using t [THEN conjunct2, THEN conjunct1] by (simp only: negotiated_client_fields)
  have c: "effects (snd (poll_voice_ws toy_ext True negotiated_client
          [closure_env 1000, closure_env 4015]))
       = [WsPollEvent,
          LogInfo ''Disconnecting from voice normally, close code %d.'' [AInt 1000],
          PlayerStop, WsClose None,
          LogInfo ''The voice handshake is being terminated for Channel ID %s (Guild ID %s).''
            [AInt 7, AInt 3],
          GuildChangeVoiceState 3 NoChannel, RemoveVoiceClient, SocketClose]"
    using gc [THEN conjunct2] by (simp add: negotiated_client_fields)
  show ?thesis
    by (intro conjI a b c)
qed

subsection \<open>Claim C8\<close>

text \<open>
  C8 fails on a connected client whose \<open>channel\<close> attribute holds \<open>None\<close>, the state that
  \<open>on_voice_state_update\<close> leaves when the lookup of the new channel finds nothing. At a
  closure with code 1000 the loop calls \<open>disconnect()\<close>, which stops the player, closes
  the control connection and raises \<open>AttributeError\<close>, in \<open>voice_disconnect\<close> and again in
  \<open>cleanup\<close>: the loop is left by that exception, no voice-state change is requested, the
  client is not removed from the cache and the socket is not closed. The same closure on
  the client before the move runs the whole teardown and exits.
\<close>

theorem close_1000_lost_channel:
  "moved_client = negotiated_client\<lparr>session_id := Some ''abc'', channel := NoChannel\<rparr>
   \<and> connected moved_client
   \<and> poll_voice_ws toy_ext True moved_client [closure_env 1000]
       = (Raised (AttributeError ''_get_voice_client_key''),
          moved_client\<lparr>connected := False,
            effects := [WsPollEvent,
                        LogInfo ''Disconnecting from voice normally, close code %d.'' [AInt 1000],
                        PlayerStop, WsClose None]\<rparr>)
   \<and> socket (snd (poll_voice_ws toy_ext True moved_client [closure_env 1000])) = Some False
   \<and> poll_voice_ws toy_ext True negotiated_client [closure_env 1000]
       = (Exited,
          negotiated_client\<lparr>connected := False,
            effects := [WsPollEvent,
                        LogInfo ''Disconnecting from voice normally, close code %d.'' [AInt 1000],
                        PlayerStop, WsClose None,
                        LogInfo ''The voice handshake is being terminated for Channel ID %s (Guild ID %s).''
                          [AInt 7, AInt 3],
                        GuildChangeVoiceState 3 NoChannel, RemoveVoiceClient, SocketClose]\<rparr>)"
proof -
  let ?log = "[WsPollEvent,
      LogInfo ''Disconnecting from voice normally, close code %d.'' [AInt 1000]]"
  have m: "poll_voice_ws toy_ext True moved_client [closure_env 1000]
       = (Raised (AttributeError ''_get_voice_client_key''),
          moved_client\<lparr>connected := False,
            effects := [WsPollEvent,
                        LogInfo ''Disconnecting from voice normally, close code %d.'' [AInt 1000],
                        PlayerStop, WsClose None]\<rparr>)"
  proof -
    have on: "False \<or> connected (moved_client\<lparr>effects := effects moved_client @ ?log\<rparr>)"
      by (simp add: moved_client_fields)
    have ch: "channel (moved_client\<lparr>effects := effects moved_client @ ?log\<rparr>) = NoChannel
        \<or> channel (moved_client\<lparr>effects := effects moved_client @ ?log\<rparr>) = RawChannelId []"
      by (simp add: moved_client_fields)
    show ?thesis
      unfolding poll_close_1000 [OF moved_client_fields(7) closure_env_1000]
        disconnect_without_channel [OF on ch]
      by (simp add: moved_client_fields)
  qed
  have n: "poll_voice_ws toy_ext True negotiated_client [closure_env 1000]
       = (Exited,
          negotiated_client\<lparr>connected := False,
            effects := [WsPollEvent,
                        LogInfo ''Disconnecting from voice normally, close code %d.'' [AInt 1000],
                        PlayerStop, WsClose None,
                        LogInfo ''The voice handshake is being terminated for Channel ID %s (Guild ID %s).''
                          [AInt 7, AInt 3],
                        GuildChangeVoiceState 3 NoChannel, RemoveVoiceClient, SocketClose]\<rparr>)"
  proof -
    have on: "False \<or> connected (negotiated_client\<lparr>effects := effects negotiated_client @ ?log\<rparr>)"
      by (simp add: negotiated_client_fields)
    have ch: "channel (negotiated_client\<lparr>effects := effects negotiated_client @ ?log\<rparr>)
        = GuildChannel 7 3"
      by (simp add: negotiated_client_fields)
    show ?thesis
      unfolding poll_close_1000 [OF negotiated_client_fields(7) closure_env_1000]
        disconnect_guild_channel [OF on ch]
      by (simp add: negotiated_client_fields)
  qed
  have s: "socket (snd (poll_voice_ws toy_ext True moved_client [closure_env 1000])) = Some False"
    unfolding m by (simp add: moved_client_fields)
  show ?thesis
    by (intro conjI moved_client_eq moved_client_fields(1) m s n)
qed

subsection \<open>Claim C4\<close>

text \<open>
  C4, as amended. When \<open>endpoint\<close> or \<open>token\<close> is absent from the payload,
  \<open>on_voice_server_update\<close> returns without completing a condition and leaves \<open>endpoint\<close>,
  \<open>endpoint_ip\<close> and the socket as they were; \<open>token\<close> and \<open>server_id\<close>, however, are
  overwritten with what the payload holds (\<open>None\<close> for an absent token), unless the
  server-assignment condition was already set and the payload is ignored. A payload with
  both fields, arriving before the condition is set, replaces \<open>token\<close> and \<open>endpoint\<close>
  together.
\<close>

theorem voice_server_update_absent_field:
  "(payload_get data ''endpoint'' = None \<or> payload_get data ''token'' = None \<longrightarrow>
      fst (on_voice_server_update ext self data) = None
      \<and> voice_state_complete (snd (on_voice_server_update ext self data))
          = voice_state_complete self
      \<and> voice_server_complete (snd (on_voice_server_update ext self data))
          = voice_server_complete self
      \<and> endpoint (snd (on_voice_server_update ext self data)) = endpoint self
      \<and> endpoint_ip (snd (on_voice_server_update ext self data)) = endpoint_ip self
      \<and> socket (snd (on_voice_server_update ext self data)) = socket self
      \<and> token (snd (on_voice_server_update ext self data))
          = (if voice_server_complete self then token self else payload_get data ''token'')
      \<and> server_id (snd (on_voice_server_update ext self data))
          = (if voice_server_complete self then server_id self
             else case get_as_snowflake ext data ''guild_id'' of
                    None \<Rightarrow> get_as_snowflake ext data ''channel_id''
                  | Some g \<Rightarrow> Some g))
   \<and> (payload_get data ''endpoint'' = Some ep \<and> payload_get data ''token'' = Some tok
        \<and> \<not> voice_server_complete self \<longrightarrow>
      token (snd (on_voice_server_update ext self data)) = Some tok
      \<and> endpoint (snd (on_voice_server_update ext self data))
          = Some (if take 6 (rpartition_head CHR '':'' ep) = ''wss://''
                  then drop 6 (rpartition_head CHR '':'' ep)
                  else rpartition_head CHR '':'' ep)
      \<and> (handshaking self \<longrightarrow>
            fst (on_voice_server_update ext self data) = None
            \<and> voice_server_complete (snd (on_voice_server_update ext self data))))"
  by (auto simp: on_voice_server_update_def Let_def split: option.splits)

lemma payload_eval:
  "payload_get server_without_endpoint ''endpoint'' = None"
  "payload_get server_without_endpoint ''token'' = Some ''new-token''"
  "payload_get server_complete ''endpoint'' = Some ''wss://new.example:443''"
  "payload_get server_complete ''token'' = Some ''new-token''"
  by (simp_all add: payload_get_def server_without_endpoint_def server_complete_def)

lemma rpartition_eval:
  "rpartition_head CHR '':'' ''wss://new.example:443'' = ''wss://new.example''"
  by (simp add: rpartition_head_def)

theorem voice_server_update_absent_field_witness:
  "fst (on_voice_server_update toy_ext negotiated_client server_without_endpoint) = None
   \<and> \<not> voice_server_complete
        (snd (on_voice_server_update toy_ext negotiated_client server_without_endpoint))
   \<and> endpoint (snd (on_voice_server_update toy_ext negotiated_client server_without_endpoint))
       = Some ''old.example''
   \<and> token (snd (on_voice_server_update toy_ext negotiated_client server_without_endpoint))
       = Some ''new-token''
   \<and> token (snd (on_voice_server_update toy_ext
        (negotiated_client\<lparr>handshaking := True\<rparr>) server_complete)) = Some ''new-token''
   \<and> endpoint (snd (on_voice_server_update toy_ext
        (negotiated_client\<lparr>handshaking := True\<rparr>) server_complete)) = Some ''new.example''
   \<and> voice_server_complete (snd (on_voice_server_update toy_ext
        (negotiated_client\<lparr>handshaking := True\<rparr>) server_complete))"
proof -
  have h1: "payload_get server_without_endpoint ''endpoint'' = None
      \<or> payload_get server_without_endpoint ''token'' = None"
    by (simp add: payload_eval)
  note absent = voice_server_update_absent_field
    [of server_without_endpoint toy_ext negotiated_client, THEN conjunct1, THEN mp, OF h1]
  have a: "fst (on_voice_server_update toy_ext negotiated_client server_without_endpoint) = None"
    using absent by blast
  have b: "\<not> voice_server_complete
        (snd (on_voice_server_update toy_ext negotiated_client server_without_endpoint))"
    using absent negotiated_client_fields(11) by blast
  have c: "endpoint (snd (on_voice_server_update toy_ext negotiated_client server_without_endpoint))
       = Some ''old.example''"
    using absent negotiated_client_fields(10) by metis
  have d: "token (snd (on_voice_server_update toy_ext negotiated_client server_without_endpoint))
       = Some ''new-token''"
    using absent negotiated_client_fields(11) payload_eval(2) by metis
  have h2: "payload_get server_complete ''endpoint'' = Some ''wss://new.example:443''
      \<and> payload_get server_complete ''token'' = Some ''new-token''
      \<and> \<not> voice_server_complete (negotiated_client\<lparr>handshaking := True\<rparr>)"
    by (simp add: payload_eval negotiated_client_fields)
  note present = voice_server_update_absent_field
    [of server_complete toy_ext "negotiated_client\<lparr>handshaking := True\<rparr>"
        "''wss://new.example:443''" "''new-token''", THEN conjunct2, THEN mp, OF h2]
  have e: "token (snd (on_voice_server_update toy_ext
        (negotiated_client\<lparr>handshaking := True\<rparr>) server_complete)) = Some ''new-token''"
    using present by blast
  have f: "endpoint (snd (on_voice_server_update toy_ext
        (negotiated_client\<lparr>handshaking := True\<rparr>) server_complete)) = Some ''new.example''"
    using present [THEN conjunct2, THEN conjunct1] by (simp add: rpartition_eval)
  have g: "voice_server_complete (snd (on_voice_server_update toy_ext
        (negotiated_client\<lparr>handshaking := True\<rparr>) server_complete))"
    using present [THEN conjunct2, THEN conjunct2] by simp
  from a b c d e f g show ?thesis by blast
qed

text \<open>
  The claim as stated fails: a payload with a token and no endpoint replaces the token of
  an earlier negotiation and leaves its endpoint, so the client holds the new token next
  to the old endpoint.
\<close>

theorem voice_server_update_counterexample:
  "token negotiated_client = Some ''old-token''
   \<and> endpoint negotiated_client = Some ''old.example''
   \<and> payload_get server_without_endpoint ''endpoint'' = None
   \<and> token (snd (on_voice_server_update toy_ext negotiated_client server_without_endpoint))
       = Some ''new-token''
   \<and> endpoint (snd (on_voice_server_update toy_ext negotiated_client server_without_endpoint))
       = Some ''old.example''"
  by (simp add: on_voice_server_update_def Let_def payload_eval negotiated_client_fields
      toy_ext_def)

end
